(* ===== verification/Prelude.thy ===== *)
theory Prelude
  imports Main "HOL-Library.Sublist" "HOL-Library.Word"
begin

text \<open>
  Shared vocabulary of the xeus-sqlite development: the two ways a C++ statement of
  \<open>src/src/xeus_sqlite_interpreter.cpp\<close> can fail (an exception derived from
  \<open>std::runtime_error\<close>, which \<open>execute_request_impl\<close> catches, or undefined
  behaviour such as a null \<open>unique_ptr\<close> dereference or an out-of-range
  \<open>std::vector::operator[]\<close>, which nothing catches), an exception-state monad in
  which the handlers thread the interpreter's state (a thrown exception keeps the
  state reached at the throw, as C++ does), the standard-library string and vector
  operations the interpreter calls, and \<open>std::to_string\<close> on unsigned integers
  with its inverse.
\<close>

named_theorems exc_simps "unfolding rules of the exception-state monad"

section \<open>Errors and the exception-state monad\<close>

datatype error =
    Runtime_error string        \<comment> \<open>\<open>std::runtime_error\<close> or \<open>SQLite::Exception\<close>\<close>
  | Undefined_behaviour string  \<comment> \<open>null dereference, index out of range\<close>
  | Diverges                    \<comment> \<open>the call never returns\<close>

type_synonym 'a result = "error + 'a"

text \<open>A computation on a state \<open>'s\<close>: its outcome and the state it leaves.\<close>

type_synonym ('a, 's) exc = "'s \<Rightarrow> 'a result \<times> 's"

definition returnE :: "'a \<Rightarrow> ('a, 's) exc" where
  "returnE a s = (Inr a, s)"

definition throwE :: "error \<Rightarrow> ('a, 's) exc" where
  "throwE e s = (Inl e, s)"

definition bindE :: "('a, 's) exc \<Rightarrow> ('a \<Rightarrow> ('b, 's) exc) \<Rightarrow> ('b, 's) exc" where
  "bindE m f s = (case m s of (Inl e, s') \<Rightarrow> (Inl e, s') | (Inr a, s') \<Rightarrow> f a s')"

definition liftE :: "'a result \<Rightarrow> ('a, 's) exc" where
  "liftE r s = (r, s)"

definition modifyE :: "('s \<Rightarrow> 's) \<Rightarrow> (unit, 's) exc" where
  "modifyE f s = (Inr (), f s)"

definition getsE :: "('s \<Rightarrow> 'a) \<Rightarrow> ('a, 's) exc" where
  "getsE f s = (Inr (f s), s)"

definition is_runtime_error :: "error \<Rightarrow> bool" where
  "is_runtime_error e = (case e of Runtime_error _ \<Rightarrow> True | Undefined_behaviour _ \<Rightarrow> False | Diverges \<Rightarrow> False)"

lemma bindE_Inr [exc_simps]: "m s = (Inr a, s') \<Longrightarrow> bindE m f s = f a s'"
  by (simp add: bindE_def)

lemma bindE_Inl [exc_simps]: "m s = (Inl e, s') \<Longrightarrow> bindE m f s = (Inl e, s')"
  by (simp add: bindE_def)

lemma bindE_returnE [simp]: "bindE (returnE a) f = f a"
  by (simp add: bindE_def returnE_def fun_eq_iff)

lemma bindE_throwE [simp]: "bindE (throwE e) f = throwE e"
  by (simp add: bindE_def throwE_def fun_eq_iff)

lemma bindE_liftE [simp]:
  "bindE (liftE r) f s = (case r of Inl e \<Rightarrow> (Inl e, s) | Inr a \<Rightarrow> f a s)"
  by (simp add: bindE_def liftE_def split: sum.split)

lemma bindE_modifyE [simp]: "bindE (modifyE g) f s = f () (g s)"
  by (simp add: bindE_def modifyE_def)

lemma bindE_getsE [simp]: "bindE (getsE g) f s = f (g s) s"
  by (simp add: bindE_def getsE_def)

lemma bindE_assoc: "bindE (bindE m f) g = bindE m (\<lambda>a. bindE (f a) g)"
  by (simp add: bindE_def fun_eq_iff split: prod.split sum.split)

lemmas exc_defs [exc_simps] = returnE_def throwE_def liftE_def modifyE_def getsE_def

text \<open>
  A property of the state kept by every step of a computation, whatever its outcome;
  it composes through \<open>bindE\<close>.
\<close>

definition preserves :: "('s \<Rightarrow> bool) \<Rightarrow> ('a, 's) exc \<Rightarrow> bool" where
  "preserves P m \<longleftrightarrow> (\<forall>s. P s \<longrightarrow> P (snd (m s)))"

lemma preservesI [intro?]: "(\<And>s. P s \<Longrightarrow> P (snd (m s))) \<Longrightarrow> preserves P m"
  by (simp add: preserves_def)

lemma preservesD: "preserves P m \<Longrightarrow> P s \<Longrightarrow> m s = (r, s') \<Longrightarrow> P s'"
  by (metis preserves_def snd_conv)

lemma preserves_bindE [intro]:
  "preserves P m \<Longrightarrow> (\<And>a. preserves P (f a)) \<Longrightarrow> preserves P (bindE m f)"
  unfolding preserves_def bindE_def by (auto split: prod.split sum.split)

lemma preserves_simple [intro]:
  "preserves P (returnE a)" "preserves P (throwE e)" "preserves P (liftE r)" "preserves P (getsE g)"
  by (simp_all add: preserves_def exc_defs)

lemma preserves_if [intro]: "preserves P m1 \<Longrightarrow> preserves P m2 \<Longrightarrow> preserves P (if b then m1 else m2)"
  by simp

lemma preserves_case_prod [intro]:
  "(\<And>a b. preserves P (f a b)) \<Longrightarrow> preserves P (case x of (a, b) \<Rightarrow> f a b)"
  by (cases x) simp

lemma preserves_modifyE [intro]: "(\<And>s. P s \<Longrightarrow> P (f s)) \<Longrightarrow> preserves P (modifyE f)"
  by (simp add: preserves_def modifyE_def)

text \<open>
  A computation that returns: in no state is its outcome divergence.  The rules
  follow the structure of the handlers, like those of \<open>preserves\<close>.
\<close>

definition returns :: "('a, 's) exc \<Rightarrow> bool" where
  "returns m \<longleftrightarrow> (\<forall>s. fst (m s) \<noteq> Inl Diverges)"

lemma returnsI: "(\<And>s. fst (m s) \<noteq> Inl Diverges) \<Longrightarrow> returns m"
  by (simp add: returns_def)

lemma returnsD: "returns m \<Longrightarrow> m s = (r, s') \<Longrightarrow> r \<noteq> Inl Diverges"
  by (metis returns_def fst_conv)

lemma returns_bindE_getsE: "(\<And>s. returns (f (g s))) \<Longrightarrow> returns (bindE (getsE g) f)"
  by (simp add: returns_def)

lemma returns_bindE: "returns m \<Longrightarrow> (\<And>a. returns (f a)) \<Longrightarrow> returns (bindE m f)"
  unfolding returns_def bindE_def by (auto split: prod.split sum.split) (metis fst_conv)

lemma returns_simple:
  "returns (returnE a)" "returns (getsE g)" "returns (modifyE f)"
  "e \<noteq> Diverges \<Longrightarrow> returns (throwE e)" "r \<noteq> Inl Diverges \<Longrightarrow> returns (liftE r)"
  by (simp_all add: returns_def exc_defs)

lemma returns_if: "returns m1 \<Longrightarrow> returns m2 \<Longrightarrow> returns (if b then m1 else m2)"
  by simp

lemma returns_case_prod: "(\<And>a b. returns (f a b)) \<Longrightarrow> returns (case x of (a, b) \<Rightarrow> f a b)"
  by (cases x) simp

section \<open>Vectors: \<open>operator[]\<close> and \<open>back()\<close>\<close>

text \<open>
  \<open>std::vector::operator[]\<close> and \<open>back()\<close> do no range check: out of range they are
  undefined behaviour, which the model makes a value instead of HOL's unspecified
  \<open>xs ! i\<close>.
\<close>

definition vec_at :: "'a list \<Rightarrow> nat \<Rightarrow> 'a result" where
  "vec_at xs i = (if i < length xs then Inr (xs ! i)
                  else Inl (Undefined_behaviour ''std::vector index out of range''))"

definition vec_back :: "'a list \<Rightarrow> 'a result" where
  "vec_back xs = (if xs = [] then Inl (Undefined_behaviour ''back() of an empty vector'')
                  else Inr (last xs))"

lemma vec_at_not_Diverges [simp]: "vec_at xs i \<noteq> Inl Diverges"
  and vec_back_not_Diverges [simp]: "vec_back xs \<noteq> Inl Diverges"
  by (simp_all add: vec_at_def vec_back_def)

lemma vec_at_Cons [simp]:
  "vec_at (x # xs) 0 = Inr x" "vec_at (x # xs) (Suc i) = vec_at xs i"
  by (simp_all add: vec_at_def)

lemma vec_at_Nil [simp]: "vec_at [] i = Inl (Undefined_behaviour ''std::vector index out of range'')"
  by (simp add: vec_at_def)

lemma vec_at_numeral [simp]: "vec_at (x # xs) (numeral n) = vec_at xs (pred_numeral n)"
  by (simp add: numeral_eq_Suc)

lemma vec_at_Inr_iff: "vec_at xs i = Inr x \<longleftrightarrow> i < length xs \<and> xs ! i = x"
  by (auto simp add: vec_at_def)

lemma vec_back_Cons [simp]: "vec_back (x # xs) = Inr (last (x # xs))"
  by (simp add: vec_back_def)

section \<open>\<open>std::string::find\<close>\<close>

text \<open>\<open>s.find(t) != std::string::npos\<close>: \<open>t\<close> occurs in \<open>s\<close> at some position.\<close>

fun str_contains :: "string \<Rightarrow> string \<Rightarrow> bool" where
  "str_contains [] t = (t = [])"
| "str_contains (c # s) t = (prefix t (c # s) \<or> str_contains s t)"

lemma str_contains_iff_sublist: "str_contains s t \<longleftrightarrow> sublist t s"
  by (induction s) (simp_all add: sublist_Cons_right)

lemma str_contains_Cons_single: "str_contains s [c] \<longleftrightarrow> c \<in> set s"
  by (induction s) auto

section \<open>\<open>std::to_string\<close> on unsigned integers\<close>

definition digit_char :: "nat \<Rightarrow> char" where
  "digit_char d = ''0123456789'' ! d"

fun string_of_nat :: "nat \<Rightarrow> string" where
  "string_of_nat n =
     (if n < 10 then [digit_char n] else string_of_nat (n div 10) @ [digit_char (n mod 10)])"

declare string_of_nat.simps [simp del]

text \<open>The inverse: reading a string of decimal digits, most significant first.\<close>

definition nat_of_digits :: "string \<Rightarrow> nat" where
  "nat_of_digits s = foldl (\<lambda>n c. 10 * n + (of_char c - 48)) 0 s"

definition is_digit_char :: "char \<Rightarrow> bool" where
  "is_digit_char c \<longleftrightarrow> 48 \<le> (of_char c :: nat) \<and> (of_char c :: nat) \<le> 57"

lemma of_char_digit_char [simp]: "d < 10 \<Longrightarrow> (of_char (digit_char d) :: nat) = 48 + d"
proof -
  assume "d < 10"
  then have "d \<in> {0, 1, 2, 3, 4, 5, 6, 7, 8, 9}" by auto
  then show ?thesis by (auto simp: digit_char_def)
qed

lemma nat_of_digits_snoc [simp]: "nat_of_digits (s @ [c]) = 10 * nat_of_digits s + (of_char c - 48)"
  by (simp add: nat_of_digits_def)

lemma string_of_nat_digits: "\<forall>c \<in> set (string_of_nat n). is_digit_char c"
proof (induction n rule: string_of_nat.induct)
  case (1 n)
  then show ?case
    by (subst string_of_nat.simps) (auto simp: is_digit_char_def)
qed

lemma string_of_nat_nonempty [simp]: "string_of_nat n \<noteq> []"
  by (subst string_of_nat.simps) simp

theorem nat_of_digits_string_of_nat [simp]: "nat_of_digits (string_of_nat n) = n"
proof (induction n rule: string_of_nat.induct)
  case (1 n)
  show ?case
  proof (cases "n < 10")
    case True
    then show ?thesis by (subst string_of_nat.simps) (simp add: nat_of_digits_def)
  next
    case False
    with "1" show ?thesis by (subst string_of_nat.simps) simp
  qed
qed

corollary string_of_nat_inj: "string_of_nat m = string_of_nat n \<longleftrightarrow> m = n"
  by (metis nat_of_digits_string_of_nat)

section \<open>Bytes\<close>

text \<open>Bit 7 of a byte value, the sign bit of a \<open>char\<close>.\<close>

lemma bit7_nat: "(n::nat) < 256 \<Longrightarrow> bit n 7 \<longleftrightarrow> 128 \<le> n"
proof -
  assume n: "n < 256"
  have lt: "n div 128 < 2" using n by (simp add: div_less_iff_less_mult)
  have ge: "128 \<le> n \<longleftrightarrow> 1 \<le> n div 128" by (simp add: less_eq_div_iff_mult_less_eq)
  have b: "bit n 7 \<longleftrightarrow> odd (n div 2 ^ 7)" by (rule bit_iff_odd)
  have "n div 128 = 0 \<or> n div 128 = 1" using lt by arith
  then show ?thesis using b ge by auto
qed

lemma length_string_of_nat_le: "n < 10 ^ k \<Longrightarrow> 0 < k \<Longrightarrow> length (string_of_nat n) \<le> k"
proof (induction n arbitrary: k rule: string_of_nat.induct)
  case (1 n)
  show ?case
  proof (cases "n < 10")
    case True
    with "1.prems" show ?thesis by (subst string_of_nat.simps) simp
  next
    case False
    then obtain k' where k: "k = Suc k'" "0 < k'"
      using "1.prems" by (cases k; cases "k - 1") (auto simp: not_less)
    have "n div 10 < 10 ^ k'" using "1.prems"(1) k by (simp add: div_less_iff_less_mult)
    then have "length (string_of_nat (n div 10)) \<le> k'" using "1.IH" False k by blast
    with False k show ?thesis by (subst string_of_nat.simps) simp
  qed
qed

lemma unat_digits:
  "length (string_of_nat (unat (w :: 8 word))) \<le> 3"
  "length (string_of_nat (unat (v :: 32 word))) \<le> 10"
  "length (string_of_nat (unat (u :: 64 word))) \<le> 20"
proof -
  have "unat w < 2 ^ 8" "unat v < 2 ^ 32" "unat u < 2 ^ 64"
    using unsigned_less [of w] unsigned_less [of v] unsigned_less [of u] by simp_all
  then show "length (string_of_nat (unat w)) \<le> 3" "length (string_of_nat (unat v)) \<le> 10"
      "length (string_of_nat (unat u)) \<le> 20"
    by (auto intro!: length_string_of_nat_le)
qed

lemma nl_not_in_string_of_nat [simp]: "CHR 0x0A \<notin> set (string_of_nat n)"
  using string_of_nat_digits [of n] by (auto simp: is_digit_char_def)

end
