(* ===== verification/Engine.thy ===== *)
theory Engine
  imports Prelude
begin

text \<open>
  The collaborators of the interpreter that are not part of this repository: the
  SQLiteCpp/SQLite library (\<open>SQLite::Database\<close>, \<open>SQLite::Statement\<close>,
  \<open>SQLite::Header\<close>), the file system seen through \<open>std::ifstream\<close>,
  \<open>std::ofstream\<close> and \<open>std::remove\<close>, and the kernel's IOPub channel on which
  \<open>publish_execution_result\<close>, \<open>publish_execution_error\<close> and
  \<open>publish_stream\<close> put messages.  The library is an interface: a record
  \<open>'d engine\<close> of operations over an abstract type \<open>'d\<close> of database contents
  (as stored in a file or in memory); every theorem about the interpreter holds for
  every such engine, and the few that need more of it name the contract they use.
\<close>

section \<open>The SQLite library's interface\<close>

text \<open>One \<open>executeStep()\<close> of a prepared statement: a row of cell texts or an exception.\<close>

datatype step_result = Row "string list" | Step_error string

text \<open>
  A prepared \<open>SQLite::Statement\<close>: its column names (\<open>getColumnCount\<close>,
  \<open>getColumnName\<close>) and the outcome of its \<open>k\<close>-th \<open>executeStep()\<close> call
  (counting from 0), \<open>None\<close> where it returns false.  A statement need not stop: a
  recursive common table expression yields rows for ever.
\<close>

record stmt =
  st_columns :: "string list"
  st_step :: "nat \<Rightarrow> step_result option"

text \<open>A statement that yields a given finite list of outcomes, then returns false.\<close>

definition list_steps :: "step_result list \<Rightarrow> nat \<Rightarrow> step_result option" where
  "list_steps xs k = (if k < length xs then Some (xs ! k) else None)"

text \<open>\<open>SQLite::Header\<close>: the 100-byte file header, fields at their C widths.\<close>

record sqlite_header =
  headerStr :: "char list"
  pageSizeBytes :: "32 word"
  fileFormatWriteVersion :: "8 word"
  fileFormatReadVersion :: "8 word"
  reservedSpaceBytes :: "8 word"
  maxEmbeddedPayloadFrac :: "8 word"
  minEmbeddedPayloadFrac :: "8 word"
  leafPayloadFrac :: "8 word"
  fileChangeCounter :: "64 word"
  databaseSizePages :: "64 word"
  firstFreelistTrunkPage :: "64 word"
  totalFreelistPages :: "64 word"
  schemaCookie :: "64 word"
  schemaFormatNumber :: "64 word"
  defaultPageCacheSizeBytes :: "64 word"
  largestBTreePageNumber :: "64 word"
  databaseTextEncoding :: "64 word"
  userVersion :: "64 word"
  incrementalVaccumMode :: "64 word"
  applicationId :: "64 word"
  versionValidFor :: "64 word"
  sqliteVersion :: "64 word"

text \<open>
  The engine: \<open>eng_file txt\<close> is the database a file holding the bytes \<open>txt\<close> is
  (\<open>eng_file ''''\<close>: a zero-length file, which SQLite treats as an empty database,
  and the contents of a fresh \<open>:memory:\<close> database); \<open>eng_prepare\<close> the statement
  constructor; \<open>eng_exec d ro sql\<close> runs a statement without result columns through
  a handle that is read-only when \<open>ro\<close>; the rest are the \<open>SQLite::Database\<close>
  methods the interpreter calls.
\<close>

record 'd engine =
  eng_file :: "string \<Rightarrow> 'd"
  eng_prepare :: "'d \<Rightarrow> string \<Rightarrow> stmt result"
  eng_exec :: "'d \<Rightarrow> bool \<Rightarrow> string \<Rightarrow> 'd result"
  eng_table_exists :: "'d \<Rightarrow> string \<Rightarrow> bool"
  eng_load_extension :: "'d \<Rightarrow> string \<Rightarrow> string \<Rightarrow> 'd result"
  eng_key :: "'d \<Rightarrow> string \<Rightarrow> 'd result"
  eng_rekey :: "'d \<Rightarrow> string \<Rightarrow> 'd result"
  eng_unencrypted :: "'d \<Rightarrow> bool"
  eng_header :: "'d \<Rightarrow> sqlite_header result"

text \<open>The open flags the interpreter passes to the \<open>SQLite::Database\<close> constructor.\<close>

datatype open_mode = OPEN_READONLY | OPEN_READWRITE | OPEN_READWRITE_CREATE

text \<open>
  An open \<open>SQLite::Database\<close>: the file it was opened on (\<open>None\<close> for
  \<open>:memory:\<close>), whether it is read-only, and the contents seen through it.
\<close>

record 'd handle =
  h_file :: "string option"
  h_readonly :: bool
  h_data :: 'd

section \<open>The environment: files and the IOPub channel\<close>

datatype payload = Text string | Table "string list list" | Json string

type_synonym mime_bundle = "(string \<times> payload) list"

datatype msg =
    Execute_result nat mime_bundle
  | Execute_error string string "string list"
  | Stream string string

text \<open>
  The environment: the file system (the contents of each existing file, and where a
  missing file may be created), the messages published on IOPub, and, in the
  emscripten build, the downloads started by \<open>emscripten_fetch\<close> whose callbacks
  have not run yet (URL and target file).
\<close>

record 'd env =
  files :: "string \<Rightarrow> 'd option"
  creatable :: "string \<Rightarrow> bool"
  iopub :: "msg list"
  fetches :: "(string \<times> string) list"

definition memory_path :: string where
  "memory_path = '':memory:''"

definition publish :: "msg \<Rightarrow> ('d, 'x) env_scheme \<Rightarrow> ('d, 'x) env_scheme" where
  "publish m w = w\<lparr>iopub := iopub w @ [m]\<rparr>"

text \<open>
  \<open>std::ofstream(path)\<close> followed by writing \<open>txt\<close>: creates or truncates the file
  when it can be opened, and silently does nothing otherwise.
\<close>

definition ofstream_write ::
  "'d engine \<Rightarrow> string \<Rightarrow> string \<Rightarrow> ('d, 'x) env_scheme \<Rightarrow> ('d, 'x) env_scheme" where
  "ofstream_write E p txt w =
     (if files w p \<noteq> None \<or> creatable w p then w\<lparr>files := (files w)(p \<mapsto> eng_file E txt)\<rparr> else w)"

text \<open>\<open>std::remove(path)\<close>: \<open>None\<close> for a non-zero return (no such file).\<close>

definition fs_remove :: "string \<Rightarrow> ('d, 'x) env_scheme \<Rightarrow> ('d, 'x) env_scheme option" where
  "fs_remove p w = (case files w p of None \<Rightarrow> None | Some _ \<Rightarrow> Some (w\<lparr>files := (files w)(p := None)\<rparr>))"

text \<open>
  The \<open>SQLite::Database(path, flags)\<close> constructor (\<open>sqlite3_open_v2\<close>):
  \<open>:memory:\<close> gives a fresh empty database; an existing file is opened; a missing
  one is created only with \<open>OPEN_CREATE\<close> and where the file system allows it;
  otherwise the constructor throws.
\<close>

definition open_database ::
  "'d engine \<Rightarrow> string \<Rightarrow> open_mode \<Rightarrow> ('d, 'x) env_scheme \<Rightarrow>
     ('d handle \<times> ('d, 'x) env_scheme) result" where
  "open_database E p mode w =
     (let ro = (mode = OPEN_READONLY) in
      if p = memory_path then Inr (\<lparr>h_file = None, h_readonly = ro, h_data = eng_file E ''''\<rparr>, w)
      else case files w p of
        Some d \<Rightarrow> Inr (\<lparr>h_file = Some p, h_readonly = ro, h_data = d\<rparr>, w)
      | None \<Rightarrow>
          (if mode = OPEN_READWRITE_CREATE \<and> creatable w p
           then Inr (\<lparr>h_file = Some p, h_readonly = False, h_data = eng_file E ''''\<rparr>,
                     w\<lparr>files := (files w)(p \<mapsto> eng_file E '''')\<rparr>)
           else Inl (Runtime_error ''unable to open database file'')))"

text \<open>
  Contents changed through a handle: the handle sees them, and so does its file while
  it still exists (a removed file lives on, unlinked, behind the open handle).
\<close>

definition write_through ::
  "'d handle \<Rightarrow> 'd \<Rightarrow> ('d, 'x) env_scheme \<Rightarrow> 'd handle \<times> ('d, 'x) env_scheme" where
  "write_through h d w =
     (h\<lparr>h_data := d\<rparr>,
      case h_file h of
        Some p \<Rightarrow> (if files w p \<noteq> None then w\<lparr>files := (files w)(p \<mapsto> d)\<rparr> else w)
      | None \<Rightarrow> w)"

text \<open>
  A small instance of the interface, to run the theorems on concrete inputs: a
  database is the list of its table names; \<open>CREATE TABLE t\<close> adds \<open>t\<close> (and fails
  through a read-only handle), \<open>SELECT name FROM sqlite_master\<close> lists the tables.
\<close>

definition sample_engine :: "string list engine" where
  "sample_engine =
     \<lparr>eng_file = (\<lambda>_. []),
      eng_prepare = (\<lambda>d sql.
         if prefix ''CREATE TABLE '' sql then Inr \<lparr>st_columns = [], st_step = list_steps []\<rparr>
         else if sql = ''SELECT name FROM sqlite_master''
         then Inr \<lparr>st_columns = [''name''], st_step = list_steps (map (\<lambda>t. Row [t]) d)\<rparr>
         else Inl (Runtime_error ''syntax error'')),
      eng_exec = (\<lambda>d ro sql.
         if prefix ''CREATE TABLE '' sql
         then (if ro then Inl (Runtime_error ''attempt to write a readonly database'')
               else Inr (d @ [drop 13 sql]))
         else Inr d),
      eng_table_exists = (\<lambda>d t. t \<in> set d),
      eng_load_extension = (\<lambda>d _ _. Inr d),
      eng_key = (\<lambda>d _. Inr d),
      eng_rekey = (\<lambda>d _. Inr d),
      eng_unencrypted = (\<lambda>_. True),
      eng_header = (\<lambda>_. Inl (Runtime_error ''Invalid or encrypted SQLite header''))\<rparr>"

text \<open>The same engine with a query whose second \<open>executeStep()\<close> throws.\<close>

definition failing_engine :: "string list engine" where
  "failing_engine = sample_engine\<lparr>eng_prepare := (\<lambda>_ _.
     Inr \<lparr>st_columns = [''a''], st_step = list_steps [Row [''1''], Step_error ''disk I/O error'']\<rparr>)\<rparr>"

text \<open>
  The same engine with a query over a recursive common table expression that counts
  without end: \<open>WITH RECURSIVE c(x) AS (SELECT 0 UNION ALL SELECT x + 1 FROM c)
  SELECT x FROM c\<close>.
\<close>

definition counting_engine :: "string list engine" where
  "counting_engine = sample_engine\<lparr>eng_prepare := (\<lambda>_ _.
     Inr \<lparr>st_columns = [''x''], st_step = (\<lambda>k. Some (Row [string_of_nat k]))\<rparr>)\<rparr>"

text \<open>
  The contract under which every request returns: each prepared statement stops after
  finitely many steps, and no other call of the library hangs.
\<close>

definition engine_returns :: "'d engine \<Rightarrow> bool" where
  "engine_returns E \<longleftrightarrow>
     (\<forall>d sql. case eng_prepare E d sql of
                Inl e \<Rightarrow> e \<noteq> Diverges
              | Inr q \<Rightarrow> (\<exists>n. \<forall>cells. st_step q n \<noteq> Some (Row cells)))
     \<and> (\<forall>d ro sql. eng_exec E d ro sql \<noteq> Inl Diverges)
     \<and> (\<forall>d a b. eng_load_extension E d a b \<noteq> Inl Diverges)
     \<and> (\<forall>d k. eng_key E d k \<noteq> Inl Diverges)
     \<and> (\<forall>d k. eng_rekey E d k \<noteq> Inl Diverges)
     \<and> (\<forall>d. eng_header E d \<noteq> Inl Diverges)"

lemma engine_returns_prepare:
  "engine_returns E \<Longrightarrow>
   case eng_prepare E d sql of
     Inl e \<Rightarrow> e \<noteq> Diverges
   | Inr q \<Rightarrow> (\<exists>n. \<forall>cells. st_step q n \<noteq> Some (Row cells))"
  unfolding engine_returns_def by blast

lemma engine_returns_ops:
  assumes "engine_returns E"
  shows "eng_exec E d ro sql \<noteq> Inl Diverges" "eng_load_extension E d a b \<noteq> Inl Diverges"
    "eng_key E d k \<noteq> Inl Diverges" "eng_rekey E d k \<noteq> Inl Diverges" "eng_header E d \<noteq> Inl Diverges"
  using assms unfolding engine_returns_def by blast+

lemma list_steps_stop: "\<forall>cells. list_steps xs (length xs) \<noteq> Some (Row cells)"
  by (simp add: list_steps_def)

lemma engine_returns_sample: "engine_returns sample_engine"
  unfolding engine_returns_def sample_engine_def
  by (auto simp: list_steps_def intro: exI [of _ "length _"])

lemma publish_files [simp]: "files (publish m w) = files w"
  and publish_creatable [simp]: "creatable (publish m w) = creatable w"
  and publish_iopub [simp]: "iopub (publish m w) = iopub w @ [m]"
  by (simp_all add: publish_def)

lemma open_database_memory:
  "open_database E memory_path mode w =
     Inr (\<lparr>h_file = None, h_readonly = (mode = OPEN_READONLY), h_data = eng_file E ''''\<rparr>, w)"
  by (simp add: open_database_def)

lemma open_database_existing:
  "p \<noteq> memory_path \<Longrightarrow> files w p = Some d \<Longrightarrow>
   open_database E p mode w = Inr (\<lparr>h_file = Some p, h_readonly = (mode = OPEN_READONLY), h_data = d\<rparr>, w)"
  by (simp add: open_database_def)

lemma open_database_iopub:
  "open_database E p mode w = Inr (h, w') \<Longrightarrow> iopub w' = iopub w"
  by (auto simp: open_database_def Let_def split: if_splits option.splits)

lemma open_database_readonly:
  "open_database E p mode w = Inr (h, w') \<Longrightarrow> h_readonly h \<longleftrightarrow> mode = OPEN_READONLY"
  by (auto simp: open_database_def Let_def split: if_splits option.splits)

lemma open_database_file:
  "open_database E p mode w = Inr (h, w') \<Longrightarrow> h_file h = (if p = memory_path then None else Some p)"
  by (auto simp: open_database_def Let_def split: if_splits option.splits)

lemma open_database_not_Diverges: "open_database E p mode w \<noteq> Inl Diverges"
  by (simp add: open_database_def Let_def split: option.split)

lemma write_through_iopub [simp]: "iopub (snd (write_through h d w)) = iopub w"
  by (simp add: write_through_def split: option.split)

lemma write_through_memory:
  "h_file h = None \<Longrightarrow> write_through h d w = (h\<lparr>h_data := d\<rparr>, w)"
  by (simp add: write_through_def)

lemma ofstream_write_other [simp]: "p \<noteq> q \<Longrightarrow> files (ofstream_write E p txt w) q = files w q"
  by (simp add: ofstream_write_def)

lemma ofstream_write_iopub [simp]: "iopub (ofstream_write E p txt w) = iopub w"
  by (simp add: ofstream_write_def)

end
