(* ===== verification/Pipeline.thy ===== *)
theory Pipeline
  imports Engine
begin

text \<open>
  The SQL execution and result pipeline, \<open>interpreter::process_SQLite_input\<close>
  (\<open>src/src/xeus_sqlite_interpreter.cpp\<close>, lines 429--519): prepare the statement
  on the open handle; with no result columns run it (\<open>query.exec()\<close>); otherwise
  walk the rows once, building in the same pass the plain-text table (tabulate rows,
  header first), the HTML table, and the column-keyed data frame \<open>xv_sqlite_df\<close>
  handed to the chart renderer, and publish the two renderings once the rows are
  exhausted.  The reference renderings \<open>html_table\<close> and \<open>df_column\<close> describe
  the result in one piece; the theorems show that the single pass computes them.
\<close>

section \<open>Definitions\<close>

text \<open>\<open>xv::df_type\<close>: a \<open>std::map\<close> from column name to the column's cells.\<close>

type_synonym df = "string \<Rightarrow> string list option"

definition nl :: string where
  "nl = [CHR 0x0A]"

definition html_head :: "string list \<Rightarrow> string" where
  "html_head cols =
     ''<table>'' @ nl @ ''<tr>'' @ nl @ concat (map (\<lambda>n. ''<th>'' @ n @ ''</th>'' @ nl) cols)
     @ ''</tr>'' @ nl"

definition html_td :: "string \<Rightarrow> string" where
  "html_td c = ''<td>'' @ c @ ''</td>'' @ nl"

text \<open>\<open>xv_sqlite_df[name] = { "name" }\<close> for every column, in order.\<close>

definition df_init :: "df \<Rightarrow> string list \<Rightarrow> df" where
  "df_init d cols = fold (\<lambda>n d. d(n \<mapsto> [''name''])) cols d"

text \<open>\<open>xv_sqlite_df[col_name].push_back(cell)\<close>; \<open>operator[]\<close> creates a missing key.\<close>

definition df_push :: "df \<Rightarrow> string \<Rightarrow> string \<Rightarrow> df" where
  "df_push d n c = d(n \<mapsto> (case d n of None \<Rightarrow> [] | Some xs \<Rightarrow> xs) @ [c])"

text \<open>
  The inner loop over the columns of one row (lines 485--498): each cell goes to the
  plain-text row, the HTML row and the data frame.  The row carries one cell per
  column, so the loop's \<open>getColumnName(col)\<close>/\<open>getColumn(col)\<close> pairs are the
  pairs of \<open>zip\<close>.
\<close>

fun emit_cells ::
  "(string \<times> string) list \<Rightarrow> string list \<times> string \<times> df \<Rightarrow> string list \<times> string \<times> df" where
  "emit_cells [] acc = acc"
| "emit_cells ((n, c) # ncs) (row, html, d) =
     emit_cells ncs (row @ [c], html @ html_td c, df_push d n c)"

text \<open>
  The \<open>while (query.executeStep())\<close> loop (lines 475--504), from the \<open>k\<close>-th step
  on.  It stops when a step returns false (\<open>Some (Inr _)\<close>) or throws
  (\<open>Some (Inl _)\<close>); on a statement that yields rows for ever it does not return
  (\<open>None\<close>).
\<close>

partial_function (option) step_rows ::
  "string list \<Rightarrow> (nat \<Rightarrow> step_result option) \<Rightarrow> nat \<Rightarrow> string list list \<times> string \<times> df \<Rightarrow>
     (string list list \<times> string \<times> df) result option" where
  "step_rows cols st k acc =
     (case st k of
        None \<Rightarrow> Some (Inr acc)
      | Some (Step_error m) \<Rightarrow> Some (Inl (Runtime_error m))
      | Some (Row cells) \<Rightarrow>
          (case acc of (tbl, html, d) \<Rightarrow>
            (case emit_cells (zip cols cells) ([], html @ ''<tr>'' @ nl, d) of (row, html', d') \<Rightarrow>
               step_rows cols st (Suc k) (tbl @ [row], html' @ ''</tr>'' @ nl, d'))))"

definition process_SQLite_input ::
  "'d engine \<Rightarrow> nat \<Rightarrow> 'd handle option \<Rightarrow> string \<Rightarrow> df \<Rightarrow>
     ('d handle \<times> df, ('d, 'x) env_scheme) exc" where
  "process_SQLite_input E n mdb code d w =
     (case mdb of
        None \<Rightarrow> (Inl (Undefined_behaviour ''null m_db dereferenced''), w)
      | Some h \<Rightarrow>
          (case eng_prepare E (h_data h) code of
             Inl e \<Rightarrow> (Inl e, w)
           | Inr q \<Rightarrow>
               (if st_columns q \<noteq> [] then
                  (case step_rows (st_columns q) (st_step q) 0
                          ([st_columns q], html_head (st_columns q), df_init d (st_columns q)) of
                     None \<Rightarrow> (Inl Diverges, w)
                   | Some (Inl e) \<Rightarrow> (Inl e, w)
                   | Some (Inr (tbl, html, d')) \<Rightarrow>
                       (Inr (h, d'),
                        publish (Execute_result n [(''text/plain'', Table tbl),
                                                   (''text/html'', Text (html @ ''</table>''))]) w))
                else
                  (case eng_exec E (h_data h) (h_readonly h) code of
                     Inl e \<Rightarrow> (Inl e, w)
                   | Inr d2 \<Rightarrow> (let (h', w') = write_through h d2 w in (Inr (h', d), w'))))))"

subsection \<open>Reference renderings\<close>

text \<open>
  The HTML table a result should give (spec section 4.4), written out independently
  of the helpers the pass uses: a header row of \<open><th>\<close> cells, one \<open><tr>\<close> of
  \<open><td>\<close> cells per row, each element on its own line.
\<close>

definition html_row :: "string list \<Rightarrow> string" where
  "html_row cells = ''<tr>'' @ nl @ concat (map (\<lambda>c. ''<td>'' @ c @ ''</td>'' @ nl) cells) @ ''</tr>'' @ nl"

definition html_table :: "string list \<Rightarrow> string list list \<Rightarrow> string" where
  "html_table cols rows =
     ''<table>'' @ nl @ ''<tr>'' @ nl @ concat (map (\<lambda>n. ''<th>'' @ n @ ''</th>'' @ nl) cols) @ ''</tr>'' @ nl
     @ concat (map html_row rows) @ ''</table>''"

definition rows_wf :: "string list \<Rightarrow> string list list \<Rightarrow> bool" where
  "rows_wf cols rows \<longleftrightarrow> (\<forall>r \<in> set rows. length r = length cols)"

section \<open>The single pass computes the reference renderings\<close>

lemma html_row_td: "html_row cells = ''<tr>'' @ nl @ concat (map html_td cells) @ ''</tr>'' @ nl"
  by (simp add: html_row_def html_td_def [abs_def])

lemma html_table_head: "html_table cols rows = html_head cols @ concat (map html_row rows) @ ''</table>''"
  by (simp add: html_table_def html_head_def)

lemma emit_cells_eq:
  "emit_cells ncs (row, html, d) =
     (row @ map snd ncs, html @ concat (map (html_td \<circ> snd) ncs),
      fold (\<lambda>(n, c) d. df_push d n c) ncs d)"
  by (induction ncs arbitrary: row html d) auto

lemma step_rows_None: "st k = None \<Longrightarrow> step_rows cols st k acc = Some (Inr acc)"
  by (subst step_rows.simps) simp

lemma step_rows_Step_error:
  "st k = Some (Step_error m) \<Longrightarrow> step_rows cols st k acc = Some (Inl (Runtime_error m))"
  by (subst step_rows.simps) simp

lemma step_rows_Row_step:
  "st k = Some (Row cells) \<Longrightarrow>
   step_rows cols st k (tbl, html, d) =
     (case emit_cells (zip cols cells) ([], html @ ''<tr>'' @ nl, d) of (row, html', d') \<Rightarrow>
        step_rows cols st (Suc k) (tbl @ [row], html' @ ''</tr>'' @ nl, d'))"
  by (subst step_rows.simps) simp

text \<open>A run of rows, each with one cell per column, renders as the reference rows.\<close>

lemma step_rows_prefix:
  assumes "rows_wf cols rows" "\<forall>i < length rows. st (k + i) = Some (Row (rows ! i))"
  shows "step_rows cols st k (tbl, html, d) =
    step_rows cols st (k + length rows)
      (tbl @ rows, html @ concat (map html_row rows),
       fold (\<lambda>r d. fold (\<lambda>(n, c) d. df_push d n c) (zip cols r) d) rows d)"
  using assms
proof (induction rows arbitrary: k tbl html d)
  case Nil
  then show ?case by simp
next
  case (Cons r rows)
  then have len: "length r = length cols" and wf: "rows_wf cols rows"
    by (simp_all add: rows_wf_def)
  have st: "st k = Some (Row r)" using Cons.prems(2) by force
  have rest: "\<forall>i < length rows. st (Suc k + i) = Some (Row (rows ! i))"
  proof (intro allI impI)
    fix i assume "i < length rows"
    then show "st (Suc k + i) = Some (Row (rows ! i))"
      using Cons.prems(2) [rule_format, of "Suc i"] by simp
  qed
  have "map (html_td \<circ> snd) (zip cols r) = map html_td r"
    using len by (metis map_map map_snd_zip)
  with len st Cons.IH [OF wf rest] show ?case
    by (simp add: step_rows_Row_step emit_cells_eq html_row_td map_snd_zip)
qed

text \<open>The loop reaches a step that throws after a run of rows.\<close>

lemma step_rows_error_at:
  assumes "st j = Some (Step_error m)" "k \<le> j" "\<forall>i. k \<le> i \<and> i < j \<longrightarrow> (\<exists>cells. st i = Some (Row cells))"
  shows "step_rows cols st k acc = Some (Inl (Runtime_error m))"
  using assms
proof (induction "j - k" arbitrary: k acc)
  case 0
  then have "k = j" by simp
  with "0.prems"(1) show ?case by (simp add: step_rows_Step_error)
next
  case (Suc x)
  then obtain cells where st: "st k = Some (Row cells)" by force
  obtain tbl html d where acc: "acc = (tbl, html, d)" by (cases acc) auto
  have IH: "\<And>acc'. step_rows cols st (Suc k) acc' = Some (Inl (Runtime_error m))"
    using Suc by (intro Suc.hyps) auto
  show ?case
    by (simp add: acc st step_rows_Row_step IH split: prod.split)
qed

text \<open>Termination: once a step returns false or throws, the loop returns.\<close>

lemma step_rows_returns:
  assumes "k \<le> j" "\<forall>cells. st j \<noteq> Some (Row cells)"
  shows "\<exists>r. step_rows cols st k acc = Some r"
  using assms
proof (induction "j - k" arbitrary: k acc)
  case 0
  then have st: "\<forall>cells. st k \<noteq> Some (Row cells)" by simp
  show ?case
  proof (cases "st k")
    case None
    then show ?thesis by (simp add: step_rows_None)
  next
    case (Some x)
    with st obtain m where "st k = Some (Step_error m)" by (cases x) auto
    then show ?thesis by (simp add: step_rows_Step_error)
  qed
next
  case (Suc x)
  obtain tbl html d where acc: "acc = (tbl, html, d)" by (cases acc) auto
  have IH: "\<And>acc'. \<exists>r. step_rows cols st (Suc k) acc' = Some r"
    using Suc by (intro Suc.hyps) auto
  show ?case
  proof (cases "st k")
    case None
    then show ?thesis by (simp add: step_rows_None)
  next
    case (Some x)
    then show ?thesis
    proof (cases x)
      case (Row cells)
      with Some show ?thesis by (simp add: acc step_rows_Row_step IH split: prod.split)
    next
      case (Step_error m)
      with Some show ?thesis by (simp add: step_rows_Step_error)
    qed
  qed
qed

text \<open>Partial correctness, by fixpoint induction: a loop that returned saw a step that was not a row.\<close>

lemma step_rows_Some_stops:
  assumes ret: "step_rows cols st k acc = Some r"
  shows "(\<exists>j \<ge> k. \<forall>cells. st j \<noteq> Some (Row cells)) \<and> r \<noteq> Inl Diverges"
proof (rule step_rows.raw_induct
    [where P = "\<lambda>cols st k acc r. (\<exists>j \<ge> k. \<forall>cells. st j \<noteq> Some (Row cells)) \<and> r \<noteq> Inl Diverges",
     OF _ ret])
  fix f :: "string list \<Rightarrow> (nat \<Rightarrow> step_result option) \<Rightarrow> nat \<Rightarrow> string list list \<times> string \<times> df \<Rightarrow>
      (string list list \<times> string \<times> df) result option"
    and cols st k acc r
  assume IH: "\<And>cols st k acc r. f cols st k acc = Some r \<Longrightarrow>
    (\<exists>j \<ge> k. \<forall>cells. st j \<noteq> Some (Row cells)) \<and> r \<noteq> Inl Diverges"
  assume eq: "(case st k of
        None \<Rightarrow> Some (Inr acc)
      | Some (Step_error m) \<Rightarrow> Some (Inl (Runtime_error m))
      | Some (Row cells) \<Rightarrow>
          (case acc of (tbl, html, d) \<Rightarrow>
            (case emit_cells (zip cols cells) ([], html @ ''<tr>'' @ nl, d) of (row, html', d') \<Rightarrow>
               f cols st (Suc k) (tbl @ [row], html' @ ''</tr>'' @ nl, d')))) = Some r"
  show "(\<exists>j \<ge> k. \<forall>cells. st j \<noteq> Some (Row cells)) \<and> r \<noteq> Inl Diverges"
  proof (cases "st k")
    case None
    with eq show ?thesis by auto
  next
    case (Some x)
    show ?thesis
    proof (cases x)
      case (Row cells)
      with Some eq obtain acc' where "f cols st (Suc k) acc' = Some r"
        by (auto split: prod.splits)
      then obtain j where "Suc k \<le> j" "\<forall>cells. st j \<noteq> Some (Row cells)" "r \<noteq> Inl Diverges"
        using IH by blast
      then show ?thesis by (intro conjI exI [of _ j]) simp_all
    next
      case (Step_error m)
      with Some eq show ?thesis by auto
    qed
  qed
qed

lemma step_rows_diverges:
  assumes "\<forall>j \<ge> k. \<exists>cells. st j = Some (Row cells)"
  shows "step_rows cols st k acc = None"
proof (cases "step_rows cols st k acc")
  case (Some r)
  then obtain j where "k \<le> j" "\<forall>cells. st j \<noteq> Some (Row cells)"
    using step_rows_Some_stops by blast
  with assms show ?thesis by blast
qed

subsection \<open>The data frame\<close>

lemma fold_df_push_other:
  "c \<notin> set ns \<Longrightarrow> fold (\<lambda>(n, x) d. df_push d n x) (zip ns xs) d c = d c"
  by (induction ns xs arbitrary: d rule: list_induct2') (auto simp: df_push_def)

lemma fold_df_push_nth:
  assumes "distinct ns" "length xs = length ns" "i < length ns"
  shows "fold (\<lambda>(n, x) d. df_push d n x) (zip ns xs) d (ns ! i) =
           Some ((case d (ns ! i) of None \<Rightarrow> [] | Some ys \<Rightarrow> ys) @ [xs ! i])"
  using assms
proof (induction ns xs arbitrary: d i rule: list_induct2')
  case (4 n ns x xs)
  show ?case
  proof (cases i)
    case 0
    with "4.prems" show ?thesis by (simp add: fold_df_push_other) (simp add: df_push_def)
  next
    case (Suc j)
    with "4.prems" "4.IH" [of j "df_push d n x"] show ?thesis
      by (auto simp: df_push_def)
  qed
qed auto

lemma df_init_nth:
  "distinct cols \<Longrightarrow> i < length cols \<Longrightarrow> df_init d cols (cols ! i) = Some [''name'']"
proof (induction cols arbitrary: d i rule: rev_induct)
  case (snoc c cols)
  then show ?case
    by (cases "i = length cols") (auto simp: df_init_def nth_append)
qed simp

lemma df_init_other: "c \<notin> set cols \<Longrightarrow> df_init d cols c = d c"
  by (induction cols arbitrary: d) (simp_all add: df_init_def)

lemma fold_rows_nth:
  assumes "distinct cols" "rows_wf cols rows" "i < length cols" "d (cols ! i) = Some pre"
  shows "fold (\<lambda>r d. fold (\<lambda>(n, c) d. df_push d n c) (zip cols r) d) rows d (cols ! i) =
           Some (pre @ map (\<lambda>r. r ! i) rows)"
  using assms
proof (induction rows arbitrary: d pre)
  case (Cons r rows)
  then have "length r = length cols" by (simp add: rows_wf_def)
  with Cons.prems have
    "fold (\<lambda>(n, c) d. df_push d n c) (zip cols r) d (cols ! i) = Some (pre @ [r ! i])"
    by (simp add: fold_df_push_nth)
  with Cons.prems Cons.IH [of _ "pre @ [r ! i]"] show ?case
    by (simp add: rows_wf_def)
qed simp

lemma fold_rows_other:
  "c \<notin> set cols \<Longrightarrow> fold (\<lambda>r d. fold (\<lambda>(n, c) d. df_push d n c) (zip cols r) d) rows d c = d c"
  by (induction rows arbitrary: d) (simp_all add: fold_df_push_other)

text \<open>With repeated column names the cells of all columns of a name go to one sequence.\<close>

lemma fold_df_push_notin:
  "c \<notin> set (map fst ncs) \<Longrightarrow> fold (\<lambda>(n, x) d. df_push d n x) ncs d c = d c"
  by (induction ncs arbitrary: d) (auto simp: df_push_def)

lemma cells_of_notin: "c \<notin> set (map fst ncs) \<Longrightarrow> [x. (n, x) \<leftarrow> ncs, n = c] = []"
  by (induction ncs) auto

lemma fold_df_push_in:
  "c \<in> set (map fst ncs) \<Longrightarrow>
   fold (\<lambda>(n, x) d. df_push d n x) ncs d c =
     Some ((case d c of None \<Rightarrow> [] | Some ys \<Rightarrow> ys) @ [x. (n, x) \<leftarrow> ncs, n = c])"
proof (induction ncs arbitrary: d)
  case Nil
  then show ?case by simp
next
  case (Cons nx ncs)
  obtain n x where nx: "nx = (n, x)" by fastforce
  show ?case
  proof (cases "c \<in> set (map fst ncs)")
    case True
    with Cons.IH [OF True, of "df_push d n x"] show ?thesis
      by (auto simp: nx df_push_def)
  next
    case False
    with Cons.prems have c: "n = c" by (simp add: nx)
    have "fold (\<lambda>(n, x) d. df_push d n x) (nx # ncs) d c = df_push d n x c"
      using False by (simp add: nx fold_df_push_notin)
    also have "\<dots> = Some ((case d c of None \<Rightarrow> [] | Some ys \<Rightarrow> ys) @ [x])"
      by (simp add: df_push_def c)
    finally show ?thesis
      using False by (simp add: nx c cells_of_notin)
  qed
qed

lemma df_init_in: "c \<in> set cols \<Longrightarrow> df_init d cols c = Some [''name'']"
  by (induction cols arbitrary: d rule: rev_induct) (auto simp: df_init_def df_init_other)

lemma fold_rows_in:
  assumes "c \<in> set cols" "rows_wf cols rows" "d c = Some pre"
  shows "fold (\<lambda>r d. fold (\<lambda>(n, c) d. df_push d n c) (zip cols r) d) rows d c =
           Some (pre @ concat (map (\<lambda>r. [x. (n, x) \<leftarrow> zip cols r, n = c]) rows))"
  using assms
proof (induction rows arbitrary: d pre)
  case (Cons r rows)
  then have "length r = length cols" by (simp add: rows_wf_def)
  with Cons.prems(1) have "c \<in> set (map fst (zip cols r))" by simp
  with Cons.prems(3) have "fold (\<lambda>(n, c) d. df_push d n c) (zip cols r) d c =
      Some (pre @ [x. (n, x) \<leftarrow> zip cols r, n = c])"
    by (simp add: fold_df_push_in)
  with Cons.prems Cons.IH [of _ "pre @ [x. (n, x) \<leftarrow> zip cols r, n = c]"] show ?case
    by (simp add: rows_wf_def)
qed simp

lemma process_SQLite_input_rows:
  assumes "eng_prepare E (h_data h) code = Inr q"
    and "st_columns q = cols" "cols \<noteq> []" "rows_wf cols rows"
    and "\<forall>i < length rows. st_step q i = Some (Row (rows ! i))" "st_step q (length rows) = None"
  shows "process_SQLite_input E n (Some h) code d w =
           (Inr (h, fold (\<lambda>r d. fold (\<lambda>(n, c) d. df_push d n c) (zip cols r) d) rows (df_init d cols)),
            publish (Execute_result n [(''text/plain'', Table (cols # rows)),
                                       (''text/html'', Text (html_table cols rows))]) w)"
  using assms step_rows_prefix [of cols rows "st_step q" 0]
  by (simp add: process_SQLite_input_def step_rows_None html_table_head)

text \<open>Under the engine's contract the pipeline returns whatever the handle and the statement.\<close>

lemma process_SQLite_input_returns_all:
  fixes E :: "'d engine"
  assumes "engine_returns E"
  shows "returns (process_SQLite_input E n mdb code d :: ('d handle \<times> df, ('d, 'x) env_scheme) exc)"
proof (rule returnsI)
  fix w :: "('d, 'x) env_scheme"
  show "fst (process_SQLite_input E n mdb code d w) \<noteq> Inl Diverges"
  proof (cases mdb)
    case None
    then show ?thesis by (simp add: process_SQLite_input_def)
  next
    case (Some h)
    show ?thesis
    proof (cases "eng_prepare E (h_data h) code")
      case (Inl e)
      with engine_returns_prepare [OF assms, of "h_data h" code] have "e \<noteq> Diverges"
        by simp
      with Some Inl show ?thesis by (simp add: process_SQLite_input_def)
    next
      case (Inr q)
      with engine_returns_prepare [OF assms, of "h_data h" code]
      obtain j where j: "\<forall>cells. st_step q j \<noteq> Some (Row cells)"
        by auto
      obtain r where r: "step_rows (st_columns q) (st_step q) 0
          ([st_columns q], html_head (st_columns q), df_init d (st_columns q)) = Some r"
        using step_rows_returns [of 0 j "st_step q"] j by blast
      have ex: "eng_exec E (h_data h) (h_readonly h) code \<noteq> Inl Diverges"
        using assms by (rule engine_returns_ops)
      show ?thesis
      proof (cases "st_columns q = []")
        case True
        with Some Inr ex show ?thesis
          by (cases "eng_exec E (h_data h) (h_readonly h) code")
             (auto simp: process_SQLite_input_def split: prod.split)
      next
        case False
        with Some Inr r step_rows_Some_stops [OF r] show ?thesis
          by (cases r) (auto simp: process_SQLite_input_def split: prod.splits)
      qed
    qed
  qed
qed

text \<open>Evaluating the loop on a concrete statement, one decided step at a time.\<close>

lemmas step_rows_eval = step_rows_None step_rows_Step_error step_rows_Row_step list_steps_def

section \<open>Properties of the pipeline\<close>

text \<open>
  C1. A query with result columns whose rows all come back is published once, as a
  plain-text table (header row, then the rows in order) and an HTML table that
  render exactly the same cells; the handle is unchanged.
\<close>

theorem process_SQLite_input_renders:
  assumes "eng_prepare E (h_data h) code = Inr q"
    and "st_columns q = cols" "cols \<noteq> []" "rows_wf cols rows"
    and "\<forall>i < length rows. st_step q i = Some (Row (rows ! i))" "st_step q (length rows) = None"
  shows "\<exists>d'. process_SQLite_input E n (Some h) code d w =
           (Inr (h, d'), publish (Execute_result n [(''text/plain'', Table (cols # rows)),
                                                    (''text/html'', Text (html_table cols rows))]) w)"
  using process_SQLite_input_rows [OF assms] by blast

theorem process_SQLite_input_renders_witness:
  "process_SQLite_input sample_engine 1 (Some \<lparr>h_file = None, h_readonly = False, h_data = [''t'']\<rparr>)
     ''SELECT name FROM sqlite_master'' Map.empty
     (\<lparr>files = Map.empty, creatable = (\<lambda>_. False), iopub = [], fetches = []\<rparr> :: string list env) =
   (Inr (\<lparr>h_file = None, h_readonly = False, h_data = [''t'']\<rparr>, Map.empty(''name'' \<mapsto> [''name'', ''t''])),
    \<lparr>files = Map.empty, creatable = (\<lambda>_. False),
     iopub = [Execute_result 1 [(''text/plain'', Table [[''name''], [''t'']]),
                                (''text/html'', Text (html_table [''name''] [[''t'']]))]], fetches = []\<rparr>)"
proof -
  let ?h = "\<lparr>h_file = None, h_readonly = False, h_data = [''t'']\<rparr> :: string list handle"
  let ?w = "\<lparr>files = Map.empty, creatable = (\<lambda>_. False), iopub = [], fetches = []\<rparr> :: string list env"
  have "\<exists>d'. process_SQLite_input sample_engine 1 (Some ?h) ''SELECT name FROM sqlite_master'' Map.empty ?w =
           (Inr (?h, d'), publish (Execute_result 1 [(''text/plain'', Table ([''name''] # [[''t'']])),
                                   (''text/html'', Text (html_table [''name''] [[''t'']]))]) ?w)"
    by (rule process_SQLite_input_renders [where q = "\<lparr>st_columns = [''name''], st_step = list_steps [Row [''t'']]\<rparr>"])
       (simp_all add: sample_engine_def rows_wf_def list_steps_def)
  moreover have "process_SQLite_input sample_engine 1 (Some ?h) ''SELECT name FROM sqlite_master'' Map.empty ?w
      = (Inr (?h, Map.empty(''name'' \<mapsto> [''name'', ''t''])), publish (Execute_result 1
          [(''text/plain'', Table [[''name''], [''t'']]), (''text/html'', Text (html_table [''name''] [[''t'']]))]) ?w)"
    by (simp add: process_SQLite_input_def sample_engine_def step_rows_eval df_init_def df_push_def html_table_def
                  html_row_def html_td_def html_head_def)
  ultimately show ?thesis by (simp add: publish_def)
qed

text \<open>
  C2. In the same single pass, the data frame handed to the chart renderer gets, for
  each of the query's (distinct) columns, the placeholder entry \<open>"name"\<close> followed
  by that column's cells in row order; other keys of the frame are left alone.
\<close>

theorem process_SQLite_input_frame:
  assumes "eng_prepare E (h_data h) code = Inr q"
    and "st_columns q = cols" "cols \<noteq> []" "rows_wf cols rows"
    and "\<forall>i < length rows. st_step q i = Some (Row (rows ! i))" "st_step q (length rows) = None"
    and "distinct cols"
    and "process_SQLite_input E n (Some h) code d w = (Inr (h', d'), w')"
  shows "(\<forall>i < length cols. d' (cols ! i) = Some (''name'' # map (\<lambda>r. r ! i) rows))
         \<and> (\<forall>c. c \<notin> set cols \<longrightarrow> d' c = d c)"
proof -
  have d': "d' = fold (\<lambda>r d. fold (\<lambda>(n, c) d. df_push d n c) (zip cols r) d) rows (df_init d cols)"
    using process_SQLite_input_rows [OF assms(1-6), where n = n and d = d and w = w] assms(8)
    by simp
  show ?thesis
    unfolding d' using assms(4,7)
    by (simp add: fold_rows_nth df_init_nth fold_rows_other df_init_other)
qed

theorem process_SQLite_input_frame_witness:
  "(Map.empty(''name'' \<mapsto> [''name'', ''t'', ''u''])) ''name'' = Some (''name'' # map (\<lambda>r. r ! 0) [[''t''], [''u'']])
   \<and> (Map.empty(''name'' \<mapsto> [''name'', ''t'', ''u''])) ''other'' = (Map.empty :: df) ''other''"
proof -
  let ?h = "\<lparr>h_file = None, h_readonly = False, h_data = [''t'', ''u'']\<rparr> :: string list handle"
  let ?w = "\<lparr>files = Map.empty, creatable = (\<lambda>_. False), iopub = [], fetches = []\<rparr> :: string list env"
  let ?q = "\<lparr>st_columns = [''name''], st_step = list_steps [Row [''t''], Row [''u'']]\<rparr>"
  have prep: "eng_prepare sample_engine (h_data ?h) ''SELECT name FROM sqlite_master'' = Inr ?q"
    by (simp add: sample_engine_def)
  have run: "process_SQLite_input sample_engine 1 (Some ?h) ''SELECT name FROM sqlite_master'' Map.empty ?w =
      (Inr (?h, Map.empty(''name'' \<mapsto> [''name'', ''t'', ''u''])),
       publish (Execute_result 1 [(''text/plain'', Table [[''name''], [''t''], [''u'']]),
                                  (''text/html'', Text (html_table [''name''] [[''t''], [''u'']]))]) ?w)"
    by (simp add: process_SQLite_input_def sample_engine_def step_rows_eval df_init_def df_push_def html_table_def
                  html_row_def html_td_def html_head_def)
  have "(\<forall>i < length [''name'']. (Map.empty(''name'' \<mapsto> [''name'', ''t'', ''u''])) ([''name''] ! i) =
       Some (''name'' # map (\<lambda>r. r ! i) [[''t''], [''u'']]))
   \<and> (\<forall>c. c \<notin> set [''name''] \<longrightarrow> (Map.empty(''name'' \<mapsto> [''name'', ''t'', ''u''])) c = (Map.empty :: df) c)"
    by (rule process_SQLite_input_frame [OF prep _ _ _ _ _ _ run])
       (simp_all add: rows_wf_def list_steps_def All_less_Suc)
  then show ?thesis by fastforce
qed

text \<open>
  C18. When a query names the same column twice (\<open>SELECT a, a FROM t\<close>), the data
  frame keeps one entry per name, and it holds the placeholder \<open>"name"\<close> followed by
  the cells of every column of that name, in row order and, within a row, in column
  order: the columns are merged, not overwritten.
\<close>

theorem process_SQLite_input_frame_duplicates:
  assumes "eng_prepare E (h_data h) code = Inr q"
    and "st_columns q = cols" "cols \<noteq> []" "rows_wf cols rows"
    and "\<forall>i < length rows. st_step q i = Some (Row (rows ! i))" "st_step q (length rows) = None"
    and "process_SQLite_input E n (Some h) code d w = (Inr (h', d'), w')"
  shows "\<forall>c \<in> set cols. d' c = Some (''name'' # concat (map (\<lambda>r. [x. (m, x) \<leftarrow> zip cols r, m = c]) rows))"
proof
  fix c
  assume c: "c \<in> set cols"
  have d': "d' = fold (\<lambda>r d. fold (\<lambda>(n, c) d. df_push d n c) (zip cols r) d) rows (df_init d cols)"
    using process_SQLite_input_rows [OF assms(1-6), where n = n and d = d and w = w] assms(7)
    by simp
  show "d' c = Some (''name'' # concat (map (\<lambda>r. [x. (m, x) \<leftarrow> zip cols r, m = c]) rows))"
    unfolding d' using fold_rows_in [where d = "df_init d cols", OF c assms(4) df_init_in [OF c]] by simp
qed

theorem process_SQLite_input_frame_duplicates_witness:
  "(Map.empty(''a'' \<mapsto> [''name'', ''1'', ''2'', ''3'', ''4''])) ''a'' =
     Some (''name'' # concat (map (\<lambda>r. [x. (m, x) \<leftarrow> zip [''a'', ''a''] r, m = ''a''])
                                  [[''1'', ''2''], [''3'', ''4'']]))"
proof -
  let ?h = "\<lparr>h_file = None, h_readonly = False, h_data = []\<rparr> :: string list handle"
  let ?w = "\<lparr>files = Map.empty, creatable = (\<lambda>_. False), iopub = [], fetches = []\<rparr> :: string list env"
  let ?q = "\<lparr>st_columns = [''a'', ''a''], st_step = list_steps [Row [''1'', ''2''], Row [''3'', ''4'']]\<rparr>"
  let ?E = "sample_engine\<lparr>eng_prepare := (\<lambda>_ _. Inr ?q)\<rparr>"
  let ?m = "html_table [''a'', ''a''] [[''1'', ''2''], [''3'', ''4'']]"
  have prep: "eng_prepare ?E (h_data ?h) ''SELECT a, a FROM t'' = Inr ?q"
    by simp
  have run: "process_SQLite_input ?E 1 (Some ?h) ''SELECT a, a FROM t'' Map.empty ?w =
      (Inr (?h, Map.empty(''a'' \<mapsto> [''name'', ''1'', ''2'', ''3'', ''4''])),
       publish (Execute_result 1 [(''text/plain'', Table [[''a'', ''a''], [''1'', ''2''], [''3'', ''4'']]),
                                  (''text/html'', Text ?m)]) ?w)"
    by (simp add: process_SQLite_input_def step_rows_eval df_init_def df_push_def html_table_def
                  html_row_def html_td_def html_head_def)
  have "\<forall>c \<in> set [''a'', ''a'']. (Map.empty(''a'' \<mapsto> [''name'', ''1'', ''2'', ''3'', ''4''])) c =
      Some (''name'' # concat (map (\<lambda>r. [x. (m, x) \<leftarrow> zip [''a'', ''a''] r, m = c]) [[''1'', ''2''], [''3'', ''4'']]))"
    by (rule process_SQLite_input_frame_duplicates [OF prep _ _ _ _ _ run])
       (simp_all add: rows_wf_def list_steps_def All_less_Suc)
  then show ?thesis by simp
qed

text \<open>
  C17. An exception raised by \<open>executeStep()\<close> after a run of rows aborts the
  pipeline with that error before anything is published: the environment, and with it
  the IOPub channel, is left exactly as it was.
\<close>

theorem process_SQLite_input_step_error:
  assumes "eng_prepare E (h_data h) code = Inr q" "st_columns q \<noteq> []"
    and "st_step q j = Some (Step_error m)" "\<forall>i < j. \<exists>cells. st_step q i = Some (Row cells)"
  shows "process_SQLite_input E n (Some h) code d w = (Inl (Runtime_error m), w)"
  using assms step_rows_error_at [of "st_step q" j m 0] by (simp add: process_SQLite_input_def)

theorem process_SQLite_input_step_error_witness:
  "process_SQLite_input failing_engine 1 (Some \<lparr>h_file = None, h_readonly = False, h_data = []\<rparr>)
     ''SELECT a FROM t'' Map.empty (\<lparr>files = Map.empty, creatable = (\<lambda>_. False), iopub = [], fetches = []\<rparr> :: string list env)
   = (Inl (Runtime_error ''disk I/O error''), \<lparr>files = Map.empty, creatable = (\<lambda>_. False), iopub = [], fetches = []\<rparr>)"
  by (rule process_SQLite_input_step_error
        [where q = "\<lparr>st_columns = [''a''], st_step = list_steps [Row [''1''], Step_error ''disk I/O error'']\<rparr>"
           and j = 1])
     (simp_all add: failing_engine_def sample_engine_def list_steps_def)

text \<open>
  C19. Termination of the row loop: when some \<open>executeStep()\<close> of a statement with
  result columns returns false or throws, the pipeline returns (its outcome is a
  value or an exception, not divergence).
\<close>

theorem process_SQLite_input_returns:
  assumes "eng_prepare E (h_data h) code = Inr q" "st_columns q \<noteq> []"
    and "\<forall>cells. st_step q j \<noteq> Some (Row cells)"
  shows "fst (process_SQLite_input E n (Some h) code d w) \<noteq> Inl Diverges"
proof -
  obtain r where r: "step_rows (st_columns q) (st_step q) 0
      ([st_columns q], html_head (st_columns q), df_init d (st_columns q)) = Some r"
    using step_rows_returns [of 0 j "st_step q"] assms(3) by blast
  show ?thesis
    using assms(1,2) r step_rows_Some_stops [OF r]
    by (cases r) (auto simp: process_SQLite_input_def split: prod.splits)
qed

text \<open>
  C20. A query that yields rows for ever (a recursive common table expression without a
  limit) never returns: the request blocks, and nothing is published.
\<close>

theorem process_SQLite_input_diverges:
  assumes "eng_prepare E (h_data h) code = Inr q" "st_columns q \<noteq> []"
    and "\<forall>j. \<exists>cells. st_step q j = Some (Row cells)"
  shows "process_SQLite_input E n (Some h) code d w = (Inl Diverges, w)"
  using assms step_rows_diverges [of 0 "st_step q"] by (simp add: process_SQLite_input_def)

theorem process_SQLite_input_returns_witness:
  "fst (process_SQLite_input sample_engine 1 (Some \<lparr>h_file = None, h_readonly = False, h_data = [''t'']\<rparr>)
     ''SELECT name FROM sqlite_master'' Map.empty
     (\<lparr>files = Map.empty, creatable = (\<lambda>_. False), iopub = [], fetches = []\<rparr> :: string list env)) \<noteq> Inl Diverges"
  by (rule process_SQLite_input_returns
        [where q = "\<lparr>st_columns = [''name''], st_step = list_steps [Row [''t'']]\<rparr>" and j = 1])
     (simp_all add: sample_engine_def list_steps_def)

theorem process_SQLite_input_diverges_witness:
  "process_SQLite_input counting_engine 1 (Some \<lparr>h_file = None, h_readonly = False, h_data = []\<rparr>)
     ''WITH RECURSIVE c(x) AS (SELECT 0 UNION ALL SELECT x + 1 FROM c) SELECT x FROM c'' Map.empty
     (\<lparr>files = Map.empty, creatable = (\<lambda>_. False), iopub = [], fetches = []\<rparr> :: string list env)
   = (Inl Diverges, \<lparr>files = Map.empty, creatable = (\<lambda>_. False), iopub = [], fetches = []\<rparr>)"
  by (rule process_SQLite_input_diverges
        [where q = "\<lparr>st_columns = [''x''], st_step = (\<lambda>k. Some (Row [string_of_nat k]))\<rparr>"])
     (simp_all add: counting_engine_def)

end
