(* ===== verification/Fetch.thy ===== *)
theory Fetch
  imports Pipeline
begin

text \<open>
  The emscripten-only download helper \<open>fetch\<close> (\<open>src/src/xeus_sqlite_interpreter.cpp\<close>,
  lines 66--129), behind the \<open>FETCH\<close> magic.  \<open>fetch\<close> publishes a line and starts an
  asynchronous download (\<open>emscripten_fetch\<close>); the browser later calls
  \<open>onprogress\<close>, and then \<open>onsuccess\<close> or \<open>onerror\<close>, between two requests.  The
  download's heap objects, the \<open>emscripten_fetch_t\<close> and its \<open>fetch_user_data\<close>, are
  kept in an explicit store with the addresses freed so far, and the callbacks are
  translated statement by statement, every read of \<open>fetch->\<close> or \<open>userData->\<close> going
  through the store.  Both final callbacks call \<open>emscripten_fetch_close(fetch)\<close>, which
  frees the fetch, before they read \<open>fetch->userData\<close>: the lemmas
  \<open>fetch_onsuccess_closed\<close> and \<open>fetch_onerror_closed\<close> derive that this read is a use
  after free, so the file is never written by a defined execution.  The text
  \<open>std::ostream\<close> gives for the \<open>double\<close> percentage of a progress line is a
  parameter of the model.
\<close>

section \<open>Definitions\<close>

text \<open>
  \<open>fetch(url, filename)\<close>: publish \<open>fetching: url: ... to ...\<close> on stdout and queue the
  download (lines 66--72, 126).
\<close>

definition fetch :: "string \<Rightarrow> string \<Rightarrow> ('d, 'x) env_scheme \<Rightarrow> ('d, 'x) env_scheme" where
  "fetch url filename w =
     (publish (Stream ''stdout'' (''fetching: url: '' @ url @ '' to '' @ filename @ nl)) w)
       \<lparr>fetches := fetches w @ [(url, filename)]\<rparr>"

text \<open>
  The heap objects of a download.  \<open>fetch\<close> allocates a \<open>fetch_user_data\<close> with
  \<open>new\<close>, and \<open>emscripten_fetch\<close> an \<open>emscripten_fetch_t\<close> that points to it; the
  \<open>i\<close>-th download's objects live at address \<open>i\<close> of two stores, whose contents are
  \<open>fetches\<close> (the URL and the file name).  The extension records which objects have
  been freed: by \<open>emscripten_fetch_close\<close>, and by \<open>delete userData\<close>.
\<close>

record 'd fetch_env = "'d env" +
  fetch_freed :: "nat list"
  user_freed :: "nat list"

definition fetch_live :: "nat \<Rightarrow> ('d, 'x) fetch_env_scheme \<Rightarrow> bool" where
  "fetch_live i w \<longleftrightarrow> i < length (fetches w) \<and> i \<notin> set (fetch_freed w)"

definition user_live :: "nat \<Rightarrow> ('d, 'x) fetch_env_scheme \<Rightarrow> bool" where
  "user_live i w \<longleftrightarrow> i < length (fetches w) \<and> i \<notin> set (user_freed w)"

text \<open>A read of a field of the fetch: its URL, or a field the browser filled in.\<close>

definition fetch_read :: "nat \<Rightarrow> (string, ('d, 'x) fetch_env_scheme) exc" where
  "fetch_read i w =
     (if fetch_live i w then (Inr (fst (fetches w ! i)), w)
      else (Inl (Undefined_behaviour ''emscripten_fetch_t used after emscripten_fetch_close''), w))"

text \<open>\<open>userData->filename\<close>.\<close>

definition user_read :: "nat \<Rightarrow> (string, ('d, 'x) fetch_env_scheme) exc" where
  "user_read i w =
     (if user_live i w then (Inr (snd (fetches w ! i)), w)
      else (Inl (Undefined_behaviour ''fetch_user_data used after delete''), w))"

definition emscripten_fetch_close :: "nat \<Rightarrow> (unit, ('d, 'x) fetch_env_scheme) exc" where
  "emscripten_fetch_close i w =
     (if fetch_live i w then (Inr (), w\<lparr>fetch_freed := fetch_freed w @ [i]\<rparr>)
      else (Inl (Undefined_behaviour ''emscripten_fetch_t used after emscripten_fetch_close''), w))"

definition user_delete :: "nat \<Rightarrow> (unit, ('d, 'x) fetch_env_scheme) exc" where
  "user_delete i w =
     (if user_live i w then (Inr (), w\<lparr>user_freed := user_freed w @ [i]\<rparr>)
      else (Inl (Undefined_behaviour ''fetch_user_data used after delete''), w))"

text \<open>
  \<open>onsuccess\<close> of the \<open>i\<close>-th download, with the downloaded bytes (lines 85--103),
  statement by statement.  \<open>fetch->numBytes\<close> and \<open>fetch->url\<close> are read for the
  first line; then the fetch is closed, and \<open>fetch->userData\<close>, \<open>userData->filename\<close>
  and \<open>fetch->data\<close> are read for writing the file.  Line 97 passes \<open>fetch->data[0]\<close>, a
  \<open>char\<close>, where \<open>ofstream::write\<close> expects a pointer; the model writes the bytes.
\<close>

definition fetch_onsuccess :: "'d engine \<Rightarrow> nat \<Rightarrow> string \<Rightarrow> (unit, ('d, 'x) fetch_env_scheme) exc" where
  "fetch_onsuccess E i bytes =
     bindE (fetch_read i) (\<lambda>url.
     bindE (modifyE (publish (Stream ''stdout''
       (''Finished downloading '' @ string_of_nat (length bytes) @ '' bytes from URL '' @ url @ nl)))) (\<lambda>_.
     bindE (emscripten_fetch_close i) (\<lambda>_.
     bindE (fetch_read i) (\<lambda>_.
     bindE (user_read i) (\<lambda>filename.
     bindE (modifyE (publish (Stream ''stdout'' (''write to file:'' @ nl)))) (\<lambda>_.
     bindE (modifyE (publish (Stream ''stdout'' filename))) (\<lambda>_.
     bindE (fetch_read i) (\<lambda>_.
     bindE (modifyE (ofstream_write E filename bytes)) (\<lambda>_.
     bindE (modifyE (publish (Stream ''stdout'' (''writing file done'' @ nl)))) (\<lambda>_.
     bindE (modifyE (publish (Stream ''stdout'' (''close file'' @ nl)))) (\<lambda>_.
     user_delete i)))))))))))"

text \<open>
  \<open>onerror\<close> with the HTTP status (lines 104--112).  Line 106 is missing a \<open><<\<close>
  before \<open>"\n"\<close>; the message is taken as the one the line spells out.
\<close>

definition fetch_onerror :: "nat \<Rightarrow> 16 word \<Rightarrow> (unit, ('d, 'x) fetch_env_scheme) exc" where
  "fetch_onerror i status =
     bindE (fetch_read i) (\<lambda>url.
     bindE (modifyE (publish (Stream ''stdout'' (''Downloading '' @ url @
       ''failed , HTTP failure status code:'' @ string_of_nat (unat status) @ nl)))) (\<lambda>_.
     bindE (emscripten_fetch_close i) (\<lambda>_.
     bindE (fetch_read i) (\<lambda>_.
     user_delete i))))"

text \<open>
  \<open>onprogress\<close> (lines 113--125), with the fetch's \<open>dataOffset\<close>, \<open>numBytes\<close> and
  \<open>totalBytes\<close> (\<open>uint64_t\<close>): with a known total it prints the percentage
  \<open>dataOffset * 100.0 / totalBytes\<close>, rendered by \<open>fmt\<close>; otherwise the byte count
  \<open>dataOffset + numBytes\<close>, a 64-bit sum.  It does not close the fetch.
\<close>

definition fetch_onprogress ::
  "(64 word \<Rightarrow> 64 word \<Rightarrow> string) \<Rightarrow> nat \<Rightarrow> 64 word \<Rightarrow> 64 word \<Rightarrow> 64 word \<Rightarrow>
     (unit, ('d, 'x) fetch_env_scheme) exc" where
  "fetch_onprogress fmt i data_offset num_bytes total_bytes =
     bindE (fetch_read i) (\<lambda>url.
     modifyE (publish (Stream ''stdout''
       (''Downloading '' @ url @ '' '' @
        (if total_bytes \<noteq> 0 then fmt data_offset total_bytes @ '' complete'' @ nl
         else string_of_nat (unat (data_offset + num_bytes)) @ ''bytes complete'' @ nl)))))"

section \<open>Lemmas\<close>

lemma fetch_fetch_env_sel [simp]:
  "fetch_freed (fetch url f w) = fetch_freed w" "user_freed (fetch url f w) = user_freed w"
  by (simp_all add: fetch_def publish_def)

lemma publish_fetch_env_sel [simp]:
  "fetches (publish m w) = fetches w" "fetch_freed (publish m w) = fetch_freed w"
  "user_freed (publish m w) = user_freed w"
  by (simp_all add: publish_def)

lemma fetch_read_live: "fetch_live i w \<Longrightarrow> fetch_read i w = (Inr (fst (fetches w ! i)), w)"
  by (simp add: fetch_read_def)

lemma fetch_live_publish [simp]: "fetch_live i (publish m w) = fetch_live i w"
  by (simp add: fetch_live_def)

lemma fetch_read_closed:
  "i \<in> set (fetch_freed w) \<Longrightarrow>
   fetch_read i w = (Inl (Undefined_behaviour ''emscripten_fetch_t used after emscripten_fetch_close''), w)"
  by (simp add: fetch_read_def fetch_live_def)

lemma emscripten_fetch_close_live:
  "fetch_live i w \<Longrightarrow> emscripten_fetch_close i w = (Inr (), w\<lparr>fetch_freed := fetch_freed w @ [i]\<rparr>)"
  by (simp add: emscripten_fetch_close_def)

lemmas fetch_heap_simps = fetch_read_live fetch_read_closed emscripten_fetch_close_live bindE_Inr bindE_Inl

text \<open>
  Both final callbacks publish their first line, close the fetch and then read it
  again: the run stops there, with the fetch freed.
\<close>

lemma fetch_onsuccess_closed:
  assumes "fetch_live i w"
  shows "fetch_onsuccess E i bytes w =
    (Inl (Undefined_behaviour ''emscripten_fetch_t used after emscripten_fetch_close''),
     (publish (Stream ''stdout'' (''Finished downloading '' @ string_of_nat (length bytes)
        @ '' bytes from URL '' @ fst (fetches w ! i) @ nl)) w)\<lparr>fetch_freed := fetch_freed w @ [i]\<rparr>)"
  using assms by (simp add: fetch_onsuccess_def fetch_heap_simps)

lemma fetch_onerror_closed:
  assumes "fetch_live i w"
  shows "fetch_onerror i status w =
    (Inl (Undefined_behaviour ''emscripten_fetch_t used after emscripten_fetch_close''),
     (publish (Stream ''stdout'' (''Downloading '' @ fst (fetches w ! i) @
        ''failed , HTTP failure status code:'' @ string_of_nat (unat status) @ nl)) w)
       \<lparr>fetch_freed := fetch_freed w @ [i]\<rparr>)"
  using assms by (simp add: fetch_onerror_def fetch_heap_simps)

lemma fetch_onprogress_live:
  assumes "fetch_live i w"
  shows "fetch_onprogress fmt i data_offset num_bytes total_bytes w =
    (Inr (), publish (Stream ''stdout''
       (''Downloading '' @ fst (fetches w ! i) @ '' '' @
        (if total_bytes \<noteq> 0 then fmt data_offset total_bytes @ '' complete'' @ nl
         else string_of_nat (unat (data_offset + num_bytes)) @ ''bytes complete'' @ nl))) w)"
  using assms by (simp add: fetch_onprogress_def fetch_heap_simps modifyE_def)

lemma fetch_sel [simp]:
  "files (fetch url f w) = files w" "creatable (fetch url f w) = creatable w"
  "iopub (fetch url f w) = iopub w @ [Stream ''stdout'' (''fetching: url: '' @ url @ '' to '' @ f @ nl)]"
  "fetches (fetch url f w) = fetches w @ [(url, f)]"
  by (simp_all add: fetch_def)

end
