(* ===== verification/Idbfs.thy ===== *)
theory Idbfs
  imports Fetch
begin

text \<open>
  The emscripten build keeps its databases in \<open>/home/web_user/xeus_sqlite\<close>, an
  IDBFS directory backed by the browser's IndexedDB (\<open>src/src/xeus_sqlite_interpreter.cpp\<close>,
  lines 133--167 and 421--427).  \<open>configure_impl\<close> mounts it and starts
  \<open>FS.syncfs(true, ...)\<close>, which fills the directory from IndexedDB; the \<open>SYNC\<close>
  magic starts \<open>FS.syncfs(false, ...)\<close>, which copies the directory into IndexedDB.
  Both copies are asynchronous: each is queued and takes effect when the browser
  completes it, between two requests.  The environment is extended with the IndexedDB
  store, the syncs in flight (\<open>True\<close>: from IndexedDB, \<open>False\<close>: to IndexedDB) and
  \<open>Module.syncdone\<close>.  A sync's file list is taken when it completes; sync errors
  (the callbacks' \<open>assert(!err)\<close>) and the console lines of \<open>std::cout\<close>
  and \<open>console.log\<close>, which do not reach the IOPub channel, are not modelled.
\<close>

section \<open>Definitions\<close>

record 'd store_env = "'d fetch_env" +
  idb :: "string \<Rightarrow> 'd option"
  syncs :: "bool list"
  syncdone :: bool

definition persistent_dir :: string where
  "persistent_dir = ''/home/web_user/xeus_sqlite''"

definition in_persistent_dir :: "string \<Rightarrow> bool" where
  "in_persistent_dir p \<longleftrightarrow> prefix (persistent_dir @ ''/'') p"

text \<open>
  \<open>em_init_idbfs()\<close> (lines 133--158): \<open>FS.mkdir\<close> and \<open>FS.mount\<close> of the directory,
  \<open>Module.syncdone = 0\<close>, and \<open>FS.syncfs(true, ...)\<close> started.
\<close>

definition em_init_idbfs :: "('d, 'x) store_env_scheme \<Rightarrow> ('d, 'x) store_env_scheme" where
  "em_init_idbfs w = w\<lparr>syncdone := False, syncs := syncs w @ [True]\<rparr>"

text \<open>\<open>ems_sync_db()\<close> (lines 159--167): \<open>FS.syncfs(false, ...)\<close> started.\<close>

definition ems_sync_db :: "('d, 'x) store_env_scheme \<Rightarrow> ('d, 'x) store_env_scheme" where
  "ems_sync_db w = w\<lparr>syncs := syncs w @ [False]\<rparr>"

text \<open>\<open>interpreter::configure_impl()\<close> (lines 421--427), in the emscripten build.\<close>

definition configure_impl :: "('d, 'x) store_env_scheme \<Rightarrow> ('d, 'x) store_env_scheme" where
  "configure_impl w = em_init_idbfs w"

text \<open>
  Completion of the \<open>i\<close>-th sync in flight: from IndexedDB, the directory's files
  become those of the store and the callback sets \<open>Module.syncdone = 1\<close>; to
  IndexedDB, the store becomes the directory's files.
\<close>

definition sync_complete :: "nat \<Rightarrow> (unit, ('d, 'x) store_env_scheme) exc" where
  "sync_complete i w =
     (case vec_at (syncs w) i of
        Inl e \<Rightarrow> (Inl e, w)
      | Inr from_idb \<Rightarrow>
          (let w' = w\<lparr>syncs := take i (syncs w) @ drop (Suc i) (syncs w)\<rparr> in
           if from_idb
           then (Inr (), w'\<lparr>files := (\<lambda>p. if in_persistent_dir p then idb w p else files w p),
                            syncdone := True\<rparr>)
           else (Inr (), w'\<lparr>idb := (\<lambda>p. if in_persistent_dir p then files w p else idb w p)\<rparr>)))"

section \<open>Lemmas\<close>

lemma store_ops_sel [simp]:
  "files (em_init_idbfs w) = files w" "idb (em_init_idbfs w) = idb w"
  "syncs (em_init_idbfs w) = syncs w @ [True]"
  "files (ems_sync_db w) = files w" "idb (ems_sync_db w) = idb w"
  "syncs (ems_sync_db w) = syncs w @ [False]" "iopub (ems_sync_db w) = iopub w"
  by (simp_all add: em_init_idbfs_def ems_sync_db_def)

lemma sync_complete_to_idb:
  "i < length (syncs w) \<Longrightarrow> \<not> syncs w ! i \<Longrightarrow>
   sync_complete i w =
     (Inr (), w\<lparr>syncs := take i (syncs w) @ drop (Suc i) (syncs w),
               idb := (\<lambda>p. if in_persistent_dir p then files w p else idb w p)\<rparr>)"
  by (simp add: sync_complete_def vec_at_def Let_def)

lemma sync_complete_from_idb:
  "i < length (syncs w) \<Longrightarrow> syncs w ! i \<Longrightarrow>
   sync_complete i w =
     (Inr (), w\<lparr>syncs := take i (syncs w) @ drop (Suc i) (syncs w),
               files := (\<lambda>p. if in_persistent_dir p then idb w p else files w p),
               syncdone := True\<rparr>)"
  by (simp add: sync_complete_def vec_at_def Let_def)

end
