(* ===== verification/Tokenizer.thy ===== *)
theory Tokenizer
  imports Prelude
begin

text \<open>
  The input tokenizer and classifier of the \<open>xv_bindings\<close> helpers that
  \<open>execute_request_impl\<close> calls (\<open>sanitize_string\<close>, \<open>tokenizer\<close>,
  \<open>is_magic\<close>, \<open>is_xvega\<close>, \<open>case_insentive_equals\<close>) and
  \<open>xv_sqlite::split_xv_sqlite_input\<close>.  Their code is not under \<open>src/\<close>; they are
  modelled from the specification (section 4.1, 4.2): sanitizing turns white-space
  control characters into spaces and drops the other control characters; tokens are
  separated by runs of spaces, a quoted substring (single or double quotes) being part
  of one token; a magic line starts with \<open>%\<close>; the chart trigger is
  \<open>XVEGA_PLOT\<close>, compared case-insensitively; the chart options are separated from
  the embedded SQL by the token \<open><>\<close>.
\<close>

section \<open>Definitions\<close>

text \<open>\<open>tolower\<close> in the "C" locale.\<close>

definition c_tolower :: "char \<Rightarrow> char" where
  "c_tolower c =
     (case map_of (zip ''ABCDEFGHIJKLMNOPQRSTUVWXYZ'' ''abcdefghijklmnopqrstuvwxyz'') c of
        Some l \<Rightarrow> l | None \<Rightarrow> c)"

definition case_insentive_equals :: "string \<Rightarrow> string \<Rightarrow> bool" where
  "case_insentive_equals a b \<longleftrightarrow> length a = length b \<and> map c_tolower a = map c_tolower b"

definition is_space_ctrl :: "char \<Rightarrow> bool" where
  "is_space_ctrl c \<longleftrightarrow> (9 \<le> (of_char c :: nat) \<and> (of_char c :: nat) \<le> 13)"

definition is_ctrl :: "char \<Rightarrow> bool" where
  "is_ctrl c \<longleftrightarrow> (of_char c :: nat) < 32 \<or> (of_char c :: nat) = 127"

definition sanitize_string :: "string \<Rightarrow> string" where
  "sanitize_string s =
     map (\<lambda>c. if is_space_ctrl c then CHR '' '' else c)
       (filter (\<lambda>c. \<not> is_ctrl c \<or> is_space_ctrl c) s)"

definition is_quote :: "char \<Rightarrow> bool" where
  "is_quote c \<longleftrightarrow> c = CHR 0x27 \<or> c = CHR 0x22"

text \<open>
  The scanner: the rest of the input, the token being built, the quote it is inside
  (if any), and the tokens so far.
\<close>

fun tok_go :: "string \<Rightarrow> string \<Rightarrow> char option \<Rightarrow> string list \<Rightarrow> string list" where
  "tok_go [] cur q acc = (if cur = [] then acc else acc @ [cur])"
| "tok_go (c # cs) cur (Some qc) acc = tok_go cs (cur @ [c]) (if c = qc then None else Some qc) acc"
| "tok_go (c # cs) cur None acc =
     (if c = CHR '' '' then tok_go cs [] None (if cur = [] then acc else acc @ [cur])
      else tok_go cs (cur @ [c]) (if is_quote c then Some c else None) acc)"

definition tokenizer :: "string \<Rightarrow> string list" where
  "tokenizer s = tok_go s [] None []"

definition is_magic :: "string list \<Rightarrow> bool" where
  "is_magic toks = (case toks of [] \<Rightarrow> False | t # _ \<Rightarrow> t \<noteq> [] \<and> hd t = CHR ''%'')"

definition is_xvega :: "string list \<Rightarrow> bool" where
  "is_xvega toks = (case toks of [] \<Rightarrow> False | t # _ \<Rightarrow> case_insentive_equals t ''XVEGA_PLOT'')"

definition split_xv_sqlite_input :: "string list \<Rightarrow> string list \<times> string list" where
  "split_xv_sqlite_input toks =
     (takeWhile (\<lambda>t. t \<noteq> ''<>'') toks, drop 1 (dropWhile (\<lambda>t. t \<noteq> ''<>'') toks))"

text \<open>
  A token the scanner keeps whole when it stands between spaces: non-empty, with no
  space and no quote.
\<close>

definition plain_token :: "string \<Rightarrow> bool" where
  "plain_token t \<longleftrightarrow> t \<noteq> [] \<and> CHR '' '' \<notin> set t \<and> (\<forall>c \<in> set t. \<not> is_quote c)"

section \<open>The scanner\<close>

lemma tok_go_plain:
  "CHR '' '' \<notin> set t \<Longrightarrow> \<forall>c \<in> set t. \<not> is_quote c \<Longrightarrow>
   tok_go (t @ rest) cur None acc = tok_go rest (cur @ t) None acc"
  by (induction t arbitrary: cur) auto

lemma tok_go_spaced:
  "\<forall>t \<in> set ts. plain_token t \<Longrightarrow>
   tok_go (concat (map (\<lambda>t. CHR '' '' # t) ts)) cur None acc =
     acc @ (if cur = [] then [] else [cur]) @ ts"
proof (induction ts arbitrary: cur acc)
  case Nil
  then show ?case by simp
next
  case (Cons t ts)
  then have t: "plain_token t" and ts: "\<forall>t \<in> set ts. plain_token t" by simp_all
  have "tok_go (concat (map (\<lambda>t. CHR '' '' # t) (t # ts))) cur None acc =
        tok_go (t @ concat (map (\<lambda>t. CHR '' '' # t) ts)) [] None
          (if cur = [] then acc else acc @ [cur])"
    by simp
  also have "\<dots> = tok_go (concat (map (\<lambda>t. CHR '' '' # t) ts)) t None
          (if cur = [] then acc else acc @ [cur])"
    using t by (simp add: plain_token_def tok_go_plain)
  also have "\<dots> = acc @ (if cur = [] then [] else [cur]) @ t # ts"
    using Cons.IH [OF ts] t by (simp add: plain_token_def)
  finally show ?case .
qed

lemma tok_go_nonempty: "[] \<notin> set acc \<Longrightarrow> [] \<notin> set (tok_go s cur q acc)"
  by (induction s cur q acc rule: tok_go.induct) simp_all

lemma split_xv_delim:
  "''<>'' \<notin> set xo \<Longrightarrow> split_xv_sqlite_input (xo @ ''<>'' # sql) = (xo, sql)"
  by (induction xo) (auto simp: split_xv_sqlite_input_def)

end
