(* ===== verification/Magic.thy ===== *)
theory Magic
  imports Idbfs Tokenizer
begin

text \<open>
  The session state of \<open>xeus_sqlite::interpreter\<close> and its magic-command dispatcher
  (\<open>src/src/xeus_sqlite_interpreter.cpp\<close>, lines 171--419): the members
  \<open>m_bd_is_loaded\<close>, \<open>m_db_path\<close>, \<open>m_db\<close> and \<open>m_backup_db\<close>, as a record that
  extends the environment (files and IOPub), and one definition per member function
  (\<open>load_db\<close>, \<open>create_db\<close>, \<open>delete_db\<close>, \<open>table_exists\<close>,
  \<open>is_unencrypted\<close>, \<open>get_header_info\<close>, \<open>backup\<close>) and for the dispatcher
  \<open>parse_SQLite_magic\<close>.  Each handler runs in the exception-state monad of the
  prelude, so that the members a handler assigns before it throws stay assigned.
\<close>

section \<open>The interpreter's state\<close>

record 'd interp = "'d store_env" +
  bd_is_loaded :: bool
  db_path :: string
  m_db :: "'d handle option"
  m_backup_db :: "'d handle option"

text \<open>A freshly constructed interpreter, in a given file system.\<close>

definition interp_init :: "(string \<Rightarrow> 'd option) \<Rightarrow> (string \<Rightarrow> bool) \<Rightarrow> 'd interp" where
  "interp_init fs cr =
     \<lparr>files = fs, creatable = cr, iopub = [], fetches = [], fetch_freed = [], user_freed = [], idb = Map.empty, syncs = [],
      syncdone = False, bd_is_loaded = False, db_path = '''',
      m_db = None, m_backup_db = None\<rparr>"

section \<open>Member functions\<close>

text \<open>\<open>m_db = std::make_unique<SQLite::Database>(m_db_path, mode)\<close>.\<close>

definition open_into :: "'d engine \<Rightarrow> open_mode \<Rightarrow> (unit, 'd interp) exc" where
  "open_into E mode s =
     (case open_database E (db_path s) mode s of
        Inl e \<Rightarrow> (Inl e, s)
      | Inr (h, s') \<Rightarrow> (Inr (), s'\<lparr>m_db := Some h\<rparr>))"

text \<open>\<open>interpreter::load_db\<close> (lines 180--210): the mode is read from the last token.\<close>

definition load_db :: "'d engine \<Rightarrow> string list \<Rightarrow> (unit, 'd interp) exc" where
  "load_db E toks s =
     (case vec_back toks of
        Inl e \<Rightarrow> (Inl e, s)
      | Inr b \<Rightarrow>
          (if str_contains b ''rw'' then open_into E OPEN_READWRITE (s\<lparr>bd_is_loaded := True\<rparr>)
           else if str_contains b ''r'' then open_into E OPEN_READONLY (s\<lparr>bd_is_loaded := True\<rparr>)
           else if length toks < 4 then open_into E OPEN_READWRITE (s\<lparr>bd_is_loaded := True\<rparr>)
           else (Inl (Runtime_error ''Wasn't able to load the database correctly.''), s)))"

text \<open>\<open>interpreter::create_db\<close> (lines 215--232): the path is token 2.\<close>

definition create_db :: "'d engine \<Rightarrow> string list \<Rightarrow> (unit, 'd interp) exc" where
  "create_db E toks s =
     (let s1 = s\<lparr>bd_is_loaded := True\<rparr> in
      case vec_at toks 2 of
        Inl e \<Rightarrow> (Inl e, s1)
      | Inr p \<Rightarrow>
          (let s2 = s1\<lparr>db_path := p\<rparr>;
               s3 = (if p \<noteq> memory_path then ofstream_write E p '''' s2 else s2)
           in open_into E OPEN_READWRITE_CREATE s3))"

text \<open>\<open>interpreter::delete_db\<close> (lines 234--246).\<close>

definition delete_db :: "(unit, 'd interp) exc" where
  "delete_db s =
     (if db_path s \<noteq> memory_path then
        (case fs_remove (db_path s) s of
           None \<Rightarrow> (Inl (Runtime_error ''Error deleting file.''), s)
         | Some s' \<Rightarrow> (Inr (), s'))
      else (Inr (), s))"

text \<open>\<open>interpreter::table_exists\<close> (lines 248--261).\<close>

definition table_exists :: "'d engine \<Rightarrow> string \<Rightarrow> 'd handle option \<Rightarrow> mime_bundle result" where
  "table_exists E name mdb =
     (case mdb of
        None \<Rightarrow> Inl (Undefined_behaviour ''null m_db dereferenced'')
      | Some h \<Rightarrow>
          Inr [(''text/plain'', Text (if eng_table_exists E (h_data h) name
                                     then ''The table '' @ name @ '' exists.''
                                     else ''The table '' @ name @ '' doesn't exist.''))])"

text \<open>
  \<open>interpreter::is_unencrypted\<close> (lines 263--276): the static
  \<open>SQLite::Database::isUnencrypted(m_db_path)\<close> reads the file's header and throws
  when the file cannot be opened.
\<close>

definition is_unencrypted :: "'d engine \<Rightarrow> ('d, 'x) interp_scheme \<Rightarrow> mime_bundle result" where
  "is_unencrypted E s =
     (case files s (db_path s) of
        None \<Rightarrow> Inl (Runtime_error (''Error opening file: '' @ db_path s))
      | Some d \<Rightarrow>
          Inr [(''text/plain'', Text (if eng_unencrypted E d then ''The database is unencrypted.''
                                     else ''The database is encrypted.''))])"

text \<open>The text \<open>get_header_info\<close> builds (lines 286--308).\<close>

definition header_text :: "sqlite_header \<Rightarrow> string" where
  "header_text h =
     ''Magic header string: '' @ take 15 (headerStr h) @ nl @
     ''Page size bytes: '' @ string_of_nat (unat (pageSizeBytes h)) @ nl @
     ''File format write version: '' @ string_of_nat (unat (fileFormatWriteVersion h)) @ nl @
     ''File format read version: '' @ string_of_nat (unat (fileFormatReadVersion h)) @ nl @
     ''Reserved space bytes: '' @ string_of_nat (unat (reservedSpaceBytes h)) @ nl @
     ''Max embedded payload fraction '' @ string_of_nat (unat (maxEmbeddedPayloadFrac h)) @ nl @
     ''Min embedded payload fraction: '' @ string_of_nat (unat (minEmbeddedPayloadFrac h)) @ nl @
     ''Leaf payload fraction: '' @ string_of_nat (unat (leafPayloadFrac h)) @ nl @
     ''File change counter: '' @ string_of_nat (unat (fileChangeCounter h)) @ nl @
     ''Database size pages: '' @ string_of_nat (unat (databaseSizePages h)) @ nl @
     ''First freelist trunk page: '' @ string_of_nat (unat (firstFreelistTrunkPage h)) @ nl @
     ''Total freelist trunk pages: '' @ string_of_nat (unat (totalFreelistPages h)) @ nl @
     ''Schema cookie: '' @ string_of_nat (unat (schemaCookie h)) @ nl @
     ''Schema format number: '' @ string_of_nat (unat (schemaFormatNumber h)) @ nl @
     ''Default page cache size bytes: '' @ string_of_nat (unat (defaultPageCacheSizeBytes h)) @ nl @
     ''Largest B tree page number: '' @ string_of_nat (unat (largestBTreePageNumber h)) @ nl @
     ''Database text encoding: '' @ string_of_nat (unat (databaseTextEncoding h)) @ nl @
     ''User version: '' @ string_of_nat (unat (userVersion h)) @ nl @
     ''Incremental vaccum mode: '' @ string_of_nat (unat (incrementalVaccumMode h)) @ nl @
     ''Application ID: '' @ string_of_nat (unat (applicationId h)) @ nl @
     ''Version valid for: '' @ string_of_nat (unat (versionValidFor h)) @ nl @
     ''SQLite version: '' @ string_of_nat (unat (sqliteVersion h)) @ nl"

text \<open>\<open>interpreter::get_header_info\<close> (lines 278--310).\<close>

definition get_header_info :: "'d engine \<Rightarrow> ('d, 'x) interp_scheme \<Rightarrow> mime_bundle result" where
  "get_header_info E s =
     (case files s (db_path s) of
        None \<Rightarrow> Inl (Runtime_error (''Error opening file: '' @ db_path s))
      | Some d \<Rightarrow>
          (case eng_header E d of
             Inl e \<Rightarrow> Inl e
           | Inr hdr \<Rightarrow> Inr [(''text/plain'', Text (header_text hdr))]))"

text \<open>
  \<open>interpreter::backup\<close> (lines 312--323).  \<open>(int)backup_type[0]\<close> reads a
  signed \<open>char\<close>; \<open>backup_type[0]\<close> of an empty string is the terminating NUL.
  \<open>SQLite::Database::backup\<close> opens the file read-write-create and copies this
  database into it for type \<open>Save\<close> (0), from it for any other value.
\<close>

definition signed_char :: "char \<Rightarrow> int" where
  "signed_char c = sint (of_char c :: 8 word)"

definition backup_code :: "string \<Rightarrow> int" where
  "backup_code bt = (if bt = [] then 0 else signed_char (hd bt))"

definition backup :: "'d engine \<Rightarrow> string \<Rightarrow> (unit, 'd interp) exc" where
  "backup E bt s =
     (if 1 < length bt \<and> signed_char (bt ! 0) \<le> 1
      then (Inl (Runtime_error ''This is not a valid backup type.''), s)
      else
        (case m_backup_db s of
           None \<Rightarrow> (Inl (Undefined_behaviour ''null m_backup_db dereferenced''), s)
         | Some h \<Rightarrow>
             (case open_database E (db_path s) OPEN_READWRITE_CREATE s of
                Inl e \<Rightarrow> (Inl e, s)
              | Inr (other, s') \<Rightarrow>
                  (if backup_code bt = 0 then (Inr (), snd (write_through other (h_data h) s'))
                   else (Inr (), s'\<lparr>m_backup_db := Some (h\<lparr>h_data := h_data other\<rparr>)\<rparr>)))))"

section \<open>The dispatcher\<close>

text \<open>\<open>publish_execution_result(execution_counter, bundle, {})\<close> of a computed bundle.\<close>

definition publish_result :: "nat \<Rightarrow> mime_bundle result \<Rightarrow> (unit, 'd interp) exc" where
  "publish_result n r s =
     (case r of Inl e \<Rightarrow> (Inl e, s) | Inr b \<Rightarrow> (Inr (), publish (Execute_result n b) s))"

text \<open>\<open>m_db->op(...)\<close> for a method that changes the database.\<close>

definition with_db :: "('d \<Rightarrow> 'd result) \<Rightarrow> (unit, 'd interp) exc" where
  "with_db f s =
     (case m_db s of
        None \<Rightarrow> (Inl (Undefined_behaviour ''null m_db dereferenced''), s)
      | Some h \<Rightarrow>
          (case f (h_data h) of
             Inl e \<Rightarrow> (Inl e, s)
           | Inr d \<Rightarrow> (let (h', s') = write_through h d s in (Inr (), s'\<lparr>m_db := Some h'\<rparr>))))"

definition testit_path :: string where
  "testit_path = ''/home/web_user/xeus_sqlite/testit.txt''"

text \<open>
  \<open>interpreter::parse_SQLite_magic\<close> (lines 325--419).  \<open>SYNC\<close> starts an
  asynchronous copy of the persistent directory to IndexedDB (\<open>ems_sync_db\<close>, theory
  \<open>Idbfs\<close>); \<open>FETCH\<close> starts a download (\<open>fetch\<close>, theory
  \<open>Fetch\<close>).
\<close>

definition parse_SQLite_magic :: "'d engine \<Rightarrow> nat \<Rightarrow> string list \<Rightarrow> (unit, 'd interp) exc" where
  "parse_SQLite_magic E n toks =
     bindE (liftE (vec_at toks 0)) (\<lambda>cmd.
     if case_insentive_equals cmd ''LOAD'' then
       bindE (liftE (vec_at toks 1)) (\<lambda>p.
       bindE (modifyE (\<lambda>s. s\<lparr>db_path := p\<rparr>)) (\<lambda>_.
       bindE (getsE (\<lambda>s. files s p)) (\<lambda>f.
       if p \<noteq> memory_path \<and> f = None then throwE (Runtime_error ''The path doesn't exist.'')
       else load_db E toks)))
     else if case_insentive_equals cmd ''CREATE'' then create_db E toks
     else if case_insentive_equals cmd ''SYNC'' then modifyE ems_sync_db
     else if case_insentive_equals cmd ''FETCH'' then
       bindE (liftE (vec_at toks 1)) (\<lambda>url.
       bindE (liftE (vec_at toks 2)) (\<lambda>f. modifyE (fetch url f)))
     else if case_insentive_equals cmd ''TEST'' then
       modifyE (ofstream_write E testit_path (''my text here!'' @ nl))
     else
       bindE (getsE bd_is_loaded) (\<lambda>loaded.
       if loaded then
         (if case_insentive_equals cmd ''DELETE'' then delete_db
          else if case_insentive_equals cmd ''TABLE_EXISTS'' then
            bindE (liftE (vec_at toks 1)) (\<lambda>t.
            bindE (getsE m_db) (\<lambda>mdb. publish_result n (table_exists E t mdb)))
          else if case_insentive_equals cmd ''LOAD_EXTENSION'' then
            bindE (liftE (vec_at toks 1)) (\<lambda>a.
            bindE (liftE (vec_at toks 2)) (\<lambda>b. with_db (\<lambda>d. eng_load_extension E d a b)))
          else if case_insentive_equals cmd ''SET_KEY'' then
            bindE (liftE (vec_at toks 1)) (\<lambda>k. with_db (\<lambda>d. eng_key E d k))
          else if case_insentive_equals cmd ''REKEY'' then
            bindE (liftE (vec_at toks 1)) (\<lambda>k. with_db (\<lambda>d. eng_rekey E d k))
          else if case_insentive_equals cmd ''IS_UNENCRYPTED'' then
            bindE (getsE (is_unencrypted E)) (publish_result n)
          else if case_insentive_equals cmd ''GET_INFO'' then
            bindE (getsE (get_header_info E)) (publish_result n)
          else if case_insentive_equals cmd ''BACKUP'' then
            bindE (liftE (vec_at toks 1)) (\<lambda>b. backup E b)
          else returnE ())
       else throwE (Runtime_error ''Load a database to run this command.'')))"

section \<open>The session invariant\<close>

text \<open>
  What the dispatcher keeps true of the members: \<open>m_backup_db\<close> is never assigned
  (it stays the null pointer it is constructed as), and a handle is only ever stored
  after \<open>m_bd_is_loaded\<close> has been set.
\<close>

definition session_inv :: "('d, 'x) interp_scheme \<Rightarrow> bool" where
  "session_inv s \<longleftrightarrow> m_backup_db s = None \<and> (m_db s \<noteq> None \<longrightarrow> bd_is_loaded s)"

text \<open>
  A sample file system for running the theorems on concrete inputs: two database
  files, and one more path where a file can be created.
\<close>

definition sample_session :: "string list interp" where
  "sample_session =
     interp_init (Map.empty(''chinook.db'' \<mapsto> [''albums''], ''/root/db.sqlite'' \<mapsto> []))
                 (\<lambda>p. p = ''new.db'')"

text \<open>
  A reader for the text \<open>get_header_info\<close> publishes: split at newlines, drop the
  magic-string line, and read the decimal digits that end each line.
\<close>

definition header_values :: "sqlite_header \<Rightarrow> nat list" where
  "header_values h =
     [unat (pageSizeBytes h), unat (fileFormatWriteVersion h), unat (fileFormatReadVersion h),
      unat (reservedSpaceBytes h), unat (maxEmbeddedPayloadFrac h), unat (minEmbeddedPayloadFrac h),
      unat (leafPayloadFrac h), unat (fileChangeCounter h), unat (databaseSizePages h),
      unat (firstFreelistTrunkPage h), unat (totalFreelistPages h), unat (schemaCookie h),
      unat (schemaFormatNumber h), unat (defaultPageCacheSizeBytes h),
      unat (largestBTreePageNumber h), unat (databaseTextEncoding h), unat (userVersion h),
      unat (incrementalVaccumMode h), unat (applicationId h), unat (versionValidFor h),
      unat (sqliteVersion h)]"

definition header_labels :: "string list" where
  "header_labels =
     [''Page size bytes: '',
      ''File format write version: '',
      ''File format read version: '',
      ''Reserved space bytes: '',
      ''Max embedded payload fraction '',
      ''Min embedded payload fraction: '',
      ''Leaf payload fraction: '',
      ''File change counter: '',
      ''Database size pages: '',
      ''First freelist trunk page: '',
      ''Total freelist trunk pages: '',
      ''Schema cookie: '',
      ''Schema format number: '',
      ''Default page cache size bytes: '',
      ''Largest B tree page number: '',
      ''Database text encoding: '',
      ''User version: '',
      ''Incremental vaccum mode: '',
      ''Application ID: '',
      ''Version valid for: '',
      ''SQLite version: '']"

fun split_lines :: "string \<Rightarrow> string list" where
  "split_lines [] = [[]]"
| "split_lines (c # cs) =
     (let r = split_lines cs in if c = CHR 0x0A then [] # r else (c # hd r) # tl r)"

definition trailing_digits :: "string \<Rightarrow> string" where
  "trailing_digits l = rev (takeWhile is_digit_char (rev l))"

definition read_header_values :: "string \<Rightarrow> nat list" where
  "read_header_values txt = map (nat_of_digits \<circ> trailing_digits) (butlast (tl (split_lines txt)))"

text \<open>A header as a fresh database file has it, for running the theorems.\<close>

definition sample_header :: sqlite_header where
  "sample_header =
     \<lparr>headerStr = ''SQLite format 3'' @ [CHR 0x00], pageSizeBytes = 4096, fileFormatWriteVersion = 1,
      fileFormatReadVersion = 1, reservedSpaceBytes = 0, maxEmbeddedPayloadFrac = 64,
      minEmbeddedPayloadFrac = 32, leafPayloadFrac = 32, fileChangeCounter = 1,
      databaseSizePages = 1, firstFreelistTrunkPage = 0, totalFreelistPages = 0, schemaCookie = 0,
      schemaFormatNumber = 4, defaultPageCacheSizeBytes = 0, largestBTreePageNumber = 0,
      databaseTextEncoding = 1, userVersion = 0, incrementalVaccumMode = 0, applicationId = 0,
      versionValidFor = 1, sqliteVersion = 3045001\<rparr>"

section \<open>Lemmas on the handlers\<close>

lemma open_database_interp:
  fixes s :: "'d interp"
  assumes "open_database E p mode s = Inr (h, s')"
  shows "bd_is_loaded s' = bd_is_loaded s \<and> db_path s' = db_path s \<and> m_db s' = m_db s
         \<and> m_backup_db s' = m_backup_db s \<and> iopub s' = iopub s"
  using assms by (auto simp: open_database_def Let_def split: if_splits option.splits)

lemma write_through_interp:
  fixes s :: "'d interp"
  assumes "write_through h d s = (h', s')"
  shows "bd_is_loaded s' = bd_is_loaded s \<and> db_path s' = db_path s \<and> m_db s' = m_db s
         \<and> m_backup_db s' = m_backup_db s \<and> iopub s' = iopub s"
  using assms by (auto simp: write_through_def split: if_splits option.splits)

lemma open_into_inv:
  "session_inv s \<Longrightarrow> bd_is_loaded s \<Longrightarrow> session_inv (snd (open_into E mode s))"
  by (auto simp: open_into_def session_inv_def split: sum.split prod.split
           dest!: open_database_interp)

lemma publish_interp [simp]:
  "bd_is_loaded (publish m s) = bd_is_loaded s"
  "db_path (publish m s) = db_path s"
  "m_db (publish m s) = m_db s"
  "m_backup_db (publish m s) = m_backup_db s"
  by (simp_all add: publish_def)

lemma fetch_interp [simp]:
  "bd_is_loaded (fetch url f s) = bd_is_loaded s"
  "db_path (fetch url f s) = db_path s"
  "m_db (fetch url f s) = m_db s"
  "m_backup_db (fetch url f s) = m_backup_db s"
  "bd_is_loaded (ems_sync_db s) = bd_is_loaded s"
  "db_path (ems_sync_db s) = db_path s"
  "m_db (ems_sync_db s) = m_db s"
  "m_backup_db (ems_sync_db s) = m_backup_db s"
  by (simp_all add: fetch_def publish_def ems_sync_db_def)

lemma write_through_interp_sel [simp]:
  "bd_is_loaded (snd (write_through h d s)) = bd_is_loaded s"
  "db_path (snd (write_through h d s)) = db_path s"
  "m_db (snd (write_through h d s)) = m_db s"
  "m_backup_db (snd (write_through h d s)) = m_backup_db s"
  by (simp_all add: write_through_def split: option.split)

lemma ofstream_write_interp [simp]:
  "bd_is_loaded (ofstream_write E p t s) = bd_is_loaded s"
  "db_path (ofstream_write E p t s) = db_path s"
  "m_db (ofstream_write E p t s) = m_db s"
  "m_backup_db (ofstream_write E p t s) = m_backup_db s"
  by (simp_all add: ofstream_write_def)

lemma session_inv_loaded: "session_inv s \<Longrightarrow> session_inv (s\<lparr>bd_is_loaded := True\<rparr>)"
  and session_inv_path [simp]: "session_inv (s\<lparr>db_path := p\<rparr>) = session_inv s"
  and session_inv_ofstream [simp]: "session_inv (ofstream_write E p t s) = session_inv s"
  and session_inv_publish [simp]: "session_inv (publish m s) = session_inv s"
  by (simp_all add: session_inv_def ofstream_write_def publish_def)

lemma load_db_inv:
  fixes E :: "'d engine"
  shows "preserves session_inv (load_db E toks)"
proof
  fix s :: "'d interp"
  assume "session_inv s"
  then have "session_inv (s\<lparr>bd_is_loaded := True\<rparr>)" by (rule session_inv_loaded)
  with \<open>session_inv s\<close> show "session_inv (snd (load_db E toks s))"
    by (simp add: load_db_def open_into_inv split: sum.split)
qed

lemma create_db_inv:
  fixes E :: "'d engine"
  shows "preserves session_inv (create_db E toks)"
proof
  fix s :: "'d interp"
  assume "session_inv s"
  then have "session_inv (s\<lparr>bd_is_loaded := True\<rparr>)" by (rule session_inv_loaded)
  then show "session_inv (snd (create_db E toks s))"
    by (simp add: create_db_def Let_def open_into_inv split: sum.split)
qed

lemma delete_db_inv: "preserves session_inv delete_db"
  by (auto simp: preserves_def delete_db_def fs_remove_def session_inv_def split: option.split)

lemma with_db_inv: "preserves session_inv (with_db f)"
  by (auto simp: preserves_def with_db_def session_inv_def split: option.split sum.split prod.split
           dest!: write_through_interp)

lemma publish_result_inv: "preserves session_inv (publish_result n r)"
  by (simp add: preserves_def publish_result_def session_inv_def publish_def split: sum.split)

lemma backup_inv: "preserves session_inv (backup E b)"
  by (simp add: preserves_def backup_def session_inv_def)

lemma parse_SQLite_magic_inv: "preserves session_inv (parse_SQLite_magic E n toks)"
  unfolding parse_SQLite_magic_def
  by (intro preserves_bindE preserves_if preserves_simple preserves_modifyE load_db_inv create_db_inv
        delete_db_inv with_db_inv publish_result_inv backup_inv)
     (simp_all add: session_inv_def publish_def ofstream_write_def fetch_def ems_sync_db_def)

subsection \<open>Every handler returns\<close>

lemma open_into_not_Diverges [simp]: "fst (open_into E mode s) \<noteq> Inl Diverges"
  using open_database_not_Diverges [of E "db_path s" mode s]
  by (auto simp: open_into_def split: sum.split)

lemma table_exists_not_Diverges [simp]: "table_exists E t mdb \<noteq> Inl Diverges"
  and is_unencrypted_not_Diverges [simp]: "is_unencrypted E s \<noteq> Inl Diverges"
  by (simp_all add: table_exists_def is_unencrypted_def split: option.split)

lemma get_header_info_not_Diverges:
  "engine_returns E \<Longrightarrow> get_header_info E s \<noteq> Inl Diverges"
  using engine_returns_ops(5) [of E]
  by (auto simp: get_header_info_def split: option.split sum.split)

lemma handlers_return:
  "returns (load_db E toks)" "returns (create_db E toks)" "returns delete_db" "returns (backup E b)"
proof -
  show "returns (load_db E toks)"
    by (rule returnsI) (simp add: load_db_def vec_back_def split: sum.split)
  show "returns (create_db E toks)"
    by (rule returnsI) (simp add: create_db_def Let_def vec_at_def)
  show "returns delete_db"
    by (rule returnsI) (simp add: delete_db_def split: option.split)
  show "returns (backup E b)"
    using open_database_not_Diverges
    by (intro returnsI) (auto simp: backup_def split: option.split sum.split prod.split)
qed

lemma with_db_returns:
  fixes f :: "'d \<Rightarrow> 'd result"
  assumes "\<And>d. f d \<noteq> Inl Diverges"
  shows "returns (with_db f)"
proof (rule returnsI)
  fix s :: "'d interp"
  show "fst (with_db f s) \<noteq> Inl Diverges"
  proof (cases "m_db s")
    case None
    then show ?thesis by (simp add: with_db_def)
  next
    case (Some h)
    then show ?thesis
      using assms [of "h_data h"]
      by (cases "f (h_data h)") (auto simp: with_db_def split: prod.split)
  qed
qed

lemma publish_result_returns: "r \<noteq> Inl Diverges \<Longrightarrow> returns (publish_result n r)"
  by (cases r) (simp_all add: returns_def publish_result_def)

lemma parse_SQLite_magic_returns:
  assumes "engine_returns E"
  shows "returns (parse_SQLite_magic E n toks)"
  unfolding parse_SQLite_magic_def
  by (intro returns_bindE_getsE returns_bindE returns_if returns_simple handlers_return
        with_db_returns publish_result_returns)
     (simp_all add: engine_returns_ops [OF assms] get_header_info_not_Diverges [OF assms])

lemma ci_iff: "case_insentive_equals c a \<longleftrightarrow> map c_tolower c = map c_tolower a"
  unfolding case_insentive_equals_def by (metis length_map)

lemmas magic_simps = parse_SQLite_magic_def ci_iff c_tolower_def exc_defs

text \<open>
  C3. Before any database is loaded, every magic command other than LOAD, CREATE, SYNC, FETCH and TEST (compared case-insensitively; DELETE among them) fails with the runtime error "Load a database to run this command." and changes nothing.
\<close>

theorem parse_SQLite_magic_requires_loaded:
  assumes "\<not> bd_is_loaded s"
    and "map c_tolower c \<notin> {''load'', ''create'', ''sync'', ''fetch'', ''test''}"
  shows "parse_SQLite_magic E n (c # args) s = (Inl (Runtime_error ''Load a database to run this command.''), s)"
  using assms by (simp add: magic_simps)

text \<open>
  C6. LOAD path mode on an existing file opens it through a new handle, read-only exactly when the mode token contains "r" but not "rw", and marks the session loaded with that path.
\<close>

theorem load_mode_from_last_token:
  assumes "map c_tolower l = ''load''" "p \<noteq> memory_path" "files s p = Some d"
  shows "parse_SQLite_magic E n [l, p, m] s =
    (Inr (), s\<lparr>db_path := p, bd_is_loaded := True,
        m_db := Some \<lparr>h_file = Some p, h_readonly = (\<not> str_contains m ''rw'' \<and> str_contains m ''r''),
                      h_data = d\<rparr>\<rparr>)"
  using assms by (simp add: magic_simps load_db_def open_into_def open_database_def)

text \<open>
  C7. LOAD path without a mode token does not always open read-write: the mode is read from the path itself, so a path that contains "r" but not "rw" is opened read-only.
\<close>

theorem load_default_mode_follows_path:
  assumes "map c_tolower l = ''load''" "p \<noteq> memory_path" "files s p = Some d"
  shows "parse_SQLite_magic E n [l, p] s =
    (Inr (), s\<lparr>db_path := p, bd_is_loaded := True,
        m_db := Some \<lparr>h_file = Some p, h_readonly = (\<not> str_contains p ''rw'' \<and> str_contains p ''r''),
                      h_data = d\<rparr>\<rparr>)"
  using assms by (simp add: magic_simps load_db_def open_into_def open_database_def)

text \<open>
  C30. LOAD of a path that names no file fails with "The path doesn't exist.", but only after m_db_path has been overwritten with the missing path; the open handle and the loaded flag are kept.
\<close>

theorem load_missing_path:
  assumes "map c_tolower l = ''load''" "p \<noteq> memory_path" "files s p = None"
  shows "parse_SQLite_magic E n (l # p # rest) s =
           (Inl (Runtime_error ''The path doesn't exist.''), s\<lparr>db_path := p\<rparr>)"
  using assms by (simp add: magic_simps)

text \<open>
  C28. CREATE path reads its path from token 2, so the documented two-token form CREATE path reads past the end of the token vector (undefined behaviour), after marking the session loaded.
\<close>

theorem create_path_is_token_two:
  assumes "map c_tolower c = ''create''"
  shows "parse_SQLite_magic E n [c, p] s =
           (Inl (Undefined_behaviour ''std::vector index out of range''), s\<lparr>bd_is_loaded := True\<rparr>)"
  using assms by (simp add: magic_simps create_db_def vec_at_def)

text \<open>
  C26. CREATE x path on a creatable or existing path truncates the file to an empty database, opens it read-write through a new handle and marks the session loaded with that path.
\<close>

theorem create_file:
  assumes "map c_tolower c = ''create''" "p \<noteq> memory_path" "files s p \<noteq> None \<or> creatable s p"
  shows "parse_SQLite_magic E n [c, x, p] s =
    (Inr (), s\<lparr>bd_is_loaded := True, db_path := p, files := (files s)(p \<mapsto> eng_file E ''''),
                m_db := Some \<lparr>h_file = Some p, h_readonly = False, h_data = eng_file E ''''\<rparr>\<rparr>)"
  using assms by (auto simp: magic_simps create_db_def open_into_def open_database_def ofstream_write_def)

text \<open>
  C27. CREATE x :memory: opens a fresh in-memory database and leaves every file alone.
\<close>

theorem create_memory:
  assumes "map c_tolower c = ''create''"
  shows "parse_SQLite_magic E n [c, x, memory_path] s =
    (Inr (), s\<lparr>bd_is_loaded := True, db_path := memory_path,
                m_db := Some \<lparr>h_file = None, h_readonly = False, h_data = eng_file E ''''\<rparr>\<rparr>)"
  using assms by (simp add: magic_simps create_db_def open_into_def open_database_def)

text \<open>
  C29. A CREATE whose file can be neither found nor created throws, but leaves the session marked loaded with the new path and the previous handle (null on a fresh interpreter).
\<close>

theorem create_failure_marks_loaded:
  assumes "map c_tolower c = ''create''" "p \<noteq> memory_path" "files s p = None" "\<not> creatable s p"
  shows "parse_SQLite_magic E n [c, x, p] s =
    (Inl (Runtime_error ''unable to open database file''), s\<lparr>bd_is_loaded := True, db_path := p\<rparr>)"
  using assms by (simp add: magic_simps create_db_def open_into_def open_database_def ofstream_write_def)

text \<open>
  C31. DELETE on a loaded session removes the file (unless in memory) or throws "Error deleting file.", and in every case leaves the loaded flag, the path and the open handle as they were: the session is not closed.
\<close>

theorem delete_keeps_session_open:
  assumes "bd_is_loaded s" "map c_tolower c = ''delete''"
  shows "parse_SQLite_magic E n (c # args) s =
    (if db_path s = memory_path then (Inr (), s)
     else case files s (db_path s) of
            None \<Rightarrow> (Inl (Runtime_error ''Error deleting file.''), s)
          | Some _ \<Rightarrow> (Inr (), s\<lparr>files := (files s)(db_path s := None)\<rparr>))"
  using assms by (simp add: magic_simps delete_db_def fs_remove_def split: option.split)

text \<open>
  C32. On a loaded session, a magic command whose name is none of the thirteen known ones is silently accepted and changes nothing.
\<close>

theorem unknown_magic_ignored:
  assumes "bd_is_loaded s"
    and "map c_tolower c \<notin> {''load'', ''create'', ''sync'', ''fetch'', ''test'', ''delete'',
          ''table_exists'', ''load_extension'', ''set_key'', ''rekey'', ''is_unencrypted'',
          ''get_info'', ''backup''}"
  shows "parse_SQLite_magic E n (c # args) s = (Inr (), s)"
  using assms by (simp add: magic_simps)

text \<open>
  C12. SET_KEY and REKEY on a loaded session pass their key to the engine's
  \<open>key\<close>/\<open>rekey\<close> on the open handle; the engine's exception is rethrown with the
  session unchanged, and on success the new contents are written through to the
  handle's file and stored as the session's handle.
\<close>

theorem key_commands_write_through:
  assumes "bd_is_loaded s" "m_db s = Some h"
    and "map c_tolower c = ''set_key'' \<and> op = eng_key E \<or> map c_tolower c = ''rekey'' \<and> op = eng_rekey E"
  shows "parse_SQLite_magic E n (c # k # args) s =
    (case op (h_data h) k of
       Inl e \<Rightarrow> (Inl e, s)
     | Inr d \<Rightarrow> (Inr (), (snd (write_through h d s))\<lparr>m_db := Some (h\<lparr>h_data := d\<rparr>)\<rparr>))"
  using assms(3)
proof
  assume "map c_tolower c = ''set_key'' \<and> op = eng_key E"
  with assms(1,2) show ?thesis
    by (auto simp: magic_simps with_db_def write_through_def split: sum.split)
next
  assume "map c_tolower c = ''rekey'' \<and> op = eng_rekey E"
  with assms(1,2) show ?thesis
    by (auto simp: magic_simps with_db_def write_through_def split: sum.split)
qed

lemma signed_char_le_1:
  assumes "(of_char c :: nat) \<le> 1"
  shows "signed_char c \<le> 1"
proof -
  have w: "(of_char c :: 8 word) = of_nat (of_char c :: nat)"
    by (simp add: of_nat_of_char)
  from assms have "(of_char c :: nat) = 0 \<or> (of_char c :: nat) = 1" by arith
  then show ?thesis
    by (auto simp: signed_char_def w)
qed

text \<open>
  C33. BACKUP with an argument longer than one character whose first character has code at most 1 is rejected with "This is not a valid backup type.", whatever the other characters are.
\<close>

theorem backup_rejects_low_codes:
  assumes "1 < length bt" "of_char (hd bt) \<le> (1::nat)"
  shows "backup E bt s = (Inl (Runtime_error ''This is not a valid backup type.''), s)"
proof -
  have "bt ! 0 = hd bt" using assms(1) by (cases bt) auto
  with assms show ?thesis by (simp add: backup_def signed_char_le_1)
qed

section \<open>The header report\<close>

lemma split_lines_nonempty [simp]: "split_lines s \<noteq> []"
  by (cases s) (simp_all add: Let_def)

lemma split_lines_app:
  "CHR 0x0A \<notin> set l \<Longrightarrow>
   split_lines (l @ rest) = (l @ hd (split_lines rest)) # tl (split_lines rest)"
  by (induction l) (auto simp: Let_def)

lemma split_lines_concat:
  "\<forall>l \<in> set ls. CHR 0x0A \<notin> set l \<Longrightarrow> split_lines (concat (map (\<lambda>l. l @ nl) ls)) = ls @ [[]]"
  by (induction ls) (simp_all add: split_lines_app nl_def)

lemma trailing_digits_label:
  assumes "l \<noteq> []" "\<not> is_digit_char (last l)"
  shows "trailing_digits (l @ string_of_nat v) = string_of_nat v"
proof -
  obtain l' c where l: "l = l' @ [c]" using assms(1) by (metis append_butlast_last_id)
  have "takeWhile is_digit_char (rev (string_of_nat v) @ c # rev l') =
        rev (string_of_nat v) @ takeWhile is_digit_char (c # rev l')"
    by (rule takeWhile_append2) (use string_of_nat_digits [of v] in auto)
  then show ?thesis
    using assms(2) by (simp add: l trailing_digits_def)
qed

lemma read_labelled:
  "\<forall>l \<in> set ls. l \<noteq> [] \<and> \<not> is_digit_char (last l) \<Longrightarrow> length ls = length vs \<Longrightarrow>
   map (nat_of_digits \<circ> trailing_digits) (map2 (@) ls (map string_of_nat vs)) = vs"
proof (induction ls arbitrary: vs)
  case Nil
  then show ?case by simp
next
  case (Cons l ls)
  then obtain v vs' where "vs = v # vs'" by (cases vs) auto
  with Cons show ?case by (simp add: trailing_digits_label)
qed

lemma header_text_lines:
  "header_text h =
     concat (map (\<lambda>l. l @ nl)
       ((''Magic header string: '' @ take 15 (headerStr h)) # map2 (@) header_labels (map string_of_nat (header_values h))))"
  by (simp add: header_text_def header_labels_def header_values_def)

lemma header_labels_ok: "\<forall>l \<in> set header_labels. l \<noteq> [] \<and> \<not> is_digit_char (last l) \<and> CHR 0x0A \<notin> set l"
  by code_simp

lemma header_roundtrip:
  assumes "CHR 0x0A \<notin> set (take 15 (headerStr h))"
  shows "read_header_values (header_text h) = header_values h"
proof -
  have len: "length header_labels = length (header_values h)"
    by (simp add: header_labels_def header_values_def)
  have "\<forall>l \<in> set (map2 (@) header_labels (map string_of_nat (header_values h))). CHR 0x0A \<notin> set l"
    using header_labels_ok by (auto simp: set_zip)
  then have "split_lines (header_text h) =
      ((''Magic header string: '' @ take 15 (headerStr h)) # map2 (@) header_labels (map string_of_nat (header_values h))) @ [[]]"
    using assms unfolding header_text_lines by (intro split_lines_concat) simp
  then show ?thesis
    using read_labelled [OF _ len] header_labels_ok by (simp add: read_header_values_def)
qed

text \<open>
  C36. GET_INFO on a loaded session whose file has a readable header publishes a text
  from which every numeric header field is read back as its unsigned value (the
  std::to_string of each field round-trips), provided the 15 magic bytes hold no
  newline.
\<close>

theorem get_info_roundtrip:
  assumes "bd_is_loaded s" "map c_tolower c = ''get_info''"
    and "files s (db_path s) = Some d" "eng_header E d = Inr hdr"
    and "CHR 0x0A \<notin> set (take 15 (headerStr hdr))"
  shows "\<exists>t. parse_SQLite_magic E n (c # args) s =
               (Inr (), publish (Execute_result n [(''text/plain'', Text t)]) s)
             \<and> read_header_values t = header_values hdr"
  using assms
  by (intro exI [where x = "header_text hdr"])
     (simp add: magic_simps get_header_info_def publish_result_def header_roundtrip)

text \<open>
  C37. Whatever the header, the GET_INFO text is at most 849 characters: each field is
  printed at its C width (at most 3 digits for the 8-bit fields, 10 for the page size,
  20 for the 64-bit fields), and the magic string is cut to 15 bytes.
\<close>

theorem header_text_length: "length (header_text h) \<le> 849"
proof -
  have "length (take 15 (headerStr h)) \<le> 15" by simp
  then show ?thesis
    using unat_digits(2) [of "pageSizeBytes h"]
      unat_digits(1) [of "fileFormatWriteVersion h"]
      unat_digits(1) [of "fileFormatReadVersion h"]
      unat_digits(1) [of "reservedSpaceBytes h"]
      unat_digits(1) [of "maxEmbeddedPayloadFrac h"]
      unat_digits(1) [of "minEmbeddedPayloadFrac h"]
      unat_digits(1) [of "leafPayloadFrac h"]
      unat_digits(3) [of "fileChangeCounter h"]
      unat_digits(3) [of "databaseSizePages h"]
      unat_digits(3) [of "firstFreelistTrunkPage h"]
      unat_digits(3) [of "totalFreelistPages h"]
      unat_digits(3) [of "schemaCookie h"]
      unat_digits(3) [of "schemaFormatNumber h"]
      unat_digits(3) [of "defaultPageCacheSizeBytes h"]
      unat_digits(3) [of "largestBTreePageNumber h"]
      unat_digits(3) [of "databaseTextEncoding h"]
      unat_digits(3) [of "userVersion h"]
      unat_digits(3) [of "incrementalVaccumMode h"]
      unat_digits(3) [of "applicationId h"]
      unat_digits(3) [of "versionValidFor h"]
      unat_digits(3) [of "sqliteVersion h"]
    unfolding header_text_def nl_def by simp
qed

section \<open>Witnesses of the dispatcher's theorems\<close>

theorem parse_SQLite_magic_requires_loaded_witness:
  "parse_SQLite_magic sample_engine 1 [''DELETE''] sample_session =
     (Inl (Runtime_error ''Load a database to run this command.''), sample_session)"
  by (rule parse_SQLite_magic_requires_loaded) (simp_all add: sample_session_def interp_init_def c_tolower_def)

theorem load_mode_from_last_token_witness:
  "parse_SQLite_magic sample_engine 1 [''load'', ''chinook.db'', ''r''] sample_session =
    (Inr (), sample_session\<lparr>db_path := ''chinook.db'', bd_is_loaded := True,
        m_db := Some \<lparr>h_file = Some ''chinook.db'',
                      h_readonly = (\<not> str_contains ''r'' ''rw'' \<and> str_contains ''r'' ''r''),
                      h_data = [''albums'']\<rparr>\<rparr>)"
  by (rule load_mode_from_last_token) (simp_all add: sample_session_def interp_init_def c_tolower_def memory_path_def)

theorem load_default_mode_follows_path_witness:
  "parse_SQLite_magic sample_engine 1 [''LOAD'', ''/root/db.sqlite''] sample_session =
    (Inr (), sample_session\<lparr>db_path := ''/root/db.sqlite'', bd_is_loaded := True,
        m_db := Some \<lparr>h_file = Some ''/root/db.sqlite'',
                      h_readonly = (\<not> str_contains ''/root/db.sqlite'' ''rw'' \<and> str_contains ''/root/db.sqlite'' ''r''),
                      h_data = []\<rparr>\<rparr>)
   \<and> (\<not> str_contains ''/root/db.sqlite'' ''rw'' \<and> str_contains ''/root/db.sqlite'' ''r'')"
proof
  show "parse_SQLite_magic sample_engine 1 [''LOAD'', ''/root/db.sqlite''] sample_session =
    (Inr (), sample_session\<lparr>db_path := ''/root/db.sqlite'', bd_is_loaded := True,
        m_db := Some \<lparr>h_file = Some ''/root/db.sqlite'',
                      h_readonly = (\<not> str_contains ''/root/db.sqlite'' ''rw'' \<and> str_contains ''/root/db.sqlite'' ''r''),
                      h_data = []\<rparr>\<rparr>)"
    by (rule load_default_mode_follows_path) (simp_all add: sample_session_def interp_init_def c_tolower_def memory_path_def)
  show "\<not> str_contains ''/root/db.sqlite'' ''rw'' \<and> str_contains ''/root/db.sqlite'' ''r''"
    by simp
qed

theorem load_missing_path_witness:
  "parse_SQLite_magic sample_engine 1 [''LOAD'', ''missing.db''] sample_session =
     (Inl (Runtime_error ''The path doesn't exist.''), sample_session\<lparr>db_path := ''missing.db''\<rparr>)"
  by (rule load_missing_path) (simp_all add: sample_session_def interp_init_def c_tolower_def memory_path_def)

theorem create_path_is_token_two_witness:
  "parse_SQLite_magic sample_engine 1 [''CREATE'', ''new.db''] sample_session =
     (Inl (Undefined_behaviour ''std::vector index out of range''), sample_session\<lparr>bd_is_loaded := True\<rparr>)"
  by (rule create_path_is_token_two) (simp add: c_tolower_def)

theorem create_file_witness:
  "parse_SQLite_magic sample_engine 1 [''CREATE'', ''x'', ''new.db''] sample_session =
    (Inr (), sample_session\<lparr>bd_is_loaded := True, db_path := ''new.db'',
        files := (files sample_session)(''new.db'' \<mapsto> eng_file sample_engine ''''),
        m_db := Some \<lparr>h_file = Some ''new.db'', h_readonly = False, h_data = eng_file sample_engine ''''\<rparr>\<rparr>)"
  by (rule create_file) (simp_all add: sample_session_def interp_init_def c_tolower_def memory_path_def)

theorem create_memory_witness:
  "parse_SQLite_magic sample_engine 1 [''create'', ''x'', memory_path] sample_session =
    (Inr (), sample_session\<lparr>bd_is_loaded := True, db_path := memory_path,
        m_db := Some \<lparr>h_file = None, h_readonly = False, h_data = eng_file sample_engine ''''\<rparr>\<rparr>)"
  by (rule create_memory) (simp add: c_tolower_def)

theorem create_failure_marks_loaded_witness:
  "parse_SQLite_magic sample_engine 1 [''CREATE'', ''x'', ''/nonexistent/a.db''] sample_session =
    (Inl (Runtime_error ''unable to open database file''),
     sample_session\<lparr>bd_is_loaded := True, db_path := ''/nonexistent/a.db''\<rparr>)"
  by (rule create_failure_marks_loaded) (simp_all add: sample_session_def interp_init_def c_tolower_def memory_path_def)

theorem delete_keeps_session_open_witness:
  "parse_SQLite_magic sample_engine 1 [''DELETE'']
      (sample_session\<lparr>bd_is_loaded := True, db_path := ''chinook.db''\<rparr>) =
    (if db_path (sample_session\<lparr>bd_is_loaded := True, db_path := ''chinook.db''\<rparr>) = memory_path
     then (Inr (), sample_session\<lparr>bd_is_loaded := True, db_path := ''chinook.db''\<rparr>)
     else case files (sample_session\<lparr>bd_is_loaded := True, db_path := ''chinook.db''\<rparr>)
                  (db_path (sample_session\<lparr>bd_is_loaded := True, db_path := ''chinook.db''\<rparr>)) of
            None \<Rightarrow> (Inl (Runtime_error ''Error deleting file.''),
                     sample_session\<lparr>bd_is_loaded := True, db_path := ''chinook.db''\<rparr>)
          | Some _ \<Rightarrow> (Inr (), (sample_session\<lparr>bd_is_loaded := True, db_path := ''chinook.db''\<rparr>)\<lparr>files :=
              (files (sample_session\<lparr>bd_is_loaded := True, db_path := ''chinook.db''\<rparr>))
                (db_path (sample_session\<lparr>bd_is_loaded := True, db_path := ''chinook.db''\<rparr>) := None)\<rparr>))"
  by (rule delete_keeps_session_open) (simp_all add: c_tolower_def)

theorem unknown_magic_ignored_witness:
  "parse_SQLite_magic sample_engine 1 [''XVEGA_PLOT'', ''x''] (sample_session\<lparr>bd_is_loaded := True\<rparr>) =
     (Inr (), sample_session\<lparr>bd_is_loaded := True\<rparr>)"
  by (rule unknown_magic_ignored) (simp_all add: c_tolower_def)

theorem key_commands_write_through_witness:
  "parse_SQLite_magic (sample_engine\<lparr>eng_rekey := (\<lambda>d k. Inr (d @ [k]))\<rparr>) 1 [''REKEY'', ''k2'']
      (sample_session\<lparr>bd_is_loaded := True, db_path := ''chinook.db'',
         m_db := Some \<lparr>h_file = Some ''chinook.db'', h_readonly = False, h_data = [''albums'']\<rparr>\<rparr>) =
   (Inr (), sample_session\<lparr>files := (files sample_session)(''chinook.db'' \<mapsto> [''albums'', ''k2'']),
      bd_is_loaded := True, db_path := ''chinook.db'',
      m_db := Some \<lparr>h_file = Some ''chinook.db'', h_readonly = False, h_data = [''albums'', ''k2'']\<rparr>\<rparr>)"
proof -
  let ?E = "sample_engine\<lparr>eng_rekey := (\<lambda>d k. Inr (d @ [k]))\<rparr>"
  let ?h = "\<lparr>h_file = Some ''chinook.db'', h_readonly = False, h_data = [''albums'']\<rparr> :: string list handle"
  let ?s = "sample_session\<lparr>bd_is_loaded := True, db_path := ''chinook.db'', m_db := Some ?h\<rparr>"
  have "parse_SQLite_magic ?E 1 (''REKEY'' # ''k2'' # []) ?s =
    (case eng_rekey ?E (h_data ?h) ''k2'' of
       Inl e \<Rightarrow> (Inl e, ?s)
     | Inr d \<Rightarrow> (Inr (), (snd (write_through ?h d ?s))\<lparr>m_db := Some (?h\<lparr>h_data := d\<rparr>)\<rparr>))"
    by (rule key_commands_write_through) (simp_all add: c_tolower_def)
  then show ?thesis
    by (simp add: write_through_def sample_session_def interp_init_def)
qed

theorem backup_rejects_low_codes_witness:
  "backup sample_engine [CHR 0x01, CHR ''x''] sample_session =
     (Inl (Runtime_error ''This is not a valid backup type.''), sample_session)"
  by (rule backup_rejects_low_codes) simp_all
theorem get_info_roundtrip_witness:
  "\<exists>t. parse_SQLite_magic (sample_engine\<lparr>eng_header := (\<lambda>_. Inr sample_header)\<rparr>) 1 [''GET_INFO'']
          (sample_session\<lparr>bd_is_loaded := True, db_path := ''chinook.db''\<rparr>) =
        (Inr (), publish (Execute_result 1 [(''text/plain'', Text t)])
                   (sample_session\<lparr>bd_is_loaded := True, db_path := ''chinook.db''\<rparr>))
      \<and> read_header_values t = header_values sample_header"
  by (rule get_info_roundtrip) (simp_all add: sample_session_def interp_init_def c_tolower_def sample_header_def)

end
