(* ===== verification/Kernel.thy ===== *)
theory Kernel
  imports Magic
begin

text \<open>
  The request orchestrator \<open>interpreter::execute_request_impl\<close>
  (\<open>src/src/xeus_sqlite_interpreter.cpp\<close>, lines 521--604): sanitize and tokenize
  the cell, run the magic dispatcher and, for \<open>XVEGA_PLOT\<close>, the embedded SQL and
  the chart renderer, or else run the cell as SQL; turn a \<open>std::runtime_error\<close>
  into the error reply and an \<open>execute_error\<close> message.  The kernel's request
  loop (one request after another, section 5 of the specification) is the explicit
  sequence \<open>run_requests\<close>, and the reachable interpreter states are the inductive
  predicate \<open>reachable\<close>.
\<close>

section \<open>Replies\<close>

text \<open>The \<open>nl::json\<close> values the handlers return.\<close>

datatype json =
    JNull | JBool bool | JInt int | JStr string | JArr "json list" | JObj "(string \<times> json) list"

definition ok_reply :: json where
  "ok_reply = JObj [(''status'', JStr ''ok''), (''payload'', JArr []), (''user_expressions'', JObj [])]"

definition error_reply :: "string \<Rightarrow> json" where
  "error_reply m = JObj [(''status'', JStr ''error''), (''ename'', JStr ''Error''), (''evalue'', JStr m)]"

section \<open>The request\<close>

text \<open>\<open>xv_bindings::process_xvega_input\<close>: the chart renderer, a collaborator.\<close>

type_synonym xvega_renderer = "string list \<Rightarrow> df \<Rightarrow> mime_bundle result"

text \<open>\<open>tokenized_input[0].erase(0, 1)\<close> (line 544).\<close>

definition strip_magic :: "string list \<Rightarrow> string list" where
  "strip_magic toks = (case toks of [] \<Rightarrow> [] | t # ts \<Rightarrow> tl t # ts)"

text \<open>The SQL tokens joined again, each after one space (lines 562--565).\<close>

definition join_sql :: "string list \<Rightarrow> string" where
  "join_sql ts = concat (map (\<lambda>t. CHR '' '' # t) ts)"

text \<open>\<open>process_SQLite_input(execution_counter, m_db, code, xv_sqlite_df)\<close>: \<open>m_db\<close> passed by reference.\<close>

definition run_sql :: "'d engine \<Rightarrow> nat \<Rightarrow> string \<Rightarrow> df \<Rightarrow> (df, 'd interp) exc" where
  "run_sql E n code d s =
     (case process_SQLite_input E n (m_db s) code d s of
        (Inl e, s') \<Rightarrow> (Inl e, s')
      | (Inr (h, d'), s') \<Rightarrow> (Inr d', s'\<lparr>m_db := Some h\<rparr>))"

text \<open>The \<open>try\<close> block (lines 538--590), with a fresh \<open>xv_sqlite_df\<close> (line 536).\<close>

definition execute_body :: "'d engine \<Rightarrow> xvega_renderer \<Rightarrow> nat \<Rightarrow> string \<Rightarrow> (unit, 'd interp) exc" where
  "execute_body E xv n code =
     (let toks = tokenizer (sanitize_string code) in
      if is_magic toks then
        (let toks1 = strip_magic toks in
         bindE (parse_SQLite_magic E n toks1) (\<lambda>_.
         if is_xvega toks1 then
           (let (xv_in, sql_in) = split_xv_sqlite_input (tl toks1) in
            bindE (run_sql E n (join_sql sql_in) Map.empty) (\<lambda>d.
            bindE (liftE (xv xv_in d)) (\<lambda>chart.
            modifyE (publish (Execute_result n chart)))))
         else returnE ()))
      else bindE (run_sql E n code Map.empty) (\<lambda>_. returnE ()))"

text \<open>
  The whole handler: a \<open>std::runtime_error\<close> becomes the error reply, published with
  its one-line traceback; undefined behaviour is not caught and stays an outcome of
  its own.
\<close>

definition execute_request_impl ::
  "'d engine \<Rightarrow> xvega_renderer \<Rightarrow> nat \<Rightarrow> string \<Rightarrow> (json, 'd interp) exc" where
  "execute_request_impl E xv n code s =
     (case execute_body E xv n code s of
        (Inr _, s') \<Rightarrow> (Inr ok_reply, s')
      | (Inl (Runtime_error m), s') \<Rightarrow>
          (Inr (error_reply m), publish (Execute_error ''Error'' m [''Error: '' @ m]) s')
      | (Inl (Undefined_behaviour m), s') \<Rightarrow> (Inl (Undefined_behaviour m), s')
      | (Inl Diverges, s') \<Rightarrow> (Inl Diverges, s'))"

section \<open>Sessions\<close>

text \<open>
  The kernel hands the interpreter one request at a time; a request with undefined
  behaviour ends the session.
\<close>

fun run_requests ::
  "'d engine \<Rightarrow> xvega_renderer \<Rightarrow> (nat \<times> string) list \<Rightarrow> (json list, 'd interp) exc" where
  "run_requests E xv [] s = (Inr [], s)"
| "run_requests E xv ((n, code) # rs) s =
     (case execute_request_impl E xv n code s of
        (Inl e, s') \<Rightarrow> (Inl e, s')
      | (Inr r, s') \<Rightarrow>
          (case run_requests E xv rs s' of
             (Inl e, s'') \<Rightarrow> (Inl e, s'')
           | (Inr rs', s'') \<Rightarrow> (Inr (r # rs'), s'')))"

inductive reachable :: "'d engine \<Rightarrow> xvega_renderer \<Rightarrow> 'd interp \<Rightarrow> bool" for E xv where
  init: "reachable E xv (interp_init fs cr)"
| step: "reachable E xv s \<Longrightarrow> execute_request_impl E xv n code s = (Inr r, s') \<Longrightarrow> reachable E xv s'"

inductive_cases reachable_stepE: "reachable E xv s'"

section \<open>Invariants of the request handler\<close>

lemma process_SQLite_input_interp:
  fixes s :: "'d interp"
  assumes "process_SQLite_input E n mdb code d s = (r, s')"
  shows "bd_is_loaded s' = bd_is_loaded s \<and> m_db s' = m_db s \<and> m_backup_db s' = m_backup_db s
         \<and> db_path s' = db_path s"
  using assms
  by (auto simp: process_SQLite_input_def publish_def split: option.splits sum.splits if_splits prod.splits
           dest!: write_through_interp)

lemma run_sql_inv: "preserves session_inv (run_sql E n code d)"
proof
  fix s :: "'a interp"
  assume inv: "session_inv s"
  obtain r s' where ps: "process_SQLite_input E n (m_db s) code d s = (r, s')" by fastforce
  note same = process_SQLite_input_interp [OF ps]
  show "session_inv (snd (run_sql E n code d s))"
  proof (cases "m_db s")
    case None
    with ps have "r = Inl (Undefined_behaviour ''null m_db dereferenced'') \<and> s' = s"
      by (simp add: process_SQLite_input_def)
    with ps inv show ?thesis by (simp add: run_sql_def)
  next
    case (Some h)
    with inv have "bd_is_loaded s" by (simp add: session_inv_def)
    with inv same ps show ?thesis
      by (auto simp: run_sql_def session_inv_def split: sum.split)
  qed
qed

lemma execute_body_inv: "preserves session_inv (execute_body E xv n code)"
  unfolding execute_body_def Let_def
  by (intro preserves_bindE preserves_if preserves_case_prod preserves_simple preserves_modifyE
        parse_SQLite_magic_inv run_sql_inv) simp

lemma execute_request_impl_inv:
  assumes "session_inv s" and "execute_request_impl E xv n code s = (r, s')"
  shows "session_inv s'"
proof -
  obtain b t where eb: "execute_body E xv n code s = (b, t)" by fastforce
  with assms(1) have t: "session_inv t" by (rule preservesD [OF execute_body_inv])
  show ?thesis
  proof (cases b)
    case (Inl e)
    with t eb assms(2) show ?thesis
      by (cases e) (auto simp: execute_request_impl_def)
  next
    case (Inr u)
    with t eb assms(2) show ?thesis by (auto simp: execute_request_impl_def)
  qed
qed

lemma reachable_session_inv: "reachable E xv s \<Longrightarrow> session_inv s"
proof (induction rule: reachable.induct)
  case (init fs cr)
  then show ?case by (simp add: interp_init_def session_inv_def)
next
  case (step s n code r s')
  then show ?case by (blast intro: execute_request_impl_inv)
qed

lemma open_into_loaded: "bd_is_loaded s \<Longrightarrow> bd_is_loaded (snd (open_into E mode s))"
  by (auto simp: open_into_def split: sum.split prod.split dest!: open_database_interp)

lemma load_db_loaded: "preserves bd_is_loaded (load_db E toks)"
  by (simp add: preserves_def load_db_def open_into_loaded split: sum.split)

lemma create_db_loaded: "preserves bd_is_loaded (create_db E toks)"
  by (simp add: preserves_def create_db_def Let_def open_into_loaded split: sum.split)

lemma handlers_loaded:
  "preserves bd_is_loaded delete_db"
  "preserves bd_is_loaded (with_db f)"
  "preserves bd_is_loaded (publish_result n r)"
  "preserves bd_is_loaded (backup E b)"
  by (auto simp: preserves_def delete_db_def fs_remove_def with_db_def publish_result_def backup_def
           split: option.split sum.split prod.split dest!: write_through_interp open_database_interp)

lemma parse_SQLite_magic_loaded: "preserves bd_is_loaded (parse_SQLite_magic E n toks)"
  unfolding parse_SQLite_magic_def
  by (intro preserves_bindE preserves_if preserves_simple preserves_modifyE load_db_loaded
        create_db_loaded handlers_loaded) (simp_all add: ofstream_write_def publish_def)

lemma run_sql_loaded: "preserves bd_is_loaded (run_sql E n code d)"
  by (auto simp: preserves_def run_sql_def split: sum.split prod.split
           dest!: process_SQLite_input_interp)

lemma execute_body_loaded: "preserves bd_is_loaded (execute_body E xv n code)"
  unfolding execute_body_def Let_def
  by (intro preserves_bindE preserves_if preserves_case_prod preserves_simple preserves_modifyE
        parse_SQLite_magic_loaded run_sql_loaded) simp

section \<open>Every request returns\<close>

lemma run_sql_returns:
  fixes E :: "'d engine"
  assumes "engine_returns E"
  shows "returns (run_sql E n code d :: (df, 'd interp) exc)"
proof (rule returnsI)
  fix s :: "'d interp"
  obtain r s' where ps: "process_SQLite_input E n (m_db s) code d s = (r, s')" by fastforce
  have "r \<noteq> Inl Diverges"
    by (rule returnsD [OF process_SQLite_input_returns_all [OF assms] ps])
  with ps show "fst (run_sql E n code d s) \<noteq> Inl Diverges"
    by (auto simp: run_sql_def split: sum.split)
qed

lemma execute_body_returns:
  assumes "engine_returns E" "\<And>a d. xv a d \<noteq> Inl Diverges"
  shows "returns (execute_body E xv n code)"
  unfolding execute_body_def Let_def
  by (intro returns_if returns_bindE returns_case_prod returns_simple
        parse_SQLite_magic_returns run_sql_returns assms)

text \<open>
  What a request can end in: a reply, or undefined behaviour; a runtime error is always
  turned into a reply, and under the contract nothing hangs.
\<close>

lemma execute_request_impl_outcome:
  assumes "engine_returns E" "\<And>a d. xv a d \<noteq> Inl Diverges"
  shows "(\<exists>r. fst (execute_request_impl E xv n code s) = Inr r)
         \<or> (\<exists>m. fst (execute_request_impl E xv n code s) = Inl (Undefined_behaviour m))"
proof -
  obtain b t where eb: "execute_body E xv n code s = (b, t)" by fastforce
  have "b \<noteq> Inl Diverges" by (rule returnsD [OF execute_body_returns [OF assms] eb])
  with eb show ?thesis
    by (cases b) (auto simp: execute_request_impl_def split: error.split)
qed

text \<open>
  C8. Once a database has been loaded, no request (DELETE included, whatever it returns or throws) ever clears the loaded flag: the session never goes back to the closed state.
\<close>

theorem loaded_never_reset:
  assumes "bd_is_loaded s" and "execute_request_impl E xv n code s = (r, s')"
  shows "bd_is_loaded s'"
proof -
  obtain b t where eb: "execute_body E xv n code s = (b, t)" by fastforce
  with assms(1) have t: "bd_is_loaded t" by (rule preservesD [OF execute_body_loaded])
  show ?thesis
  proof (cases b)
    case (Inl e)
    with t eb assms(2) show ?thesis by (cases e) (auto simp: execute_request_impl_def)
  next
    case (Inr u)
    with t eb assms(2) show ?thesis by (auto simp: execute_request_impl_def)
  qed
qed

text \<open>
  C9. In every reachable state the backup handle is null, so a BACKUP whose argument passes the type check dereferences a null pointer: the command can never succeed.
\<close>

theorem backup_undefined_when_reachable:
  assumes "reachable E xv s" "bd_is_loaded s" "map c_tolower c = ''backup''"
    and "\<not> (1 < length b \<and> signed_char (b ! 0) \<le> 1)"
  shows "parse_SQLite_magic E n [c, b] s = (Inl (Undefined_behaviour ''null m_backup_db dereferenced''), s)"
proof -
  have "m_backup_db s = None" using reachable_session_inv [OF assms(1)] by (simp add: session_inv_def)
  with assms(2-4) show ?thesis by (simp add: magic_simps backup_def)
qed

text \<open>
  C10. In a reachable state where no database is loaded, a cell that is not a magic command is run against the null database handle: undefined behaviour instead of the precondition error.
\<close>

theorem sql_before_load_undefined:
  assumes "reachable E xv s" "\<not> bd_is_loaded s" "\<not> is_magic (tokenizer (sanitize_string code))"
  shows "execute_request_impl E xv n code s = (Inl (Undefined_behaviour ''null m_db dereferenced''), s)"
proof -
  have "m_db s = None" using reachable_session_inv [OF assms(1)] assms(2) by (simp add: session_inv_def)
  with assms(3) show ?thesis
    by (simp add: execute_request_impl_def execute_body_def run_sql_def process_SQLite_input_def bindE_def)
qed

text \<open>
  C5. When the magic dispatcher throws a runtime error, the request replies with status error, ename Error and the message, publishes the error with the one-line traceback "Error: <message>", and runs neither the chart nor any SQL.
\<close>

theorem magic_error_reply:
  assumes "is_magic (tokenizer (sanitize_string code))"
    and "parse_SQLite_magic E n (strip_magic (tokenizer (sanitize_string code))) s = (Inl (Runtime_error m), s')"
  shows "execute_request_impl E xv n code s =
           (Inr (error_reply m), publish (Execute_error ''Error'' m [''Error: '' @ m]) s')"
  using assms by (simp add: execute_request_impl_def execute_body_def Let_def bindE_Inl)

text \<open>
  C4. For any engine in which a fresh database has no table foo and CREATE TABLE foo creates it, the session %CREATE x test.db; %TABLE_EXISTS foo; CREATE TABLE foo; %TABLE_EXISTS foo replies ok four times and publishes exactly "doesn't exist" and then "exists".
\<close>

theorem table_exists_roundtrip:
  assumes empty: "\<not> eng_table_exists E (eng_file E '''') ''foo''"
    and prep: "eng_prepare E (eng_file E '''') ''CREATE TABLE foo'' = Inr \<lparr>st_columns = [], st_step = ss\<rparr>"
    and ex: "eng_exec E (eng_file E '''') False ''CREATE TABLE foo'' = Inr dnew"
    and has: "eng_table_exists E dnew ''foo''"
    and room: "files s ''test.db'' \<noteq> None \<or> creatable s ''test.db''"
  shows "\<exists>s'. run_requests E xv [(1, ''%CREATE x test.db''), (2, ''%TABLE_EXISTS foo''),
                               (3, ''CREATE TABLE foo''), (4, ''%TABLE_EXISTS foo'')] s
           = (Inr [ok_reply, ok_reply, ok_reply, ok_reply], s')
         \<and> iopub s' = iopub s @ [Execute_result 2 [(''text/plain'', Text ''The table foo doesn't exist.'')],
                                 Execute_result 4 [(''text/plain'', Text ''The table foo exists.'')]]"
  using assms
  by (auto simp: execute_request_impl_def execute_body_def sanitize_string_def is_ctrl_def
        is_space_ctrl_def tokenizer_def is_quote_def is_magic_def strip_magic_def magic_simps
        create_db_def vec_at_def bindE_def Let_def is_xvega_def open_into_def open_database_def
        ofstream_write_def memory_path_def table_exists_def publish_result_def publish_def
        run_sql_def process_SQLite_input_def write_through_def)
text \<open>
  C11. Liveness of the session: with an engine whose statements all stop and whose
  calls all return, and a chart renderer that returns, every request of a session is
  answered with one reply each, unless undefined behaviour ends the session; runtime
  errors never end it.
\<close>

theorem requests_answered:
  assumes "engine_returns E" "\<forall>a d. xv a d \<noteq> Inl Diverges"
  shows "(\<exists>replies. fst (run_requests E xv rs s) = Inr replies \<and> length replies = length rs)
         \<or> (\<exists>m. fst (run_requests E xv rs s) = Inl (Undefined_behaviour m))"
proof (induction rs arbitrary: s)
  case Nil
  then show ?case by simp
next
  case (Cons req rs)
  obtain n code where req: "req = (n, code)" by fastforce
  obtain r s' where ex: "execute_request_impl E xv n code s = (r, s')" by fastforce
  obtain rr s'' where rest: "run_requests E xv rs s' = (rr, s'')" by fastforce
  have out: "(\<exists>x. r = Inr x) \<or> (\<exists>m. r = Inl (Undefined_behaviour m))"
    using execute_request_impl_outcome [OF assms(1), of xv n code s] assms(2) ex by auto
  have ih: "(\<exists>replies. rr = Inr replies \<and> length replies = length rs)
            \<or> (\<exists>m. rr = Inl (Undefined_behaviour m))"
    using Cons.IH [of s'] rest by simp
  show ?case
    using out ih by (auto simp: req ex rest)
qed

section \<open>A read-only session\<close>

lemma load_request:
  assumes "tokenizer (sanitize_string code) = [lc, p, mode]" "map c_tolower (tl lc) = ''load''"
    and "lc \<noteq> []" "hd lc = CHR ''%''" "files s p = Some d" "p \<noteq> memory_path"
  shows "execute_request_impl E xv n code s =
           (Inr ok_reply, s\<lparr>db_path := p, bd_is_loaded := True,
              m_db := Some \<lparr>h_file = Some p, h_readonly = (\<not> str_contains mode ''rw'' \<and> str_contains mode ''r''),
                            h_data = d\<rparr>\<rparr>)"
proof -
  have "\<not> is_xvega [tl lc, p, mode]"
    using assms(2) by (auto simp: is_xvega_def ci_iff)
  then show ?thesis
    using assms
    by (simp add: execute_request_impl_def execute_body_def is_magic_def strip_magic_def
          magic_simps bindE_def Let_def load_db_def open_into_def open_database_def)
qed

lemma sql_no_columns_request:
  assumes "\<not> is_magic (tokenizer (sanitize_string code))" "m_db s = Some h"
    and "eng_prepare E (h_data h) code = Inr q" "st_columns q = []"
    and "eng_exec E (h_data h) (h_readonly h) code = Inl (Runtime_error m)"
  shows "execute_request_impl E xv n code s =
           (Inr (error_reply m), publish (Execute_error ''Error'' m [''Error: '' @ m]) s)"
  using assms
  by (simp add: execute_request_impl_def execute_body_def run_sql_def process_SQLite_input_def
        bindE_def Let_def)

text \<open>
  C13. A database loaded read-only is protected: after LOAD path mode with a mode that
  contains "r" but not "rw", a statement without result columns is executed through
  a read-only handle, so when the engine refuses the write the request replies with
  the engine's error and the file keeps its contents.
\<close>

theorem read_only_load_protects_file:
  assumes "files s p = Some d0" "p \<noteq> memory_path"
    and "tokenizer (sanitize_string c1) = [lc, p, mode]" "map c_tolower (tl lc) = ''load''"
    and "lc \<noteq> []" "hd lc = CHR ''%''"
    and "str_contains mode ''r''" "\<not> str_contains mode ''rw''"
    and "\<not> is_magic (tokenizer (sanitize_string c2))"
    and "eng_prepare E d0 c2 = Inr q" "st_columns q = []"
    and "eng_exec E d0 True c2 = Inl (Runtime_error m)"
  shows "\<exists>s'. run_requests E xv [(1, c1), (2, c2)] s = (Inr [ok_reply, error_reply m], s')
              \<and> files s' p = Some d0"
proof -
  let ?h = "\<lparr>h_file = Some p, h_readonly = True, h_data = d0\<rparr>"
  let ?s1 = "s\<lparr>db_path := p, bd_is_loaded := True, m_db := Some ?h\<rparr>"
  have r1: "execute_request_impl E xv 1 c1 s = (Inr ok_reply, ?s1)"
    using load_request [OF assms(3-6,1,2), of E xv 1] assms(7,8) by simp
  have r2: "execute_request_impl E xv 2 c2 ?s1 =
      (Inr (error_reply m), publish (Execute_error ''Error'' m [''Error: '' @ m]) ?s1)"
  proof (rule sql_no_columns_request)
    show "eng_prepare E (h_data ?h) c2 = Inr q" using assms(10) by simp
    show "eng_exec E (h_data ?h) (h_readonly ?h) c2 = Inl (Runtime_error m)" using assms(12) by simp
  qed (use assms(9,11) in simp_all)
  show ?thesis
    using r1 r2 assms(1) by simp
qed

section \<open>Witnesses\<close>

theorem loaded_never_reset_witness:
  "bd_is_loaded (snd (execute_request_impl sample_engine (\<lambda>_ _. Inr []) 1 ''%DELETE''
     (sample_session\<lparr>bd_is_loaded := True, db_path := ''chinook.db''\<rparr>)))"
  by (rule loaded_never_reset [where r = "fst (execute_request_impl sample_engine (\<lambda>_ _. Inr []) 1 ''%DELETE''
     (sample_session\<lparr>bd_is_loaded := True, db_path := ''chinook.db''\<rparr>))"]) simp_all

theorem backup_undefined_when_reachable_witness:
  "parse_SQLite_magic sample_engine 1 [''BACKUP'', ''0'']
     (sample_session\<lparr>bd_is_loaded := True, db_path := memory_path,
        m_db := Some \<lparr>h_file = None, h_readonly = False, h_data = []\<rparr>\<rparr>) =
   (Inl (Undefined_behaviour ''null m_backup_db dereferenced''),
     sample_session\<lparr>bd_is_loaded := True, db_path := memory_path,
        m_db := Some \<lparr>h_file = None, h_readonly = False, h_data = []\<rparr>\<rparr>)"
proof (rule backup_undefined_when_reachable)
  let ?s1 = "sample_session\<lparr>bd_is_loaded := True, db_path := memory_path,
        m_db := Some \<lparr>h_file = None, h_readonly = False, h_data = []\<rparr>\<rparr>"
  have run: "execute_request_impl sample_engine (\<lambda>_ _. Inr []) 1 ''%CREATE x :memory:'' sample_session
             = (Inr ok_reply, ?s1)"
    by (simp add: execute_request_impl_def execute_body_def sanitize_string_def is_ctrl_def
        is_space_ctrl_def tokenizer_def is_quote_def is_magic_def strip_magic_def magic_simps
        create_db_def vec_at_def bindE_def Let_def is_xvega_def open_into_def open_database_def
        memory_path_def sample_session_def interp_init_def sample_engine_def)
  have "reachable sample_engine (\<lambda>_ _. Inr []) sample_session"
    unfolding sample_session_def by (rule reachable.init)
  from this run show "reachable sample_engine (\<lambda>_ _. Inr []) ?s1" by (rule reachable.step)
qed (simp_all add: c_tolower_def signed_char_def)

theorem sql_before_load_undefined_witness:
  "execute_request_impl sample_engine (\<lambda>_ _. Inr []) 1 ''SELECT 1'' sample_session =
     (Inl (Undefined_behaviour ''null m_db dereferenced''), sample_session)"
proof (rule sql_before_load_undefined)
  show "reachable sample_engine (\<lambda>_ _. Inr []) sample_session"
    unfolding sample_session_def by (rule reachable.init)
qed (simp_all add: sample_session_def interp_init_def sanitize_string_def is_ctrl_def is_space_ctrl_def
       tokenizer_def is_quote_def is_magic_def)

theorem magic_error_reply_witness:
  "execute_request_impl sample_engine (\<lambda>_ _. Inr []) 1 ''%DELETE'' sample_session =
     (Inr (error_reply ''Load a database to run this command.''),
      publish (Execute_error ''Error'' ''Load a database to run this command.''
                 [''Error: '' @ ''Load a database to run this command.'']) sample_session)"
  by (rule magic_error_reply)
     (simp_all add: sanitize_string_def is_ctrl_def is_space_ctrl_def tokenizer_def is_quote_def
        is_magic_def strip_magic_def magic_simps sample_session_def interp_init_def)

theorem table_exists_roundtrip_witness:
  "\<exists>s'. run_requests sample_engine (\<lambda>_ _. Inr []) [(1, ''%CREATE x test.db''), (2, ''%TABLE_EXISTS foo''),
                               (3, ''CREATE TABLE foo''), (4, ''%TABLE_EXISTS foo'')]
                      (sample_session\<lparr>creatable := (\<lambda>_. True)\<rparr>)
           = (Inr [ok_reply, ok_reply, ok_reply, ok_reply], s')
         \<and> iopub s' = iopub (sample_session\<lparr>creatable := (\<lambda>_. True)\<rparr>) @
             [Execute_result 2 [(''text/plain'', Text ''The table foo doesn't exist.'')],
              Execute_result 4 [(''text/plain'', Text ''The table foo exists.'')]]"
  by (rule table_exists_roundtrip [where ss = "list_steps []" and dnew = "[''foo'']"])
     (simp_all add: sample_engine_def)
theorem requests_answered_witness:
  "(\<exists>replies. fst (run_requests sample_engine (\<lambda>_ _. Inr []) [(1, ''SELECT name FROM sqlite_master'')]
        sample_session) = Inr replies \<and> length replies = length [(1::nat, ''SELECT name FROM sqlite_master'')])
   \<or> (\<exists>m. fst (run_requests sample_engine (\<lambda>_ _. Inr []) [(1, ''SELECT name FROM sqlite_master'')]
        sample_session) = Inl (Undefined_behaviour m))"
  by (rule requests_answered) (simp_all add: engine_returns_sample)

theorem read_only_load_protects_file_witness:
  "\<exists>s'. run_requests sample_engine (\<lambda>_ _. Inr []) [(1, ''%LOAD chinook.db r''), (2, ''CREATE TABLE foo'')]
          sample_session =
          (Inr [ok_reply, error_reply ''attempt to write a readonly database''], s')
        \<and> files s' ''chinook.db'' = Some [''albums'']"
  by (rule read_only_load_protects_file [where lc = "''%LOAD''" and mode = "''r''"
        and q = "\<lparr>st_columns = [], st_step = list_steps []\<rparr>"])
     (simp_all add: sanitize_string_def is_space_ctrl_def is_ctrl_def tokenizer_def is_quote_def
        c_tolower_def sample_session_def interp_init_def memory_path_def sample_engine_def is_magic_def)

end
