(* ===== verification/Completion.thy ===== *)
theory Completion
  imports Kernel
begin

text \<open>
  The completion handler \<open>interpreter::complete_request_impl\<close> and its helpers
  \<open>startswith\<close> and \<open>is_identifier\<close>, with the other constant handlers
  (\<open>inspect_request_impl\<close>, \<open>is_complete_request_impl\<close>,
  \<open>kernel_info_request_impl\<close>, \<open>shutdown_request_impl\<close>).  The backward scan over
  identifier characters is a recursion on the index; \<open>std::isalpha\<close> of a
  negative \<open>char\<close> is undefined behaviour, so \<open>is_identifier\<close> returns a result.
  The refinement lemma relates the scan to a declarative specification: the fragment
  is the longest suffix of identifier characters before the cursor.
\<close>

section \<open>Definitions\<close>

text \<open>The 147 keywords of the static array \<open>keywords\<close>, in the array's order.\<close>

definition keywords_array :: "string list" where
  "keywords_array =
     [''ABORT'', ''ACTION'', ''ADD'', ''AFTER'', ''ALL'', ''ALTER'', ''ALWAYS'', ''ANALYZE'',
      ''AND'', ''AS'', ''ASC'', ''ATTACH'', ''AUTOINCREMENT'', ''BEFORE'', ''BEGIN'', ''BETWEEN'',
      ''BY'', ''CASCADE'', ''CASE'', ''CAST'', ''CHECK'', ''COLLATE'', ''COLUMN'', ''COMMIT'',
      ''CONFLICT'', ''CONSTRAINT'', ''CREATE'', ''CROSS'', ''CURRENT'', ''CURRENT_DATE'', ''CURRENT_TIME'', ''CURRENT_TIMESTAMP'',
      ''DATABASE'', ''DEFAULT'', ''DEFERRABLE'', ''DEFERRED'', ''DELETE'', ''DESC'', ''DETACH'', ''DISTINCT'',
      ''DO'', ''DROP'', ''EACH'', ''ELSE'', ''END'', ''ESCAPE'', ''EXCEPT'', ''EXCLUDE'',
      ''EXCLUSIVE'', ''EXISTS'', ''EXPLAIN'', ''FAIL'', ''FILTER'', ''FIRST'', ''FOLLOWING'', ''FOR'',
      ''FOREIGN'', ''FROM'', ''FULL'', ''GENERATED'', ''GLOB'', ''GROUP'', ''GROUPS'', ''HAVING'',
      ''IF'', ''IGNORE'', ''IMMEDIATE'', ''IN'', ''INDEX'', ''INDEXED'', ''INITIALLY'', ''INNER'',
      ''INSERT'', ''INSTEAD'', ''INTERSECT'', ''INTO'', ''IS'', ''ISNULL'', ''JOIN'', ''KEY'',
      ''LAST'', ''LEFT'', ''LIKE'', ''LIMIT'', ''MATCH'', ''MATERIALIZED'', ''NATURAL'', ''NO'',
      ''NOT'', ''NOTHING'', ''NOTNULL'', ''NULL'', ''NULLS'', ''OF'', ''OFFSET'', ''ON'',
      ''OR'', ''ORDER'', ''OTHERS'', ''OUTER'', ''OVER'', ''PARTITION'', ''PLAN'', ''PRAGMA'',
      ''PRECEDING'', ''PRIMARY'', ''QUERY'', ''RAISE'', ''RANGE'', ''RECURSIVE'', ''REFERENCES'', ''REGEXP'',
      ''REINDEX'', ''RELEASE'', ''RENAME'', ''REPLACE'', ''RESTRICT'', ''RETURNING'', ''RIGHT'', ''ROLLBACK'',
      ''ROW'', ''ROWS'', ''SAVEPOINT'', ''SELECT'', ''SET'', ''TABLE'', ''TEMP'', ''TEMPORARY'',
      ''THEN'', ''TIES'', ''TO'', ''TRANSACTION'', ''TRIGGER'', ''UNBOUNDED'', ''UNION'', ''UNIQUE'',
      ''UPDATE'', ''USING'', ''VACUUM'', ''VALUES'', ''VIEW'', ''VIRTUAL'', ''WHEN'', ''WHERE'',
      ''WINDOW'', ''WITH'', ''WITHOUT'']"

definition startswith :: "string \<Rightarrow> string \<Rightarrow> bool" where
  "startswith str cmp \<longleftrightarrow> take (length cmp) str = cmp"

text \<open>\<open>std::isalpha\<close> in the "C" locale.\<close>

definition c_isalpha :: "char \<Rightarrow> bool" where
  "c_isalpha c \<longleftrightarrow>
     (65 \<le> (of_char c :: nat) \<and> (of_char c :: nat) \<le> 90) \<or>
     (97 \<le> (of_char c :: nat) \<and> (of_char c :: nat) \<le> 122)"

text \<open>
  \<open>is_identifier(char c)\<close>: \<open>std::isalpha(c) || std::isdigit(c) || c == '_'\<close>.
  The argument is the signed \<open>char\<close> converted to \<open>int\<close>; the classification
  functions are undefined for a negative value other than \<open>EOF\<close>.
\<close>

definition is_identifier :: "char \<Rightarrow> bool result" where
  "is_identifier c =
     (if signed_char c < 0
      then Inl (Undefined_behaviour ''std::isalpha of a negative char'')
      else Inr (c_isalpha c \<or> is_digit_char c \<or> c = CHR ''_''))"

text \<open>
  The loop \<open>for (int i = code.size() - 1; i >= 0; --i)\<close>: \<open>scan_back code i\<close>
  examines the indices below \<open>i\<close> from the top and gives the first one holding a
  non-identifier character, or \<open>-1\<close>.
\<close>

fun scan_back :: "string \<Rightarrow> nat \<Rightarrow> int result" where
  "scan_back code 0 = Inr (-1)"
| "scan_back code (Suc i) =
     (case is_identifier (code ! i) of
        Inl e \<Rightarrow> Inl e
      | Inr True \<Rightarrow> scan_back code i
      | Inr False \<Rightarrow> Inr (int i))"

text \<open>
  \<open>raw_code.substr(0, cursor_pos)\<close>: the \<open>int\<close> becomes a \<open>size_t\<close>, so a negative
  position is a huge count and the whole string is taken.
\<close>

definition cursor_prefix :: "string \<Rightarrow> int \<Rightarrow> string" where
  "cursor_prefix raw_code cursor_pos =
     take (if cursor_pos < 0 then length raw_code else nat cursor_pos) raw_code"

definition complete_request_impl :: "string \<Rightarrow> int \<Rightarrow> json result" where
  "complete_request_impl raw_code cursor_pos =
     (let code = cursor_prefix raw_code cursor_pos in
      case scan_back code (length code) of
        Inl e \<Rightarrow> Inl e
      | Inr pos \<Rightarrow>
          (let to_match = (if pos = -1 then code else drop (nat (pos + 1)) code);
               matches = filter (\<lambda>kw. startswith kw to_match) keywords_array
           in Inr (JObj [(''cursor_start'', JInt (if pos = -1 then 0 else pos + 1)),
                         (''status'', JStr ''ok''),
                         (''cursor_end'', JInt cursor_pos),
                         (''matches'', JArr (map JStr matches))])))"

definition inspect_request_impl :: "string \<Rightarrow> int \<Rightarrow> int \<Rightarrow> json" where
  "inspect_request_impl code cursor_pos detail_level = JObj [(''status'', JStr ''ok'')]"

definition is_complete_request_impl :: "string \<Rightarrow> json" where
  "is_complete_request_impl code = JObj [(''status'', JStr ''complete'')]"

text \<open>The branch compiled in (\<open>#else\<close>), for the configured \<open>XSQLITE_VERSION\<close>.\<close>

definition kernel_info_request_impl :: "string \<Rightarrow> json" where
  "kernel_info_request_impl version =
     JObj [(''implementation'', JStr ''xsqlite''),
           (''implementation_version'', JStr version),
           (''banner'', JStr ''xsqlite''),
           (''language_info'', JObj [(''name'', JStr ''sqlite3''), (''version'', JStr version),
              (''mimetype'', JStr ''text/x-sqlite3-console''),
              (''file_extension'', JStr ''.sqlite3-console'')])]"

definition shutdown_request_impl :: "(unit, 'd interp) exc" where
  "shutdown_request_impl = returnE ()"

section \<open>Specification\<close>

text \<open>The identifier characters, as a predicate.\<close>

definition ident_char :: "char \<Rightarrow> bool" where
  "ident_char c \<longleftrightarrow> c_isalpha c \<or> is_digit_char c \<or> c = CHR ''_''"

text \<open>
  The completion the handler promises (spec section 4.6): the fragment is the
  longest run of identifier characters ending at the cursor, \<open>cursor_start\<close> the
  index where it begins, and the matches the keywords_array it is a prefix of, in the
  array's order.
\<close>

definition completion_spec :: "string \<Rightarrow> int \<Rightarrow> json" where
  "completion_spec raw_code cursor_pos =
     (let code = cursor_prefix raw_code cursor_pos;
          k = length (takeWhile ident_char (rev code))
      in JObj [(''cursor_start'', JInt (int (length code - k))),
               (''status'', JStr ''ok''),
               (''cursor_end'', JInt cursor_pos),
               (''matches'', JArr (map JStr [kw \<leftarrow> keywords_array. prefix (drop (length code - k) code) kw]))])"

section \<open>The scan\<close>

lemma signed_char_neg: "signed_char c < 0 \<longleftrightarrow> 128 \<le> (of_char c :: nat)"
proof -
  have w: "(of_char c :: 8 word) = of_nat (of_char c :: nat)"
    by (simp add: of_nat_of_char)
  have "signed_char c < 0 \<longleftrightarrow> bit (of_char c :: nat) 7"
    unfolding signed_char_def w
    by (simp flip: bit_last_iff add: bit_of_nat_iff possible_bit_def)
  also have "\<dots> \<longleftrightarrow> 128 \<le> (of_char c :: nat)"
    by (simp add: bit7_nat)
  finally show ?thesis .
qed

lemma is_identifier_ascii:
  "(of_char c :: nat) < 128 \<Longrightarrow> is_identifier c = Inr (ident_char c)"
  by (simp add: is_identifier_def ident_char_def signed_char_neg)

lemma is_identifier_high:
  "128 \<le> (of_char c :: nat) \<Longrightarrow>
   is_identifier c = Inl (Undefined_behaviour ''std::isalpha of a negative char'')"
  by (simp add: is_identifier_def signed_char_neg)

lemma startswith_prefix: "startswith s c \<longleftrightarrow> prefix c s"
  by (metis append_eq_conv_conj prefix_def startswith_def)

lemma scan_back_spec:
  "i \<le> length code \<Longrightarrow> \<forall>c \<in> set (take i code). (of_char c :: nat) < 128 \<Longrightarrow>
   scan_back code i =
     Inr (let k = length (takeWhile ident_char (rev (take i code)))
          in if k = i then -1 else int (i - k) - 1)"
proof (induction i)
  case 0
  then show ?case by simp
next
  case (Suc i)
  have tk: "take (Suc i) code = take i code @ [code ! i]"
    using Suc.prems(1) by (simp add: take_Suc_conv_app_nth)
  have a: "(of_char (code ! i) :: nat) < 128" using Suc.prems(2) by (simp add: tk)
  have ih: "scan_back code i =
     Inr (let k = length (takeWhile ident_char (rev (take i code)))
          in if k = i then -1 else int (i - k) - 1)"
    using Suc.prems by (intro Suc.IH) (simp_all add: tk)
  have kle: "length (takeWhile ident_char (rev (take i code))) \<le> i"
    by (metis length_rev length_take length_takeWhile_le min.bounded_iff nat_le_linear)
  show ?case
    using kle by (simp add: tk is_identifier_ascii [OF a] ih Let_def)
qed

lemma scan_back_bounds: "scan_back code i = Inr pos \<Longrightarrow> -1 \<le> pos \<and> pos < int i"
proof (induction i)
  case 0
  then show ?case by simp
next
  case (Suc i)
  then show ?case
    by (auto split: sum.splits bool.splits)
qed

section \<open>Properties\<close>

text \<open>
  C14. On input whose characters before the cursor are ASCII, the handler's backward
  scan computes the declarative completion: cursor_start is the index just after the
  last non-identifier character before the cursor (0 if none), cursor_end the cursor,
  and the matches are the keywords the fragment is a prefix of, in the array's order.
\<close>

theorem complete_request_refines:
  assumes "\<forall>c \<in> set (cursor_prefix raw p). (of_char c :: nat) < 128"
  shows "complete_request_impl raw p = Inr (completion_spec raw p)"
proof -
  define code where "code = cursor_prefix raw p"
  define k where "k = length (takeWhile ident_char (rev code))"
  have kle: "k \<le> length code"
    unfolding k_def by (metis length_rev length_takeWhile_le)
  have sb: "scan_back code (length code) = Inr (if k = length code then -1 else int (length code - k) - 1)"
    using scan_back_spec [of "length code" code] assms by (simp add: code_def k_def Let_def)
  have nd: "nat (int (length code) - int k) = length code - k" using kle by simp
  show ?thesis
    using kle
    by (simp add: nd complete_request_impl_def completion_spec_def Let_def sb
          flip: code_def k_def cong: if_cong)
       (auto simp: startswith_prefix)
qed

text \<open>
  C34. When the character just before the cursor is a byte of 128 or more (a byte of a
  UTF-8 sequence), it is passed as a negative char to std::isalpha, which is undefined
  behaviour.
\<close>

theorem complete_non_ascii_undefined:
  assumes "cursor_prefix raw p \<noteq> []" "128 \<le> (of_char (last (cursor_prefix raw p)) :: nat)"
  shows "complete_request_impl raw p = Inl (Undefined_behaviour ''std::isalpha of a negative char'')"
proof -
  obtain m where m: "length (cursor_prefix raw p) = Suc m"
    using assms(1) by (cases "length (cursor_prefix raw p)") auto
  have "cursor_prefix raw p ! m = last (cursor_prefix raw p)"
    using assms(1) m by (simp add: last_conv_nth)
  then show ?thesis
    using m assms(2) by (simp add: complete_request_impl_def is_identifier_high Let_def)
qed

text \<open>
  C15. Whatever the input and cursor, a completion reply that is returned has the
  documented shape: cursor_start an integer between 0 and the length of the text
  before the cursor, status "ok", cursor_end the cursor, and matches an array of
  strings, each a keyword of the array.
\<close>

theorem complete_reply_shape:
  assumes "complete_request_impl raw p = Inr j"
  shows "\<exists>cs ms. j = JObj [(''cursor_start'', JInt cs), (''status'', JStr ''ok''),
                            (''cursor_end'', JInt p), (''matches'', JArr (map JStr ms))]
           \<and> 0 \<le> cs \<and> cs \<le> int (length (cursor_prefix raw p)) \<and> set ms \<subseteq> set keywords_array"
proof -
  obtain pos where sb: "scan_back (cursor_prefix raw p) (length (cursor_prefix raw p)) = Inr pos"
    using assms by (cases "scan_back (cursor_prefix raw p) (length (cursor_prefix raw p))")
                   (simp_all add: complete_request_impl_def Let_def)
  have b: "-1 \<le> pos \<and> pos < int (length (cursor_prefix raw p))" by (rule scan_back_bounds [OF sb])
  define tm where "tm = (if pos = -1 then cursor_prefix raw p else drop (nat (pos + 1)) (cursor_prefix raw p))"
  have j: "j = JObj [(''cursor_start'', JInt (if pos = -1 then 0 else pos + 1)), (''status'', JStr ''ok''),
                     (''cursor_end'', JInt p),
                     (''matches'', JArr (map JStr (filter (\<lambda>kw. startswith kw tm) keywords_array)))]"
    using assms sb by (simp add: complete_request_impl_def Let_def tm_def)
  show ?thesis
    unfolding j using b
    by (intro exI [of _ "if pos = -1 then 0 else pos + 1"]
              exI [of _ "filter (\<lambda>kw. startswith kw tm) keywords_array"]) auto
qed

section \<open>Witnesses\<close>

theorem complete_request_refines_witness:
  "complete_request_impl ''x WH'' 4 = Inr (completion_spec ''x WH'' 4)"
  by (rule complete_request_refines) (simp add: cursor_prefix_def)

theorem complete_non_ascii_undefined_witness:
  "complete_request_impl (''caf'' @ [CHR 0xC3, CHR 0xA9]) 5 =
     Inl (Undefined_behaviour ''std::isalpha of a negative char'')"
  by (rule complete_non_ascii_undefined) (simp_all add: cursor_prefix_def)

theorem complete_reply_shape_witness:
  "\<exists>cs ms. JObj [(''cursor_start'', JInt 16), (''status'', JStr ''ok''), (''cursor_end'', JInt 19),
                (''matches'', JArr [JStr ''WHEN'', JStr ''WHERE''])]
           = JObj [(''cursor_start'', JInt cs), (''status'', JStr ''ok''),
                   (''cursor_end'', JInt 19), (''matches'', JArr (map JStr ms))]
         \<and> 0 \<le> cs \<and> cs \<le> int (length (cursor_prefix ''SELECT * FROM t WHE'' 19))
         \<and> set ms \<subseteq> set keywords_array"
proof (rule complete_reply_shape)
  show "complete_request_impl ''SELECT * FROM t WHE'' 19 =
     Inr (JObj [(''cursor_start'', JInt 16), (''status'', JStr ''ok''), (''cursor_end'', JInt 19),
                (''matches'', JArr [JStr ''WHEN'', JStr ''WHERE''])])"
    by code_simp
qed

end
