(* ===== verification/Browser.thy ===== *)
theory Browser
  imports Kernel
begin

text \<open>
  The emscripten build runs the interpreter in the browser's event loop: between two
  requests the loop may call the callbacks of downloads started by \<open>FETCH\<close>
  (theory \<open>Fetch\<close>) and complete the IndexedDB copies started at start-up and by
  \<open>SYNC\<close> (theory \<open>Idbfs\<close>).  A run is a sequence of such events, processed one at a
  time as the kernel does; undefined behaviour ends it.  The theorems show the order in
  which a download or a sync can take effect: a \<open>LOAD\<close> of a download's target in
  the next request fails, the callback that would write the file is itself undefined
  behaviour, so no run of callbacks changes a file; a file reaches IndexedDB only when
  a sync completes, and a synced database survives a reload of the page.
\<close>

section \<open>Events\<close>

datatype event =
    Request nat string              \<comment> \<open>an \<open>execute_request\<close> with its counter and cell\<close>
  | Fetch_succeeded nat string      \<comment> \<open>\<open>onsuccess\<close> of the \<open>i\<close>-th download, with its bytes\<close>
  | Fetch_failed nat "16 word"      \<comment> \<open>\<open>onerror\<close> of the \<open>i\<close>-th download, with the HTTP status\<close>
  | Fetch_progress nat "64 word" "64 word" "64 word"
      \<comment> \<open>\<open>onprogress\<close>: \<open>dataOffset\<close>, \<open>numBytes\<close>, \<open>totalBytes\<close>\<close>
  | Sync_completed nat              \<comment> \<open>the \<open>i\<close>-th \<open>FS.syncfs\<close> in flight completes\<close>

text \<open>
  A run of events, with \<open>fmt\<close> the text \<open>std::ostream\<close> gives for the
  \<open>double\<close> percentage of a progress line.  The browser calls a download's callbacks
  only while its fetch is open; an event for another download does not occur.
\<close>

fun run_events ::
  "(64 word \<Rightarrow> 64 word \<Rightarrow> string) \<Rightarrow> 'd engine \<Rightarrow> xvega_renderer \<Rightarrow> event list \<Rightarrow>
     (json list, 'd interp) exc" where
  "run_events fmt E xv [] s = (Inr [], s)"
| "run_events fmt E xv (Request n code # evs) s =
     (case execute_request_impl E xv n code s of
        (Inl e, s') \<Rightarrow> (Inl e, s')
      | (Inr r, s') \<Rightarrow>
          (case run_events fmt E xv evs s' of
             (Inl e, s'') \<Rightarrow> (Inl e, s'')
           | (Inr rs, s'') \<Rightarrow> (Inr (r # rs), s'')))"
| "run_events fmt E xv (Fetch_succeeded i bytes # evs) s =
     (if fetch_live i s then
        (case fetch_onsuccess E i bytes s of
           (Inl e, s') \<Rightarrow> (Inl e, s')
         | (Inr _, s') \<Rightarrow> run_events fmt E xv evs s')
      else run_events fmt E xv evs s)"
| "run_events fmt E xv (Fetch_failed i st # evs) s =
     (if fetch_live i s then
        (case fetch_onerror i st s of
           (Inl e, s') \<Rightarrow> (Inl e, s')
         | (Inr _, s') \<Rightarrow> run_events fmt E xv evs s')
      else run_events fmt E xv evs s)"
| "run_events fmt E xv (Fetch_progress i off nb tot # evs) s =
     (if fetch_live i s then
        (case fetch_onprogress fmt i off nb tot s of
           (Inl e, s') \<Rightarrow> (Inl e, s')
         | (Inr _, s') \<Rightarrow> run_events fmt E xv evs s')
      else run_events fmt E xv evs s)"
| "run_events fmt E xv (Sync_completed i # evs) s =
     (case sync_complete i s of
        (Inl e, s') \<Rightarrow> (Inl e, s')
      | (Inr _, s') \<Rightarrow> run_events fmt E xv evs s')"

section \<open>Requests on download commands\<close>

lemma fetch_request:
  assumes "tokenizer (sanitize_string code) = [fc, url, f]" "map c_tolower (tl fc) = ''fetch''"
    and "fc \<noteq> []" "hd fc = CHR ''%''"
  shows "execute_request_impl E xv n code s = (Inr ok_reply, fetch url f s)"
proof -
  have "\<not> is_xvega (tl fc # [url, f])"
    using assms(2) by (auto simp: is_xvega_def ci_iff)
  then show ?thesis
    using assms
    by (simp add: execute_request_impl_def execute_body_def is_magic_def strip_magic_def
          magic_simps bindE_def Let_def)
qed

lemma load_missing_request:
  assumes "tokenizer (sanitize_string code) = [lc, f]" "map c_tolower (tl lc) = ''load''"
    and "lc \<noteq> []" "hd lc = CHR ''%''" "files s f = None" "f \<noteq> memory_path"
  shows "execute_request_impl E xv n code s =
           (Inr (error_reply ''The path doesn't exist.''),
            publish (Execute_error ''Error'' ''The path doesn't exist.'' [''Error: '' @ ''The path doesn't exist.''])
              (s\<lparr>db_path := f\<rparr>))"
  using assms
  by (simp add: execute_request_impl_def execute_body_def is_magic_def strip_magic_def
        magic_simps bindE_def Let_def)

lemma sync_request:
  assumes "tokenizer (sanitize_string code) = [sc]" "map c_tolower (tl sc) = ''sync''"
    and "sc \<noteq> []" "hd sc = CHR ''%''"
  shows "execute_request_impl E xv n code s = (Inr ok_reply, ems_sync_db s)"
proof -
  have "\<not> is_xvega [tl sc]"
    using assms(2) by (auto simp: is_xvega_def ci_iff)
  then show ?thesis
    using assms
    by (simp add: execute_request_impl_def execute_body_def is_magic_def strip_magic_def
          magic_simps bindE_def Let_def)
qed

lemma test_request:
  assumes "tokenizer (sanitize_string code) = [tc]" "map c_tolower (tl tc) = ''test''"
    and "tc \<noteq> []" "hd tc = CHR ''%''"
  shows "execute_request_impl E xv n code s =
           (Inr ok_reply, ofstream_write E testit_path (''my text here!'' @ nl) s)"
proof -
  have "\<not> is_xvega [tl tc]"
    using assms(2) by (auto simp: is_xvega_def ci_iff)
  then show ?thesis
    using assms
    by (simp add: execute_request_impl_def execute_body_def is_magic_def strip_magic_def
          magic_simps bindE_def Let_def)
qed

lemma load_existing_request:
  assumes "tokenizer (sanitize_string code) = [lc, p]" "map c_tolower (tl lc) = ''load''"
    and "lc \<noteq> []" "hd lc = CHR ''%''" "files s p = Some d" "p \<noteq> memory_path"
  shows "\<exists>h. execute_request_impl E xv n code s =
               (Inr ok_reply, s\<lparr>db_path := p, bd_is_loaded := True, m_db := Some h\<rparr>)
             \<and> h_data h = d"
proof -
  have "\<not> is_xvega [tl lc, p]"
    using assms(2) by (auto simp: is_xvega_def ci_iff)
  then show ?thesis
    using assms
    by (intro exI [of _ "\<lparr>h_file = Some p, h_readonly = (\<not> str_contains p ''rw'' \<and> str_contains p ''r''),
                          h_data = d\<rparr>"])
       (simp add: execute_request_impl_def execute_body_def is_magic_def strip_magic_def
          magic_simps bindE_def Let_def load_db_def open_into_def open_database_def)
qed

section \<open>Order of a download and its use\<close>

text \<open>
  C23. A download cannot be used in the request that follows it: after a FETCH url f
  request (answered ok, the download queued), a LOAD f request whose file does not
  exist yet fails with "The path doesn't exist.", whatever the session's state; the
  open handle is kept.
\<close>

theorem load_right_after_fetch_fails:
  assumes "tokenizer (sanitize_string c1) = [fc, url, f]" "map c_tolower (tl fc) = ''fetch''"
    and "fc \<noteq> []" "hd fc = CHR ''%''"
    and "tokenizer (sanitize_string c2) = [lc, f]" "map c_tolower (tl lc) = ''load''"
    and "lc \<noteq> []" "hd lc = CHR ''%''"
    and "files s f = None" "f \<noteq> memory_path"
  shows "\<exists>s'. run_events fmt E xv [Request 1 c1, Request 2 c2] s =
              (Inr [ok_reply, error_reply ''The path doesn't exist.''], s')
            \<and> fetches s' = fetches s @ [(url, f)] \<and> m_db s' = m_db s"
proof -
  have "files (fetch url f s) f = None" using assms(9) by simp
  with assms show ?thesis
    by (simp add: fetch_request [OF assms(1-4)] load_missing_request [OF assms(5-8)] publish_def)
qed

text \<open>
  C21. The download callbacks are undefined behaviour: for any open fetch, onsuccess
  and onerror publish their first line, free the fetch with emscripten_fetch_close and
  then read fetch->userData from it, so the run ends there with the fetch freed,
  exactly one line published, the file not written and the session untouched.
\<close>

theorem fetch_callback_use_after_free:
  assumes "fetch_live i s" "ev = Fetch_succeeded i bytes \<or> ev = Fetch_failed i st"
  shows "\<exists>s'. run_events fmt E xv (ev # evs) s =
              (Inl (Undefined_behaviour ''emscripten_fetch_t used after emscripten_fetch_close''), s')
            \<and> fetch_freed s' = fetch_freed s @ [i] \<and> length (iopub s') = Suc (length (iopub s))
            \<and> files s' = files s \<and> bd_is_loaded s' = bd_is_loaded s \<and> m_db s' = m_db s"
  using assms(2)
proof
  assume "ev = Fetch_succeeded i bytes"
  with assms(1) show ?thesis by (simp add: fetch_onsuccess_closed)
next
  assume "ev = Fetch_failed i st"
  with assms(1) show ?thesis by (simp add: fetch_onerror_closed)
qed

text \<open>
  C22. No download ever reaches the file system: a run of download callbacks
  (onsuccess, onerror, onprogress, for any fetches) leaves every file as it was,
  whether it ends in undefined behaviour or not: FETCH cannot produce a database
  that a later LOAD opens.
\<close>

theorem downloads_never_write:
  assumes "\<forall>ev \<in> set evs. case ev of Request _ _ \<Rightarrow> False | Sync_completed _ \<Rightarrow> False | _ \<Rightarrow> True"
  shows "files (snd (run_events fmt E xv evs s)) = files s"
  using assms
proof (induction evs arbitrary: s)
  case Nil
  then show ?case by simp
next
  case (Cons ev evs)
  then have rest: "files (snd (run_events fmt E xv evs s')) = files s'" for s'
    by simp
  show ?case
  proof (cases ev)
    case (Request n c)
    with Cons.prems show ?thesis by simp
  next
    case (Sync_completed j)
    with Cons.prems show ?thesis by simp
  next
    case (Fetch_succeeded i bytes)
    then show ?thesis
      by (cases "fetch_live i s") (simp_all add: fetch_onsuccess_closed rest)
  next
    case (Fetch_failed i st)
    then show ?thesis
      by (cases "fetch_live i s") (simp_all add: fetch_onerror_closed rest)
  next
    case (Fetch_progress i off nb tot)
    have "files (publish m s) = files s" for m by simp
    with Fetch_progress show ?thesis
      by (cases "fetch_live i s") (simp_all add: fetch_onprogress_live rest)
  qed
qed

section \<open>Persistence through IndexedDB\<close>

lemma testit_persistent: "in_persistent_dir testit_path"
  by (simp add: in_persistent_dir_def persistent_dir_def testit_path_def)

text \<open>
  C24. The file TEST writes reaches IndexedDB only through a completed sync: after the
  requests TEST and SYNC (both answered ok) the store is unchanged, and once the sync
  completes it holds the file's contents.
\<close>

theorem test_persisted_after_sync:
  assumes "tokenizer (sanitize_string c1) = [tc]" "map c_tolower (tl tc) = ''test''"
    and "tc \<noteq> []" "hd tc = CHR ''%''"
    and "tokenizer (sanitize_string c2) = [sc]" "map c_tolower (tl sc) = ''sync''"
    and "sc \<noteq> []" "hd sc = CHR ''%''"
    and "syncs s = []" "files s testit_path \<noteq> None \<or> creatable s testit_path"
  shows "(\<exists>s'. run_events fmt E xv [Request 1 c1, Request 2 c2] s = (Inr [ok_reply, ok_reply], s')
               \<and> idb s' = idb s)
         \<and> (\<exists>s'. run_events fmt E xv [Request 1 c1, Request 2 c2, Sync_completed 0] s =
                  (Inr [ok_reply, ok_reply], s')
               \<and> idb s' testit_path = Some (eng_file E (''my text here!'' @ nl)))"
  using assms testit_persistent
  by (simp add: test_request [OF assms(1-4)] sync_request [OF assms(5-8)] sync_complete_to_idb
        ofstream_write_def ems_sync_db_def)

text \<open>
  C25. A database survives a page reload once it has been synced: if SYNC is answered
  and its sync completes, a new session over the same IndexedDB, once the sync that
  configure_impl starts completes, can LOAD the file and sees the same contents.
\<close>

theorem synced_db_survives_reload:
  fixes s :: "'d interp"
  assumes "files s p = Some d" "in_persistent_dir p" "p \<noteq> memory_path" "syncs s = []"
    and "tokenizer (sanitize_string c1) = [sc]" "map c_tolower (tl sc) = ''sync''"
    and "sc \<noteq> []" "hd sc = CHR ''%''"
    and "tokenizer (sanitize_string c2) = [lc, p]" "map c_tolower (tl lc) = ''load''"
    and "lc \<noteq> []" "hd lc = CHR ''%''"
  shows "\<exists>s1 s2 h. run_events fmt E xv [Request 1 c1, Sync_completed 0] s = (Inr [ok_reply], s1)
           \<and> run_events fmt E xv [Sync_completed 0, Request 1 c2]
               (configure_impl ((interp_init fs cr)\<lparr>idb := idb s1\<rparr>)) = (Inr [ok_reply], s2)
           \<and> bd_is_loaded s2 \<and> m_db s2 = Some h \<and> h_data h = d"
proof -
  define s1 where "s1 = snd (sync_complete 0 (ems_sync_db s :: 'd interp))"
  have sc1: "sync_complete 0 (ems_sync_db s) = (Inr (), s1)"
    using assms(4) by (simp add: s1_def sync_complete_to_idb)
  have run1: "run_events fmt E xv [Request 1 c1, Sync_completed 0] s = (Inr [ok_reply], s1)"
    by (simp add: sync_request [OF assms(5-8)] sc1)
  have i1: "idb s1 p = Some d"
    using assms(1,2,4) by (simp add: s1_def sync_complete_to_idb)
  define r0 where "r0 = configure_impl ((interp_init fs cr)\<lparr>idb := idb s1\<rparr>)"
  have r0: "syncs r0 = [True]" "idb r0 = idb s1"
    by (simp_all add: r0_def configure_impl_def em_init_idbfs_def interp_init_def)
  define r1 where "r1 = snd (sync_complete 0 r0)"
  have sc: "sync_complete 0 r0 = (Inr (), r1)"
    using r0 by (simp add: r1_def sync_complete_from_idb)
  have f: "files r1 p = Some d"
    using assms(2) i1 r0 by (simp add: r1_def sync_complete_from_idb)
  obtain h where ld: "execute_request_impl E xv 1 c2 r1 =
      (Inr ok_reply, r1\<lparr>db_path := p, bd_is_loaded := True, m_db := Some h\<rparr>)" and hd: "h_data h = d"
    using load_existing_request [OF assms(9-12) f assms(3)] by blast
  show ?thesis
    using run1 sc ld hd
    by (intro exI [of _ s1] exI [of _ "r1\<lparr>db_path := p, bd_is_loaded := True, m_db := Some h\<rparr>"]
              exI [of _ h])
       (simp add: r0_def)
qed

section \<open>Witnesses\<close>

theorem load_right_after_fetch_fails_witness:
  "\<exists>s'. run_events (\<lambda>_ _. []) sample_engine (\<lambda>_ _. Inr []) [Request 1 ''%FETCH http://h/c.db c.db'', Request 2 ''%LOAD c.db'']
          sample_session =
          (Inr [ok_reply, error_reply ''The path doesn't exist.''], s')
        \<and> fetches s' = fetches sample_session @ [(''http://h/c.db'', ''c.db'')] \<and> m_db s' = m_db sample_session"
  by (rule load_right_after_fetch_fails [where fc = "''%FETCH''" and lc = "''%LOAD''"])
     (simp_all add: sanitize_string_def is_space_ctrl_def is_ctrl_def tokenizer_def is_quote_def
        c_tolower_def sample_session_def interp_init_def memory_path_def)

theorem fetch_callback_use_after_free_witness:
  "\<exists>s'. run_events (\<lambda>_ _. []) sample_engine (\<lambda>_ _. Inr [])
          [Fetch_succeeded 0 ''SQLite format 3'', Request 2 ''%LOAD c.db'']
          (fetch ''http://h/c.db'' ''c.db'' sample_session) =
          (Inl (Undefined_behaviour ''emscripten_fetch_t used after emscripten_fetch_close''), s')
        \<and> fetch_freed s' = fetch_freed (fetch ''http://h/c.db'' ''c.db'' sample_session) @ [0]
        \<and> length (iopub s') = Suc (length (iopub (fetch ''http://h/c.db'' ''c.db'' sample_session)))
        \<and> files s' = files (fetch ''http://h/c.db'' ''c.db'' sample_session)
        \<and> bd_is_loaded s' = bd_is_loaded (fetch ''http://h/c.db'' ''c.db'' sample_session)
        \<and> m_db s' = m_db (fetch ''http://h/c.db'' ''c.db'' sample_session)"
  by (rule fetch_callback_use_after_free [where i = 0 and bytes = "''SQLite format 3''" and st = 0])
     (simp_all add: fetch_live_def sample_session_def interp_init_def)

theorem test_persisted_after_sync_witness:
  "(\<exists>s'. run_events (\<lambda>_ _. []) sample_engine (\<lambda>_ _. Inr []) [Request 1 ''%TEST'', Request 2 ''%SYNC'']
          (sample_session\<lparr>creatable := (\<lambda>_. True)\<rparr>) = (Inr [ok_reply, ok_reply], s')
        \<and> idb s' = idb (sample_session\<lparr>creatable := (\<lambda>_. True)\<rparr>))
   \<and> (\<exists>s'. run_events (\<lambda>_ _. []) sample_engine (\<lambda>_ _. Inr [])
          [Request 1 ''%TEST'', Request 2 ''%SYNC'', Sync_completed 0]
          (sample_session\<lparr>creatable := (\<lambda>_. True)\<rparr>) = (Inr [ok_reply, ok_reply], s')
        \<and> idb s' testit_path = Some (eng_file sample_engine (''my text here!'' @ nl)))"
  by (rule test_persisted_after_sync [where tc = "''%TEST''" and sc = "''%SYNC''"])
     (simp_all add: sanitize_string_def is_space_ctrl_def is_ctrl_def tokenizer_def is_quote_def
        c_tolower_def sample_session_def interp_init_def)

theorem synced_db_survives_reload_witness:
  "\<exists>s1 s2 h. run_events (\<lambda>_ _. []) sample_engine (\<lambda>_ _. Inr []) [Request 1 ''%SYNC'', Sync_completed 0]
        (interp_init (Map.empty(''/home/web_user/xeus_sqlite/a.db'' \<mapsto> [''t''])) (\<lambda>_. False))
        = (Inr [ok_reply], s1)
     \<and> run_events (\<lambda>_ _. []) sample_engine (\<lambda>_ _. Inr [])
        [Sync_completed 0, Request 1 ''%LOAD /home/web_user/xeus_sqlite/a.db'']
        (configure_impl ((interp_init Map.empty (\<lambda>_. False))\<lparr>idb := idb s1\<rparr>)) = (Inr [ok_reply], s2)
     \<and> bd_is_loaded s2 \<and> m_db s2 = Some h \<and> h_data h = [''t'']"
  by (rule synced_db_survives_reload [where sc = "''%SYNC''" and lc = "''%LOAD''"])
     (simp_all add: sanitize_string_def is_space_ctrl_def is_ctrl_def tokenizer_def is_quote_def
        c_tolower_def interp_init_def memory_path_def in_persistent_dir_def persistent_dir_def)

theorem downloads_never_write_witness:
  "files (snd (run_events (\<lambda>_ _. []) sample_engine (\<lambda>_ _. Inr [])
      [Fetch_progress 0 0 5 0, Fetch_succeeded 0 ''SQLite format 3'']
      (fetch ''http://h/c.db'' ''c.db'' (sample_session\<lparr>creatable := (\<lambda>_. True)\<rparr>))))
   = files (fetch ''http://h/c.db'' ''c.db'' (sample_session\<lparr>creatable := (\<lambda>_. True)\<rparr>))"
  by (rule downloads_never_write) simp

end
