(* ===== verification/Spec2Isabelle.thy ===== *)
theory Spec2Isabelle
  imports Completion Browser
begin

text \<open>
  \<^bold>\<open>A model of the xeus-sqlite interpreter.\<close>
  The program is one C++ class, \<open>xeus_sqlite::interpreter\<close>, in
  \<open>src/xeus_sqlite_interpreter.cpp\<close>: a Jupyter kernel that receives a cell,
  sanitizes and tokenizes it (\<open>xv_bindings::sanitize_string\<close>, \<open>tokenizer\<close>),
  and either dispatches a magic command (a first token starting with \<open>%\<close>) that
  opens, creates, deletes or inspects the session's SQLite database, or runs the
  cell as SQL and publishes the result as a plain-text table, an HTML table and a
  column-wise data frame for the chart renderer.  The development models it in
  ten theories, each importing the ones below it:

  \<^item> \<open>Prelude\<close>: the exception-state monad \<open>('a, 's) exc\<close> in which every handler
    is written (\<open>Runtime_error\<close> is a thrown \<open>std::runtime_error\<close>,
    \<open>Undefined_behaviour\<close> an out-of-range \<open>operator[]\<close> or a null
    \<open>unique_ptr\<close> dereference, which nothing catches), the combinator
    \<open>preserves\<close> for invariants, and \<open>std::vector\<close>, \<open>std::string::find\<close>,
    \<open>std::to_string\<close> (with its round trip) as HOL functions.
  \<^item> \<open>Engine\<close>: the collaborators that are not in this repository.  The SQLiteCpp
    library is a record \<open>'d engine\<close> of operations over an abstract type of
    database contents, so every theorem holds for every engine; the file system
    and the IOPub channel are the record \<open>'d env\<close>; \<open>open_database\<close> is the
    \<open>SQLite::Database\<close> constructor with its open flags.
  \<^item> \<open>Pipeline\<close>: \<open>process_SQLite_input\<close> (lines 429--519).  \<open>step_rows\<close> is the
    \<open>executeStep()\<close> loop, \<open>emit_cells\<close> the column loop that appends each cell to
    the text table, the HTML string and the data frame in one pass.  The lemmas
    show that the pass computes the reference renderings (\<open>html_table\<close>, written out
    independently of the pass's helpers) and the frame column by column (a column
    name that occurs twice gets the cells of both columns), and that a step
    exception publishes nothing.
  \<^item> \<open>Fetch\<close>: the emscripten-only download helper \<open>fetch\<close> (lines 66--129)
    behind \<open>FETCH\<close>: it publishes a line and queues the download in the
    environment.  The download's \<open>emscripten_fetch_t\<close> and \<open>fetch_user_data\<close> live in
    an explicit store that records which objects are freed; the callbacks are
    translated statement by statement over it, and the lemmas derive that
    \<open>onsuccess\<close> and \<open>onerror\<close> read the fetch after \<open>emscripten_fetch_close\<close> freed
    it.  \<open>onprogress\<close> publishes a progress line, in which the text of the
    \<open>double\<close> percentage is a parameter \<open>fmt\<close>.
  \<^item> \<open>Idbfs\<close>: the persistent directory of the emscripten build
    (lines 133--167, 421--427): \<open>configure_impl\<close>/\<open>em_init_idbfs\<close> and the
    \<open>SYNC\<close> magic's \<open>ems_sync_db\<close> queue an \<open>FS.syncfs\<close> copy between the
    in-memory file system and IndexedDB (the record \<open>'d store_env\<close>), which
    \<open>sync_complete\<close> carries out when the browser completes it.
  \<^item> \<open>Tokenizer\<close>: the \<open>xv_bindings\<close> helpers, whose code lives in another
    repository and is modelled from the specification.
  \<^item> \<open>Magic\<close>: the interpreter's members (\<open>m_bd_is_loaded\<close>, \<open>m_db_path\<close>,
    \<open>m_db\<close>, \<open>m_backup_db\<close>) as the record \<open>'d interp\<close> extending the environment,
    \<open>load_db\<close>, \<open>create_db\<close>, \<open>delete_db\<close>, \<open>table_exists\<close>, \<open>is_unencrypted\<close>,
    \<open>get_header_info\<close>, \<open>backup\<close> and the dispatcher \<open>parse_SQLite_magic\<close>
    (lines 180--419), whose state extends the IndexedDB store.  The invariant
    \<open>session_inv\<close> (a loaded session has a path, the backup handle is null) is
    preserved by every handler; the claims give each command's behaviour on every
    branch, its errors included, and the write-through of \<open>SET_KEY\<close>/\<open>REKEY\<close>.
  \<^item> \<open>Kernel\<close>: \<open>execute_request_impl\<close> (lines 521--604), the catch of
    \<open>std::runtime_error\<close> into an error reply, the request loop \<open>run_requests\<close>
    (one request at a time, spec section 5) and the inductive \<open>reachable\<close>
    relation of session states, with the invariants proved by rule induction; a
    database loaded read-only keeps its file when a write is refused.
  \<^item> \<open>Browser\<close>: the browser's event loop as a sequence of events (\<open>run_events\<close>):
    requests, the download callbacks and the completion of a sync.  Its lemmas
    give the order in which a download or a sync can take effect, that no run of
    download callbacks changes a file, and that a database synced to IndexedDB
    survives a reload of the page.
  \<^item> \<open>Completion\<close>: \<open>complete_request_impl\<close> (lines 606--799) and the constant
    handlers; the backward scan refines the declarative completion of spec
    section 4.6.

  This theory holds the properties that span the tokenizer and the request handler:
  the SQL of a chart cell reaches \<open>process_SQLite_input\<close> as the tokens after the
  \<open><>\<close> delimiter, independent of the chart options, and it tokenizes back to them.

  Loops and termination.  A statement is a function from the step index to the
  outcome of that \<open>executeStep()\<close> (\<open>None\<close>: it returns false), so a query with
  unboundedly many rows (a recursive common table expression) is expressible.  The
  \<open>while (query.executeStep())\<close> loop \<open>step_rows\<close> is therefore a
  \<open>partial_function (option)\<close>: \<open>None\<close> is "never returns", which the pipeline
  reports as the outcome \<open>Diverges\<close>.  \<open>step_rows_returns\<close> proves that the loop
  returns as soon as some step stops, and \<open>step_rows_Some_stops\<close> (fixpoint
  induction) that it can only return after such a step; no fuel is used.  The
  combinator \<open>returns\<close> (Prelude) lifts this through the handlers, and under the
  engine contract \<open>engine_returns\<close> (Engine: every statement stops, no library
  call hangs) every request of a session is answered.  The other loops are
  structural: the completion scan recurses on the cursor index, the tokenizer on the
  input, \<open>run_requests\<close> on the list of requests.

  Bounds.  The header fields of \<open>SQLite::Header\<close> are words at their C widths
  (8, 32, 64 bits) printed by \<open>std::to_string\<close> of their unsigned value; the
  GET_INFO text is at most 849 characters and reads back to the field values.

  Not modelled: SQLite itself (an interface, \<open>'d engine\<close>) and the chart renderer
  \<open>process_xvega_input\<close> (a parameter), both outside this repository; the Jupyter
  transport; the console output of \<open>std::cout\<close>, which does not reach the IOPub
  channel; the failure of an IndexedDB sync (its callback's \<open>assert(!err)\<close>), and
  the decimal rendering of the download percentage by \<open>std::ostream\<close> (a
  parameter).
\<close>

section \<open>The chart path\<close>

lemma parse_xvega_loaded:
  "bd_is_loaded s \<Longrightarrow> parse_SQLite_magic E n (''XVEGA_PLOT'' # args) s = (Inr (), s)"
  by (simp add: magic_simps)

text \<open>
  C16. On a loaded session, a chart cell whose tokens are %XVEGA_PLOT, chart options
  without the delimiter, the delimiter <> and SQL tokens runs exactly the SQL tokens,
  joined, through process_SQLite_input into a fresh data frame, hands that frame and
  the options to the chart renderer and publishes the chart: the frame does not depend
  on the options.
\<close>

theorem xvega_chart_from_sql_tokens:
  assumes "bd_is_loaded s"
    and "tokenizer (sanitize_string code) = ''%XVEGA_PLOT'' # xo @ ''<>'' # sql"
    and "''<>'' \<notin> set xo"
  shows "execute_body E xv n code s =
           bindE (run_sql E n (join_sql sql) Map.empty) (\<lambda>d.
           bindE (liftE (xv xo d)) (\<lambda>chart.
           modifyE (publish (Execute_result n chart)))) s"
  using assms
  by (simp add: execute_body_def is_magic_def strip_magic_def is_xvega_def ci_iff c_tolower_def
        split_xv_delim bindE_def parse_xvega_loaded)

text \<open>
  C35. Re-joining SQL tokens with a space before each, as execute_request_impl does
  before process_SQLite_input, and tokenizing the result gives the tokens back when
  each is non-empty and holds no space and no quote.
\<close>

theorem sql_rejoin_roundtrip:
  assumes "\<forall>t \<in> set ts. plain_token t"
  shows "tokenizer (join_sql ts) = ts"
  using tok_go_spaced [OF assms, of "[]" "[]"] by (simp add: tokenizer_def join_sql_def)

section \<open>Witnesses\<close>

theorem xvega_chart_from_sql_tokens_witness:
  "execute_body sample_engine (\<lambda>_ _. Inr []) 1
     ''%XVEGA_PLOT x_field name <> SELECT name FROM sqlite_master''
     (sample_session\<lparr>bd_is_loaded := True\<rparr>) =
   bindE (run_sql sample_engine 1 (join_sql [''SELECT'', ''name'', ''FROM'', ''sqlite_master'']) Map.empty)
     (\<lambda>d. bindE (liftE ((\<lambda>_ _. Inr []) [''x_field'', ''name''] d)) (\<lambda>chart.
       modifyE (publish (Execute_result 1 chart)))) (sample_session\<lparr>bd_is_loaded := True\<rparr>)"
proof (rule xvega_chart_from_sql_tokens)
  show "bd_is_loaded (sample_session\<lparr>bd_is_loaded := True\<rparr>)" by simp
  show "tokenizer (sanitize_string ''%XVEGA_PLOT x_field name <> SELECT name FROM sqlite_master'') =
    ''%XVEGA_PLOT'' # [''x_field'', ''name''] @ ''<>'' # [''SELECT'', ''name'', ''FROM'', ''sqlite_master'']"
    by (simp add: sanitize_string_def is_space_ctrl_def is_ctrl_def tokenizer_def is_quote_def)
  show "''<>'' \<notin> set [''x_field'', ''name'']" by simp
qed

theorem sql_rejoin_roundtrip_witness:
  "tokenizer (join_sql [''SELECT'', ''*'', ''FROM'', ''t'']) = [''SELECT'', ''*'', ''FROM'', ''t'']"
  by (rule sql_rejoin_roundtrip) (simp add: plain_token_def is_quote_def)

end
